theory Spec2Isabelle
  imports Main "HOL-Library.Word" "HOL-Library.Sublist" "HOL-Library.Char_ord"
begin

section \<open>Resource-binding remapping of DXIL (DXCompiler.cpp)\<close>

text \<open>
  A shallow embedding of the remap engine of \<^verbatim>\<open>Graphics/ShaderTools/src/DXCompiler.cpp\<close>:
  the text patchers \<^verbatim>\<open>ReplaceRecord\<close>, \<^verbatim>\<open>PatchResourceDeclarationRT\<close>,
  \<^verbatim>\<open>PatchResourceDeclaration\<close>, \<^verbatim>\<open>PatchResourceHandle\<close>, their driver
  \<^verbatim>\<open>PatchDXIL\<close>, the pipeline \<^verbatim>\<open>RemapResourceBindings\<close> and the container probe
  \<^verbatim>\<open>IsDXILBytecode\<close>.

  Conventions. The IR text is a \<open>string\<close> (a list of bytes) and a buffer offset
  (\<^verbatim>\<open>size_t\<close>) is a \<open>nat\<close>; where the source can hold \<^verbatim>\<open>String::npos\<close> in an offset
  the model uses \<open>nat option\<close> with \<open>None\<close> for \<^verbatim>\<open>npos\<close>. \<^verbatim>\<open>Uint32\<close> is \<open>32 word\<close>.
  Every \<^verbatim>\<open>LOG_ERROR_AND_THROW\<close>, every exception of the standard library and every read
  outside the storage of a string or array is a value of type \<open>error\<close>; a function that can
  raise returns \<open>error + 'a\<close>. The macros \<^verbatim>\<open>VERIFY_EXPR\<close> and \<^verbatim>\<open>DEV_CHECK_ERR\<close> expand to
  nothing in a release build and are not modelled.
\<close>

subsection \<open>Errors and integers\<close>

datatype error =
    PatchingError string    \<comment> \<open>\<^verbatim>\<open>LOG_ERROR_AND_THROW\<close> with the logged message\<close>
  | invalid_argument        \<comment> \<open>\<^verbatim>\<open>std::stoi\<close>: no conversion could be performed\<close>
  | out_of_range            \<comment> \<open>\<^verbatim>\<open>std::stoi\<close>: the value does not fit \<^verbatim>\<open>int\<close>\<close>
  | UndefinedBehavior       \<comment> \<open>a read outside the storage, or \<^verbatim>\<open>atoi\<close> on an unrepresentable value\<close>

type_synonym Uint32 = "32 word"

definition IsWordSymbol :: "char \<Rightarrow> bool" where
  "IsWordSymbol c \<longleftrightarrow>
     (CHR ''0'' \<le> c \<and> c \<le> CHR ''9'') \<or> (CHR ''a'' \<le> c \<and> c \<le> CHR ''z'') \<or>
     (CHR ''A'' \<le> c \<and> c \<le> CHR ''Z'') \<or> c = CHR ''_''"

definition IsNumberSymbol :: "char \<Rightarrow> bool" where
  "IsNumberSymbol c \<longleftrightarrow> CHR ''0'' \<le> c \<and> c \<le> CHR ''9''"

text \<open>The white space that \<^verbatim>\<open>strtol\<close> skips (\<^verbatim>\<open>isspace\<close> in the C locale).\<close>

definition isspace :: "char \<Rightarrow> bool" where
  "isspace c \<longleftrightarrow> c \<in> set [CHR '' '', CHR 0x09, CHR 0x0A, CHR 0x0B, CHR 0x0C, CHR 0x0D]"

definition digit_value :: "char \<Rightarrow> int" where
  "digit_value c = of_char c - 48"

definition decimal_value :: "string \<Rightarrow> int" where
  "decimal_value ds = foldl (\<lambda>a c. 10 * a + digit_value c) 0 ds"

text \<open>
  The subject sequence of \<^verbatim>\<open>strtol(s, &end, 10)\<close>: leading white space is skipped, one
  optional sign is read, then the longest run of decimal digits. The result is the sign
  and the digits.
\<close>

definition strtol_subject :: "string \<Rightarrow> bool \<times> string" where
  "strtol_subject str =
     (let s1 = dropWhile isspace str in
      case s1 of
        [] \<Rightarrow> (False, [])
      | c # r \<Rightarrow>
          if c = CHR ''-'' then (True, takeWhile IsNumberSymbol r)
          else if c = CHR ''+'' then (False, takeWhile IsNumberSymbol r)
          else (False, takeWhile IsNumberSymbol s1))"

definition signed_value :: "bool \<Rightarrow> string \<Rightarrow> int" where
  "signed_value neg ds = (if neg then - decimal_value ds else decimal_value ds)"

definition in_int_range :: "int \<Rightarrow> bool" where
  "in_int_range v \<longleftrightarrow> - 2147483648 \<le> v \<and> v \<le> 2147483647"

text \<open>\<^verbatim>\<open>std::stoi\<close>: throws when there are no digits or the value is outside \<^verbatim>\<open>int\<close>.\<close>

definition stoi :: "string \<Rightarrow> error + int" where
  "stoi str =
     (case strtol_subject str of (neg, ds) \<Rightarrow>
        if ds = [] then Inl invalid_argument
        else if \<not> in_int_range (signed_value neg ds) then Inl out_of_range
        else Inr (signed_value neg ds))"

text \<open>
  \<^verbatim>\<open>atoi\<close>: 0 when there are no digits; the C standard leaves the behaviour undefined when
  the value cannot be represented.
\<close>

definition atoi :: "string \<Rightarrow> error + int" where
  "atoi str =
     (case strtol_subject str of (neg, ds) \<Rightarrow>
        if \<not> in_int_range (signed_value neg ds) then Inl UndefinedBehavior
        else Inr (signed_value neg ds))"

text \<open>\<^verbatim>\<open>static_cast<Uint32>\<close> of an \<^verbatim>\<open>int\<close>: reduction modulo \<open>2 ^ 32\<close>.\<close>

definition to_Uint32 :: "int \<Rightarrow> Uint32" where
  "to_Uint32 v = word_of_int v"

text \<open>The decimal digits of a number that is not negative.\<close>

function decimal_digits :: "int \<Rightarrow> string" where
  "decimal_digits n =
     (if n < 10 then [''0123456789'' ! nat n]
      else decimal_digits (n div 10) @ [''0123456789'' ! nat (n mod 10)])"
  by pat_completeness auto
termination
  by (relation "measure nat") auto

declare decimal_digits.simps [simp del]

text \<open>\<^verbatim>\<open>std::to_string\<close> of an unsigned 32-bit value.\<close>

definition to_string :: "Uint32 \<Rightarrow> string" where
  "to_string w = decimal_digits (uint w)"

subsection \<open>\<^verbatim>\<open>std::string\<close> operations\<close>

text \<open>
  \<^verbatim>\<open>s[i]\<close>: defined for \<open>i \<le> size\<close> (the terminating NUL at \<open>size\<close>), undefined beyond.
\<close>

definition string_at :: "string \<Rightarrow> nat \<Rightarrow> error + char" where
  "string_at s i =
     (if i < length s then Inr (s ! i)
      else if i = length s then Inr (CHR 0x00)
      else Inl UndefinedBehavior)"

text \<open>\<^verbatim>\<open>find_from pat xs i\<close> searches \<open>xs\<close>, whose first byte has offset \<open>i\<close>.\<close>

fun find_from :: "string \<Rightarrow> string \<Rightarrow> nat \<Rightarrow> nat option" where
  "find_from pat [] i = (if pat = [] then Some i else None)"
| "find_from pat (x # xs) i =
     (if prefix pat (x # xs) then Some i else find_from pat xs (Suc i))"

definition string_find :: "string \<Rightarrow> string \<Rightarrow> nat \<Rightarrow> nat option" where
  "string_find s pat pos = (if length s < pos then None else find_from pat (drop pos s) pos)"

text \<open>
  \<^verbatim>\<open>s.rfind(pat, pos)\<close>: the last occurrence that starts at or before \<open>pos\<close>. The helper
  walks \<open>xs\<close> from offset \<open>i\<close> and keeps the last match seen.
\<close>

fun rfind_from :: "string \<Rightarrow> string \<Rightarrow> nat \<Rightarrow> nat \<Rightarrow> nat option \<Rightarrow> nat option" where
  "rfind_from pat [] i pos acc = (if pat = [] \<and> i \<le> pos then Some i else acc)"
| "rfind_from pat (x # xs) i pos acc =
     (if pos < i then acc
      else rfind_from pat xs (Suc i) pos (if prefix pat (x # xs) then Some i else acc))"

definition string_rfind :: "string \<Rightarrow> string \<Rightarrow> nat \<Rightarrow> nat option" where
  "string_rfind s pat pos = rfind_from pat s 0 pos None"

fun find_first_not_of_from :: "string \<Rightarrow> string \<Rightarrow> nat \<Rightarrow> nat option" where
  "find_first_not_of_from chars [] i = None"
| "find_first_not_of_from chars (x # xs) i =
     (if x \<in> set chars then find_first_not_of_from chars xs (Suc i) else Some i)"

definition string_find_first_not_of :: "string \<Rightarrow> string \<Rightarrow> nat \<Rightarrow> nat option" where
  "string_find_first_not_of s chars pos = find_first_not_of_from chars (drop pos s) pos"

text \<open>
  \<^verbatim>\<open>s.substr(pos, endpos - pos)\<close> for \<open>pos \<le> size\<close>, where \<open>endpos\<close> may be \<^verbatim>\<open>npos\<close>: the
  count is then larger than the string and the rest of the string is taken.
\<close>

definition string_substr :: "string \<Rightarrow> nat \<Rightarrow> nat option \<Rightarrow> string" where
  "string_substr s pos endpos =
     (case endpos of None \<Rightarrow> drop pos s | Some e \<Rightarrow> take (e - pos) (drop pos s))"

text \<open>\<^verbatim>\<open>s.replace(pos, endpos - pos, str)\<close>, \<open>endpos\<close> as above.\<close>

definition string_replace :: "string \<Rightarrow> nat \<Rightarrow> nat option \<Rightarrow> string \<Rightarrow> string" where
  "string_replace s pos endpos str =
     (case endpos of None \<Rightarrow> take pos s @ str | Some e \<Rightarrow> take pos s @ str @ drop (pos + (e - pos)) s)"

definition string_insert :: "string \<Rightarrow> nat \<Rightarrow> string \<Rightarrow> string" where
  "string_insert s pos str = take pos s @ str @ drop pos s"

text \<open>
  \<^verbatim>\<open>std::strncmp(&s[pos], pat, strlen(pat)) == 0\<close> for \<open>pos \<le> size\<close> and a pattern without
  NUL: the comparison stops at the terminating NUL of \<open>s\<close>, so it succeeds exactly when
  \<open>pat\<close> is a prefix of the text at \<open>pos\<close>.
\<close>

definition strncmp_eq :: "string \<Rightarrow> nat \<Rightarrow> string \<Rightarrow> bool" where
  "strncmp_eq s pos pat \<longleftrightarrow> prefix pat (drop pos s)"

subsection \<open>The binding map\<close>

datatype RES_TYPE =
  RES_TYPE_CBV | RES_TYPE_SRV | RES_TYPE_SAMPLER | RES_TYPE_UAV | RES_TYPE_COUNT | RES_TYPE_INVALID

text \<open>
  \<^verbatim>\<open>BindInfo\<close>, the value type of \<^verbatim>\<open>TResourceBindingMap\<close>, is declared in a header outside
  the sources; its fields are taken from their uses in DXCompiler.cpp. The field
  \<^verbatim>\<open>ResType\<close> is read only by a development-build check and is left out.
\<close>

record BindInfo =
  BindPoint :: Uint32
  Space :: Uint32
  ArraySize :: Uint32

record ResourceExtendedInfo =
  SrcBindPoint :: Uint32
  SrcSpace :: Uint32
  RecordId :: Uint32
  Type :: RES_TYPE

text \<open>
  An element of \<^verbatim>\<open>TResourceBindingMap\<close> is a pair of the resource name and its
  \<^verbatim>\<open>BindInfo\<close>. \<^verbatim>\<open>TExtendedResourceMap\<close> maps a pointer to such an element to a
  \<^verbatim>\<open>ResourceExtendedInfo\<close>; the model keeps the element itself in place of the pointer
  (the binding map is constant during a remap and its names are unique) and lists the
  entries in the iteration order of the unordered map.
\<close>

type_synonym TResourceBinding = "string \<times> BindInfo"
type_synonym TResourceBindingMap = "TResourceBinding list"
type_synonym TExtendedResourceMap = "(TResourceBinding \<times> ResourceExtendedInfo) list"

subsection \<open>\<^verbatim>\<open>PatchResourceHandle\<close>: resolving an index (\<^verbatim>\<open>ReplaceBindPoint\<close>)\<close>

definition ResClassToType :: "RES_TYPE list" where
  "ResClassToType = [RES_TYPE_SRV, RES_TYPE_UAV, RES_TYPE_CBV, RES_TYPE_SAMPLER]"

text \<open>The condition of the search loop of \<^verbatim>\<open>ReplaceBindPoint\<close>, in 32-bit arithmetic.\<close>

definition bind_range_matches ::
  "Uint32 \<Rightarrow> RES_TYPE \<Rightarrow> Uint32 \<Rightarrow> TResourceBinding \<times> ResourceExtendedInfo \<Rightarrow> bool" where
  "bind_range_matches RangeId ResType SrcIndex ResInfo \<longleftrightarrow>
     RecordId (snd ResInfo) = RangeId \<and>
     Type (snd ResInfo) = ResType \<and>
     SrcBindPoint (snd ResInfo) \<le> SrcIndex \<and>
     SrcIndex < SrcBindPoint (snd ResInfo) + ArraySize (snd (fst ResInfo))"

definition ReplaceBindPoint ::
  "TExtendedResourceMap \<Rightarrow> string \<Rightarrow> Uint32 \<Rightarrow> Uint32 \<Rightarrow> nat \<Rightarrow> nat \<Rightarrow> error + string" where
  "ReplaceBindPoint ExtResMap DXIL ResClass RangeId IndexStartPos IndexEndPos =
     (let SrcIndexStr = string_substr DXIL IndexStartPos (Some IndexEndPos) in
      case stoi SrcIndexStr of
        Inl e \<Rightarrow> Inl e
      | Inr v \<Rightarrow>
          let SrcIndex = to_Uint32 v in
          if \<not> unat ResClass < length ResClassToType then Inl UndefinedBehavior
          else
            let ResType = ResClassToType ! unat ResClass in
            (case find (bind_range_matches RangeId ResType SrcIndex) ExtResMap of
               None \<Rightarrow> Inl (PatchingError ''Failed to find resource in ResourceMap'')
             | Some ResInfo \<Rightarrow>
                 let IndexOffset = SrcIndex - SrcBindPoint (snd ResInfo);
                     NewIndexStr = to_string (BindPoint (snd (fst ResInfo)) + IndexOffset)
                 in Inr (string_replace DXIL IndexStartPos (Some IndexEndPos) NewIndexStr)))"


subsection \<open>\<^verbatim>\<open>ReplaceRecord\<close>\<close>

definition i32 :: string where
  "i32 = ''i32 ''"

definition i8 :: string where
  "i8 = ''i8 ''"

definition NumberSymbols :: string where
  "NumberSymbols = ''+-0123456789''"

definition ResourceRecStart :: string where
  "ResourceRecStart = ''= !{''"

text \<open>
  \<^verbatim>\<open>DXIL[pos]\<close> at an offset that the surrounding checks keep at or below the size: the
  byte, or the terminating NUL at the size.
\<close>

definition char_at :: "string \<Rightarrow> nat \<Rightarrow> char" where
  "char_at s i = (if i < length s then s ! i else CHR 0x00)"

text \<open>The test \<^verbatim>\<open>pos + 1 < DXIL.length() && DXIL[pos] == ',' && DXIL[pos + 1] == ' '\<close>.\<close>

definition comma_space_at :: "string \<Rightarrow> nat \<Rightarrow> bool" where
  "comma_space_at DXIL pos \<longleftrightarrow>
     pos + 1 < length DXIL \<and> DXIL ! pos = CHR '','' \<and> DXIL ! (pos + 1) = CHR '' ''"

text \<open>
  The message of \<^verbatim>\<open>CHECK_PATCHING_ERROR\<close> as the two record patchers define it:
  \<^verbatim>\<open>LOG_ERROR_AND_THROW("Unable to patch DXIL for resource '", Name, "': ", ...)\<close>.
\<close>

definition resource_patching_error :: "string \<Rightarrow> string list \<Rightarrow> error" where
  "resource_patching_error Name args =
     PatchingError (''Unable to patch DXIL for resource '' @ [CHR 0x27] @ Name @ [CHR 0x27] @ '': '' @
                    concat args)"

text \<open>
  \<^verbatim>\<open>ReplaceRecord(DXIL, pos, NewValue, Name, RecordName, ExpectedPrevValue)\<close> returns the
  edited buffer and the advanced cursor. Its third check,
  \<^verbatim>\<open>CHECK_PATCHING_ERROR(pos != String::npos, ...)\<close>, tests the cursor, which is an offset
  of the buffer at that point, so it never fails; \<^verbatim>\<open>RecordEndPos\<close> may be \<^verbatim>\<open>npos\<close>.
\<close>

definition ReplaceRecord ::
  "string \<Rightarrow> nat \<Rightarrow> string \<Rightarrow> string \<Rightarrow> string \<Rightarrow> Uint32 \<Rightarrow> error + (string \<times> nat)" where
  "ReplaceRecord DXIL pos NewValue Name RecordName ExpectedPrevValue =
     (if \<not> comma_space_at DXIL pos
      then Inl (resource_patching_error Name [RecordName, '' record is not found''])
      else if \<not> strncmp_eq DXIL (pos + 2) i32
      then Inl (resource_patching_error Name [''unexpected '', RecordName, '' record type''])
      else
        let pos1 = pos + 2 + length i32;
            RecordEndPos = string_find_first_not_of DXIL NumberSymbols pos1
        in case stoi (string_substr DXIL pos1 RecordEndPos) of
             Inl e \<Rightarrow> Inl e
           | Inr v \<Rightarrow>
               if to_Uint32 v \<noteq> ExpectedPrevValue
               then Inl (resource_patching_error Name [''previous value does not match the expected''])
               else Inr (string_replace DXIL pos1 RecordEndPos NewValue, pos1 + length NewValue))"

subsection \<open>\<^verbatim>\<open>PatchResourceDeclarationRT\<close>\<close>

definition default_ResourceExtendedInfo :: ResourceExtendedInfo where
  "default_ResourceExtendedInfo =
     \<lparr>SrcBindPoint = - 1, SrcSpace = - 1, RecordId = - 1, Type = RES_TYPE_INVALID\<rparr>"

text \<open>
  \<^verbatim>\<open>ExtResMap[&ResPair]\<close>: \<^verbatim>\<open>operator[]\<close> of the unordered map inserts a
  default-constructed value when the key is absent. \<open>ExtResMap_value\<close> is the value the
  reference then denotes, \<open>ExtResMap_touch\<close> the map afterwards (where in the iteration
  order a new entry lands is not specified; the model appends it).
\<close>

definition ExtResMap_value :: "TExtendedResourceMap \<Rightarrow> TResourceBinding \<Rightarrow> ResourceExtendedInfo" where
  "ExtResMap_value ExtResMap ResPair =
     (case map_of ExtResMap ResPair of None \<Rightarrow> default_ResourceExtendedInfo | Some Ext \<Rightarrow> Ext)"

definition ExtResMap_touch :: "TExtendedResourceMap \<Rightarrow> TResourceBinding \<Rightarrow> TExtendedResourceMap" where
  "ExtResMap_touch ExtResMap ResPair =
     (case map_of ExtResMap ResPair of
        None \<Rightarrow> ExtResMap @ [(ResPair, default_ResourceExtendedInfo)]
      | Some Ext \<Rightarrow> ExtResMap)"

definition ExtResMap_set_RecordId ::
  "TExtendedResourceMap \<Rightarrow> TResourceBinding \<Rightarrow> Uint32 \<Rightarrow> TExtendedResourceMap" where
  "ExtResMap_set_RecordId ExtResMap ResPair NewId =
     map (\<lambda>ResInfo. if fst ResInfo = ResPair then (fst ResInfo, (snd ResInfo)\<lparr>RecordId := NewId\<rparr>)
                     else ResInfo) ExtResMap"

text \<open>
  The message of a failed check of this pass is \<^verbatim>\<open>CHECK_PATCHING_ERROR(Cond, "")\<close>: the
  resource is named and nothing follows.
\<close>

text \<open>The body of the loop over \<^verbatim>\<open>ResourceMap\<close>, for one element \<^verbatim>\<open>ResPair\<close>.\<close>

definition PatchResourceDeclarationRT_body ::
  "TResourceBinding \<Rightarrow> TExtendedResourceMap \<Rightarrow> string \<Rightarrow> error + (TExtendedResourceMap \<times> string)" where
  "PatchResourceDeclarationRT_body ResPair ExtResMap DXIL =
     (let Name = fst ResPair;
          DxilName = ''!\"'' @ Name @ ''\"'';
          Ext = ExtResMap_value ExtResMap ResPair;
          ExtResMap1 = ExtResMap_touch ExtResMap ResPair
      in case string_find DXIL DxilName 0 of
           None \<Rightarrow> Inr (ExtResMap1, DXIL)
         | Some EndOfResTypeRecord \<Rightarrow>
            (case string_rfind DXIL ResourceRecStart EndOfResTypeRecord of
               None \<Rightarrow> Inl (resource_patching_error Name [])
             | Some RecStart \<Rightarrow>
                 if \<not> strncmp_eq DXIL (RecStart + length ResourceRecStart) i32
                 then Inl (resource_patching_error Name [])
                 else
                   let RecordIdStartPos = RecStart + length ResourceRecStart + length i32 in
                   (case string_find_first_not_of DXIL NumberSymbols RecordIdStartPos of
                      None \<Rightarrow> Inl (resource_patching_error Name [])
                    | Some RecordIdEndPos \<Rightarrow>
                       (case atoi (drop RecordIdStartPos DXIL) of
                          Inl e \<Rightarrow> Inl e
                        | Inr RecId \<Rightarrow>
                           (case ReplaceRecord DXIL (EndOfResTypeRecord + length DxilName)
                                   (to_string (Space (snd ResPair))) Name ''space'' (SrcSpace Ext) of
                              Inl e \<Rightarrow> Inl e
                            | Inr (DXIL1, pos1) \<Rightarrow>
                               (case ReplaceRecord DXIL1 pos1
                                       (to_string (BindPoint (snd ResPair))) Name ''binding''
                                       (SrcBindPoint Ext) of
                                  Inl e \<Rightarrow> Inl e
                                | Inr (DXIL2, pos2) \<Rightarrow>
                                    Inr (ExtResMap_set_RecordId ExtResMap1 ResPair (to_Uint32 RecId),
                                         DXIL2)))))))"

fun PatchResourceDeclarationRT_loop ::
  "TResourceBinding list \<Rightarrow> TExtendedResourceMap \<Rightarrow> string \<Rightarrow> error + (TExtendedResourceMap \<times> string)" where
  "PatchResourceDeclarationRT_loop [] ExtResMap DXIL = Inr (ExtResMap, DXIL)"
| "PatchResourceDeclarationRT_loop (ResPair # rest) ExtResMap DXIL =
     (case PatchResourceDeclarationRT_body ResPair ExtResMap DXIL of
        Inl e \<Rightarrow> Inl e
      | Inr (ExtResMap1, DXIL1) \<Rightarrow> PatchResourceDeclarationRT_loop rest ExtResMap1 DXIL1)"

definition PatchResourceDeclarationRT ::
  "TResourceBindingMap \<Rightarrow> TExtendedResourceMap \<Rightarrow> string \<Rightarrow> error + (TExtendedResourceMap \<times> string)" where
  "PatchResourceDeclarationRT ResourceMap ExtResMap DXIL =
     PatchResourceDeclarationRT_loop ResourceMap ExtResMap DXIL"

subsection \<open>\<^verbatim>\<open>PatchResourceDeclaration\<close>\<close>

unbundle bit_operations_syntax

definition ResNameDecl :: string where
  "ResNameDecl = '', !\"''"

definition SamplerPart :: string where "SamplerPart = ''SamplerState''"
definition TexturePart :: string where "TexturePart = ''Texture''"
definition RWTexturePart :: string where "RWTexturePart = ''RWTexture''"
definition AccelStructPart :: string where "AccelStructPart = ''RaytracingAccelerationStructure''"
definition StructBufferPart :: string where "StructBufferPart = ''StructuredBuffer<''"
definition RWStructBufferPart :: string where "RWStructBufferPart = ''RWStructuredBuffer<''"
definition ByteAddrBufPart :: string where "ByteAddrBufPart = ''ByteAddressBuffer''"
definition RWByteAddrBufPart :: string where "RWByteAddrBufPart = ''RWByteAddressBuffer''"
definition TexBufferPart :: string where "TexBufferPart = ''Buffer<''"
definition RWFmtBufferPart :: string where "RWFmtBufferPart = ''RWBuffer<''"
definition DxAlignmentLegacyPart :: string where "DxAlignmentLegacyPart = ''dx.alignment.legacy.''"
definition StructPart :: string where "StructPart = ''struct.''"
definition ClassPart :: string where "ClassPart = ''class.''"

definition ALIGNMENT_LEGACY_PART :: Uint32 where "ALIGNMENT_LEGACY_PART = 1"
definition STRUCT_PART :: Uint32 where "STRUCT_PART = 2"
definition CLASS_PART :: Uint32 where "CLASS_PART = 4"
definition STRING_PART :: Uint32 where "STRING_PART = 8"

definition IsTextureSuffix :: "string \<Rightarrow> nat \<Rightarrow> bool" where
  "IsTextureSuffix DXIL pos \<longleftrightarrow>
     strncmp_eq DXIL pos ''1D<'' \<or> strncmp_eq DXIL pos ''1DArray<'' \<or>
     strncmp_eq DXIL pos ''2D<'' \<or> strncmp_eq DXIL pos ''2DArray<'' \<or>
     strncmp_eq DXIL pos ''3D<'' \<or> strncmp_eq DXIL pos ''2DMS<'' \<or>
     strncmp_eq DXIL pos ''2DMSArray<'' \<or> strncmp_eq DXIL pos ''Cube<'' \<or>
     strncmp_eq DXIL pos ''CubeArray<''"

text \<open>
  The lambda \<^verbatim>\<open>ReadRecord(pos, CurValue)\<close>. The cursor it is given can be \<^verbatim>\<open>npos\<close>
  (it stores \<^verbatim>\<open>RecordEndPos\<close> in it): then \<^verbatim>\<open>pos + 1\<close> wraps to 0, the length test
  passes on a non-empty buffer and \<^verbatim>\<open>DXIL[npos]\<close> is read. As in \<^verbatim>\<open>ReplaceRecord\<close> the
  test \<^verbatim>\<open>pos == String::npos\<close> after the search is on the cursor and never holds. The
  result is the returned flag, the cursor and \<^verbatim>\<open>CurValue\<close>.
\<close>

definition ReadRecord ::
  "string \<Rightarrow> nat option \<Rightarrow> Uint32 \<Rightarrow> error + (bool \<times> nat option \<times> Uint32)" where
  "ReadRecord DXIL pos CurValue =
     (case pos of
        None \<Rightarrow> if length DXIL = 0 then Inr (False, None, CurValue) else Inl UndefinedBehavior
      | Some p \<Rightarrow>
          if \<not> comma_space_at DXIL p then Inr (False, Some p, CurValue)
          else if \<not> strncmp_eq DXIL (p + 2) i32 then Inr (False, Some (p + 2), CurValue)
          else
            let p1 = p + 2 + length i32;
                RecordEndPos = string_find_first_not_of DXIL NumberSymbols p1
            in (case stoi (string_substr DXIL p1 RecordEndPos) of
                  Inl e \<Rightarrow> Inl e
                | Inr v \<Rightarrow> Inr (True, RecordEndPos, to_Uint32 v)))"

text \<open>
  The lambda \<^verbatim>\<open>ReadResName(pos, name)\<close>: the returned flag, the cursor and the name
  (empty when the flag is false, as the caller's variable then is).
\<close>

definition ReadResName :: "string \<Rightarrow> nat \<Rightarrow> bool \<times> nat \<times> string" where
  "ReadResName DXIL startPos =
     (let word = takeWhile IsWordSymbol (drop startPos DXIL);
          pos = startPos + length word
      in if pos < length DXIL \<and> DXIL ! pos = CHR 0x22 then (True, pos, word) else (False, pos, []))"

text \<open>
  \<^verbatim>\<open>// skip array declaration\<close>: after a \<^verbatim>\<open>[\<close> the cursor moves over digits, blanks and
  \<^verbatim>\<open>x\<close>, but not beyond \<^verbatim>\<open>EndOfResTypeRecord\<close>.
\<close>

definition skip_array_declaration :: "string \<Rightarrow> nat \<Rightarrow> nat \<Rightarrow> nat" where
  "skip_array_declaration DXIL pos EndOfResTypeRecord =
     (if char_at DXIL pos = CHR ''[''
      then (pos + 1) +
           length (takeWhile (\<lambda>c. IsNumberSymbol c \<or> c = CHR '' '' \<or> c = CHR ''x'')
                     (take (EndOfResTypeRecord - (pos + 1)) (drop (pos + 1) DXIL)))
      else pos)"

text \<open>
  The optional name parts after \<^verbatim>\<open>%\<close>: a quote, \<^verbatim>\<open>dx.alignment.legacy.\<close>,
  \<^verbatim>\<open>struct.\<close>, \<^verbatim>\<open>class.\<close>, each tested once in this order. The result is the cursor
  and \<^verbatim>\<open>NameParts\<close>.
\<close>

definition skip_name_parts :: "string \<Rightarrow> nat \<Rightarrow> nat \<times> Uint32" where
  "skip_name_parts DXIL pos =
     (let (pos1, parts1) =
            (if char_at DXIL pos = CHR 0x22 then (pos + 1, STRING_PART) else (pos, 0));
          (pos2, parts2) =
            (if strncmp_eq DXIL pos1 DxAlignmentLegacyPart
             then (pos1 + length DxAlignmentLegacyPart, parts1 OR ALIGNMENT_LEGACY_PART)
             else (pos1, parts1));
          (pos3, parts3) =
            (if strncmp_eq DXIL pos2 StructPart
             then (pos2 + length StructPart, parts2 OR STRUCT_PART)
             else (pos2, parts2))
      in if strncmp_eq DXIL pos3 ClassPart
         then (pos3 + length ClassPart, parts3 OR CLASS_PART)
         else (pos3, parts3))"

text \<open>
  \<^verbatim>\<open>// Try to find constant buffer.\<close> The loop over \<^verbatim>\<open>ExtResMap\<close> stops at the first
  constant buffer whose name is a prefix of the text and is followed by a byte that is no
  word symbol.
\<close>

definition is_constant_buffer_name ::
  "string \<Rightarrow> nat \<Rightarrow> TResourceBinding \<times> ResourceExtendedInfo \<Rightarrow> bool" where
  "is_constant_buffer_name DXIL pos ResInfo \<longleftrightarrow>
     Type (snd ResInfo) = RES_TYPE_CBV \<and>
     strncmp_eq DXIL pos (fst (fst ResInfo)) \<and>
     \<not> IsWordSymbol (char_at DXIL (pos + length (fst (fst ResInfo))))"

definition classify_resource_type ::
  "TExtendedResourceMap \<Rightarrow> string \<Rightarrow> nat \<Rightarrow> Uint32 \<Rightarrow> RES_TYPE" where
  "classify_resource_type ExtResMap DXIL pos NameParts =
     (if strncmp_eq DXIL pos SamplerPart then RES_TYPE_SAMPLER
      else if strncmp_eq DXIL pos TexturePart \<and> IsTextureSuffix DXIL (pos + length TexturePart)
        then RES_TYPE_SRV
      else if strncmp_eq DXIL pos StructBufferPart then RES_TYPE_SRV
      else if strncmp_eq DXIL pos ByteAddrBufPart then RES_TYPE_SRV
      else if strncmp_eq DXIL pos TexBufferPart then RES_TYPE_SRV
      else if strncmp_eq DXIL pos AccelStructPart then RES_TYPE_SRV
      else if strncmp_eq DXIL pos RWTexturePart \<and> IsTextureSuffix DXIL (pos + length RWTexturePart)
        then RES_TYPE_UAV
      else if strncmp_eq DXIL pos RWStructBufferPart then RES_TYPE_UAV
      else if strncmp_eq DXIL pos RWByteAddrBufPart then RES_TYPE_UAV
      else if strncmp_eq DXIL pos RWFmtBufferPart then RES_TYPE_UAV
      else if NameParts AND NOT ALIGNMENT_LEGACY_PART = 0
        then (case find (is_constant_buffer_name DXIL pos) ExtResMap of
                None \<Rightarrow> RES_TYPE_INVALID
              | Some ResInfo \<Rightarrow> RES_TYPE_CBV)
      else RES_TYPE_INVALID)"

text \<open>
  What one pass through the body of a scanning loop leaves: the loop goes on with a new
  state, or it is left (\<^verbatim>\<open>break\<close>, or a cursor that fails the loop condition) with the
  state unchanged.
\<close>

datatype 'a loop_step = Continue 'a | Break

text \<open>The message of \<^verbatim>\<open>CHECK_PATCHING_ERROR\<close> in this pass.\<close>

definition declaration_patching_error :: "string \<Rightarrow> error" where
  "declaration_patching_error msg = PatchingError (''Unable to patch DXIL: '' @ msg)"

text \<open>
  \<^verbatim>\<open>// Search in resource map\<close> and what follows it: the first entry with the parsed
  space, bind point and type gets the record id; its two fields are rewritten, and its
  name is inserted at \<^verbatim>\<open>BeginOfResName\<close> when the declaration has none.
\<close>

definition declaration_matches ::
  "Uint32 \<Rightarrow> Uint32 \<Rightarrow> RES_TYPE \<Rightarrow> TResourceBinding \<times> ResourceExtendedInfo \<Rightarrow> bool" where
  "declaration_matches BindPoint' Space' ResType ResInfo \<longleftrightarrow>
     SrcBindPoint (snd ResInfo) = BindPoint' \<and>
     SrcSpace (snd ResInfo) = Space' \<and>
     Type (snd ResInfo) = ResType"

definition remap_declaration ::
  "TExtendedResourceMap \<Rightarrow> string \<Rightarrow> nat \<Rightarrow> nat \<Rightarrow> string \<Rightarrow> Uint32 \<Rightarrow> RES_TYPE \<Rightarrow> Uint32 \<Rightarrow> Uint32 \<Rightarrow>
   error + (TExtendedResourceMap \<times> string \<times> nat) loop_step" where
  "remap_declaration ExtResMap DXIL BeginOfResName BindingRecordStart ResName RecId ResType
     Space' BindPoint' =
     (case List.extract (declaration_matches BindPoint' Space' ResType) ExtResMap of
        None \<Rightarrow> Inl (declaration_patching_error ''failed to find resource in ResourceMap'')
      | Some (before, ResInfo, after) \<Rightarrow>
          let pResPair = fst ResInfo;
              Ext = (snd ResInfo)\<lparr>RecordId := RecId\<rparr>;
              ExtResMap1 = before @ (pResPair, Ext) # after
          in (case ReplaceRecord DXIL BindingRecordStart (to_string (Space (snd pResPair)))
                     (fst pResPair) ''space'' (SrcSpace Ext) of
                Inl e \<Rightarrow> Inl e
              | Inr (DXIL1, pos1) \<Rightarrow>
                 (case ReplaceRecord DXIL1 pos1 (to_string (BindPoint (snd pResPair)))
                         (fst pResPair) ''register'' (SrcBindPoint Ext) of
                    Inl e \<Rightarrow> Inl e
                  | Inr (DXIL2, pos2) \<Rightarrow>
                      Inr (Continue
                             (ExtResMap1,
                              if ResName = [] then string_insert DXIL2 BeginOfResName (fst pResPair)
                              else DXIL2,
                              pos2)))))"

text \<open>
  \<^verbatim>\<open>// Read binding & space\<close>: a \<^verbatim>\<open>continue\<close> after a failed \<^verbatim>\<open>ReadRecord\<close> keeps the
  cursor that \<^verbatim>\<open>ReadRecord\<close> left.
\<close>

definition continue_at ::
  "TExtendedResourceMap \<Rightarrow> string \<Rightarrow> nat option \<Rightarrow> (TExtendedResourceMap \<times> string \<times> nat) loop_step" where
  "continue_at ExtResMap DXIL pos =
     (case pos of None \<Rightarrow> Break | Some p \<Rightarrow> Continue (ExtResMap, DXIL, p))"

definition read_and_remap_declaration ::
  "TExtendedResourceMap \<Rightarrow> string \<Rightarrow> nat \<Rightarrow> nat \<Rightarrow> string \<Rightarrow> Uint32 \<Rightarrow> RES_TYPE \<Rightarrow>
   error + (TExtendedResourceMap \<times> string \<times> nat) loop_step" where
  "read_and_remap_declaration ExtResMap DXIL BeginOfResName BindingRecordStart ResName RecId ResType =
     (case ReadRecord DXIL (Some BindingRecordStart) (- 1) of
        Inl e \<Rightarrow> Inl e
      | Inr (ok1, posA, Space') \<Rightarrow>
          if \<not> ok1 then Inr (continue_at ExtResMap DXIL posA)
          else
            (case ReadRecord DXIL posA (- 1) of
               Inl e \<Rightarrow> Inl e
             | Inr (ok2, posB, BindPoint') \<Rightarrow>
                 if \<not> ok2 then Inr (continue_at ExtResMap DXIL posB)
                 else remap_declaration ExtResMap DXIL BeginOfResName BindingRecordStart ResName
                        RecId ResType Space' BindPoint'))"

text \<open>
  \<^verbatim>\<open>// Parse resource class\<close>, from the search for the record start to the
  classification of the type name.
\<close>

definition parse_and_remap_declaration ::
  "TExtendedResourceMap \<Rightarrow> string \<Rightarrow> nat \<Rightarrow> nat \<Rightarrow> nat \<Rightarrow> string \<Rightarrow>
   error + (TExtendedResourceMap \<times> string \<times> nat) loop_step" where
  "parse_and_remap_declaration ExtResMap DXIL EndOfResTypeRecord BeginOfResName BindingRecordStart ResName =
     (case string_rfind DXIL ResourceRecStart EndOfResTypeRecord of
        None \<Rightarrow> Inl (declaration_patching_error ''failed to find resource record start block'')
      | Some RecStart \<Rightarrow>
          if \<not> strncmp_eq DXIL (RecStart + length ResourceRecStart) i32
          then Inr (Continue (ExtResMap, DXIL, BindingRecordStart))
          else
            let RecordIdStartPos = RecStart + length ResourceRecStart + length i32 in
            (case string_find_first_not_of DXIL NumberSymbols RecordIdStartPos of
               None \<Rightarrow> Inl (declaration_patching_error ''failed to parse Record ID record data'')
             | Some RecordIdEndPos \<Rightarrow>
                (case atoi (drop RecordIdStartPos DXIL) of
                   Inl e \<Rightarrow> Inl e
                 | Inr RecId \<Rightarrow>
                     if \<not> comma_space_at DXIL RecordIdEndPos
                     then Inl (declaration_patching_error
                                 ''failed to find the end of the Record ID record data'')
                     else
                       let pos1 = skip_array_declaration DXIL (RecordIdEndPos + 2) EndOfResTypeRecord in
                       if char_at DXIL pos1 \<noteq> CHR ''%''
                       then Inr (Continue (ExtResMap, DXIL, BindingRecordStart))
                       else
                         (case skip_name_parts DXIL (pos1 + 1) of
                            (pos2, NameParts) \<Rightarrow>
                              let ResType = classify_resource_type ExtResMap DXIL pos2 NameParts in
                              if ResType = RES_TYPE_INVALID
                              then Inr (Continue (ExtResMap, DXIL, BindingRecordStart))
                              else read_and_remap_declaration ExtResMap DXIL BeginOfResName
                                     BindingRecordStart ResName (to_Uint32 RecId) ResType))))"

text \<open>One pass through the body of the \<^verbatim>\<open>for\<close> loop, entered with \<^verbatim>\<open>pos < DXIL.size()\<close>.\<close>

definition PatchResourceDeclaration_body ::
  "TExtendedResourceMap \<Rightarrow> string \<Rightarrow> nat \<Rightarrow>
   error + (TExtendedResourceMap \<times> string \<times> nat) loop_step" where
  "PatchResourceDeclaration_body ExtResMap DXIL pos =
     (case string_find DXIL ResNameDecl pos of
        None \<Rightarrow> Inr Break
      | Some EndOfResTypeRecord \<Rightarrow>
          let BeginOfResName = EndOfResTypeRecord + length ResNameDecl in
          (case ReadResName DXIL BeginOfResName of
             (ok, pos1, ResName) \<Rightarrow>
               if \<not> ok then Inr (Continue (ExtResMap, DXIL, pos1))
               else parse_and_remap_declaration ExtResMap DXIL EndOfResTypeRecord BeginOfResName
                      (pos1 + 1) ResName))"

text \<open>
  The loop \<^verbatim>\<open>for (size_t pos = 0; pos < DXIL.size();)\<close>. \<open>None\<close> is a loop that does
  not return.
\<close>

partial_function (option) PatchResourceDeclaration_loop ::
  "TExtendedResourceMap \<Rightarrow> string \<Rightarrow> nat \<Rightarrow> (error + (TExtendedResourceMap \<times> string)) option" where
  "PatchResourceDeclaration_loop ExtResMap DXIL pos =
     (if \<not> pos < length DXIL then Some (Inr (ExtResMap, DXIL))
      else
        (case PatchResourceDeclaration_body ExtResMap DXIL pos of
           Inl e \<Rightarrow> Some (Inl e)
         | Inr Break \<Rightarrow> Some (Inr (ExtResMap, DXIL))
         | Inr (Continue (ExtResMap1, DXIL1, pos1)) \<Rightarrow>
             PatchResourceDeclaration_loop ExtResMap1 DXIL1 pos1))"

declare PatchResourceDeclaration_loop.simps [code]

text \<open>The pass does not read its parameter \<^verbatim>\<open>ResourceMap\<close>.\<close>

definition PatchResourceDeclaration ::
  "TResourceBindingMap \<Rightarrow> TExtendedResourceMap \<Rightarrow> string \<Rightarrow>
   (error + (TExtendedResourceMap \<times> string)) option" where
  "PatchResourceDeclaration ResourceMap ExtResMap DXIL = PatchResourceDeclaration_loop ExtResMap DXIL 0"

subsection \<open>\<^verbatim>\<open>PatchResourceHandle\<close>\<close>

definition CallHandlePattern :: string where
  "CallHandlePattern = '' = call %dx.types.Handle @dx.op.createHandle(''"

definition handle_patching_error :: "string \<Rightarrow> error" where
  "handle_patching_error msg = PatchingError (''Unable to patch DXIL createHandle(): '' @ msg)"

text \<open>
  The lambda \<^verbatim>\<open>NextArg(pos)\<close>: the cursor stops at the first comma, closing parenthesis
  or line feed, or at the end of the buffer; the flag tells that it stopped at a comma.
\<close>

definition NextArg :: "string \<Rightarrow> nat \<Rightarrow> bool \<times> nat" where
  "NextArg DXIL startPos =
     (let pos = startPos +
            length (takeWhile (\<lambda>c. c \<noteq> CHR '','' \<and> c \<noteq> CHR '')'' \<and> c \<noteq> CHR 0x0A)
                      (drop startPos DXIL))
      in (pos < length DXIL \<and> DXIL ! pos = CHR '','', pos))"

text \<open>The loop \<^verbatim>\<open>for (; pos < DXIL.size(); ++pos) if (!IsNumberSymbol(c)) break;\<close>.\<close>

definition skip_number :: "string \<Rightarrow> nat \<Rightarrow> nat" where
  "skip_number DXIL pos = pos + length (takeWhile IsNumberSymbol (drop pos DXIL))"

text \<open>
  \<^verbatim>\<open>// dynamic bind point\<close>: the index operand is a value \<^verbatim>\<open>%N\<close>; its declaration
  \<^verbatim>\<open>%N = add i32 \<close> is searched backwards from \<^verbatim>\<open>IndexEndPos\<close>. After \<^verbatim>\<open>NextArg\<close> the
  source only asserts (\<^verbatim>\<open>VERIFY_EXPR\<close>) that a blank follows the comma and adds 2 to the
  cursor, so the cursor can pass the terminating NUL; the read \<^verbatim>\<open>DXIL[pos]\<close> there is
  outside the buffer. The block under \<^verbatim>\<open>DILIGENT_DEVELOPMENT\<close> that counts the uses of
  the value only logs and is not modelled.
\<close>

definition patch_dynamic_index ::
  "TExtendedResourceMap \<Rightarrow> string \<Rightarrow> Uint32 \<Rightarrow> Uint32 \<Rightarrow> string \<Rightarrow> nat \<Rightarrow> error + string" where
  "patch_dynamic_index ExtResMap DXIL ResClass RangeId SrcIndexStr IndexEndPos =
     (let IndexDecl = SrcIndexStr @ '' = add i32 '' in
      case string_rfind DXIL IndexDecl IndexEndPos of
        None \<Rightarrow> Inl (handle_patching_error ''failed to find dynamic index declaration'')
      | Some IndexDeclPos \<Rightarrow>
          let pos = IndexDeclPos + length IndexDecl in
          if char_at DXIL pos = CHR ''%''
          then
            (case NextArg DXIL pos of
               (ok, pos1) \<Rightarrow>
                 if \<not> ok then Inl (handle_patching_error [])
                 else if length DXIL < pos1 + 2 then Inl UndefinedBehavior
                 else if \<not> IsNumberSymbol (char_at DXIL (pos1 + 2))
                 then Inl (handle_patching_error
                             ''second argument expected to be an integer constant'')
                 else
                   let ArgStart = pos1 + 2;
                       ArgEnd = skip_number DXIL ArgStart
                   in if \<not> (char_at DXIL ArgEnd = CHR '','' \<or> char_at DXIL ArgEnd = CHR 0x0A)
                      then Inl (handle_patching_error ''failed to parse second argument'')
                      else ReplaceBindPoint ExtResMap DXIL ResClass RangeId ArgStart ArgEnd)
          else
            let ArgStart = pos;
                ArgEnd = skip_number DXIL ArgStart
            in if \<not> (char_at DXIL ArgEnd = CHR '','' \<or> char_at DXIL ArgEnd = CHR 0x0A)
               then Inl (handle_patching_error ''failed to parse second argument'')
               else ReplaceBindPoint ExtResMap DXIL ResClass RangeId ArgStart ArgEnd)"

text \<open>\<^verbatim>\<open>// Replace index\<close>: the index operand lies between the two offsets.\<close>

definition replace_index ::
  "TExtendedResourceMap \<Rightarrow> string \<Rightarrow> Uint32 \<Rightarrow> Uint32 \<Rightarrow> nat \<Rightarrow> nat \<Rightarrow> error + string" where
  "replace_index ExtResMap DXIL ResClass RangeId IndexStartPos IndexEndPos =
     (let SrcIndexStr = string_substr DXIL IndexStartPos (Some IndexEndPos) in
      if SrcIndexStr = [] then Inl (handle_patching_error ''Bind point index must not be empty'')
      else if hd SrcIndexStr = CHR ''%''
      then patch_dynamic_index ExtResMap DXIL ResClass RangeId SrcIndexStr IndexEndPos
      else ReplaceBindPoint ExtResMap DXIL ResClass RangeId IndexStartPos IndexEndPos)"

text \<open>
  An operand \<^verbatim>\<open>, <type> <value>\<close> of the call: the checks that \<^verbatim>\<open>", "\<close> and the type
  stand at the cursor, then \<^verbatim>\<open>NextArg\<close>. The result is the offset where the value starts
  and the offset of the comma that ends it.
\<close>

definition read_operand ::
  "string \<Rightarrow> nat \<Rightarrow> string \<Rightarrow> string \<Rightarrow> string \<Rightarrow> string \<Rightarrow> error + (nat \<times> nat)" where
  "read_operand DXIL pos type msg_record msg_type msg_end =
     (if \<not> comma_space_at DXIL pos then Inl (handle_patching_error msg_record)
      else if \<not> strncmp_eq DXIL (pos + 2) type then Inl (handle_patching_error msg_type)
      else
        (case NextArg DXIL (pos + 2 + length type) of
           (ok, pos1) \<Rightarrow>
             if \<not> ok then Inl (handle_patching_error msg_end)
             else Inr (pos + 2 + length type, pos1)))"

text \<open>
  The first part of the body of the \<^verbatim>\<open>for\<close> loop, from the search for the next call
  to \<^verbatim>\<open>// Read index in range\<close>: \<open>None\<close> when no call is left (\<^verbatim>\<open>break\<close>), otherwise
  the values of \<^verbatim>\<open>ResClass\<close>, \<^verbatim>\<open>RangeId\<close>, \<^verbatim>\<open>IndexStartPos\<close> and \<^verbatim>\<open>IndexEndPos\<close> that
  the source reads from the operands of the call.
\<close>

definition read_createHandle :: "string \<Rightarrow> nat \<Rightarrow> error + (Uint32 \<times> Uint32 \<times> nat \<times> nat) option" where
  "read_createHandle DXIL pos =
     (case string_find DXIL CallHandlePattern pos of
        None \<Rightarrow> Inr None
      | Some callHandlePos \<Rightarrow>
          let pos1 = callHandlePos + length CallHandlePattern in
          if \<not> strncmp_eq DXIL pos1 i32
          then Inl (handle_patching_error ''Opcode record is not found'')
          else
            (case NextArg DXIL (pos1 + length i32) of
               (ok, pos2) \<Rightarrow>
                 if \<not> ok
                 then Inl (handle_patching_error ''failed to find end of the Opcode record data'')
                 else
                   (case read_operand DXIL pos2 i8
                           ''Resource Class record is not found''
                           ''Resource Class record data is not found''
                           ''failed to find end of the Resource class record data'' of
                      Inl e \<Rightarrow> Inl e
                    | Inr (ResClassStartPos, pos3) \<Rightarrow>
                       (case atoi (drop ResClassStartPos DXIL) of
                          Inl e \<Rightarrow> Inl e
                        | Inr ResClass \<Rightarrow>
                           (case read_operand DXIL pos3 i32
                                   ''Range ID record is not found''
                                   ''Range ID record data is not found''
                                   ''failed to find end of the Range ID record data'' of
                              Inl e \<Rightarrow> Inl e
                            | Inr (RangeIdStartPos, pos4) \<Rightarrow>
                               (case atoi (drop RangeIdStartPos DXIL) of
                                  Inl e \<Rightarrow> Inl e
                                | Inr RangeId \<Rightarrow>
                                   (case read_operand DXIL pos4 i32
                                           ''Index record is not found''
                                           ''Index record data is not found''
                                           ''failed to find the end of the Index record data'' of
                                      Inl e \<Rightarrow> Inl e
                                    | Inr (IndexStartPos, IndexEndPos) \<Rightarrow>
                                        Inr (Some (to_Uint32 ResClass, to_Uint32 RangeId,
                                                   IndexStartPos, IndexEndPos)))))))))"

text \<open>
  One pass through the body of the \<^verbatim>\<open>for\<close> loop; the state is the buffer and the cursor.
  After \<^verbatim>\<open>// Replace index\<close> the cursor is \<^verbatim>\<open>pos = IndexEndPos\<close>.
\<close>

definition PatchResourceHandle_body ::
  "TExtendedResourceMap \<Rightarrow> string \<Rightarrow> nat \<Rightarrow> error + (string \<times> nat) loop_step" where
  "PatchResourceHandle_body ExtResMap DXIL pos =
     (case read_createHandle DXIL pos of
        Inl e \<Rightarrow> Inl e
      | Inr None \<Rightarrow> Inr Break
      | Inr (Some (ResClass, RangeId, IndexStartPos, IndexEndPos)) \<Rightarrow>
          (case replace_index ExtResMap DXIL ResClass RangeId IndexStartPos IndexEndPos of
             Inl e \<Rightarrow> Inl e
           | Inr DXIL1 \<Rightarrow> Inr (Continue (DXIL1, IndexEndPos))))"

partial_function (option) PatchResourceHandle_loop ::
  "TExtendedResourceMap \<Rightarrow> string \<Rightarrow> nat \<Rightarrow> (error + string) option" where
  "PatchResourceHandle_loop ExtResMap DXIL pos =
     (if \<not> pos < length DXIL then Some (Inr DXIL)
      else
        (case PatchResourceHandle_body ExtResMap DXIL pos of
           Inl e \<Rightarrow> Some (Inl e)
         | Inr Break \<Rightarrow> Some (Inr DXIL)
         | Inr (Continue (DXIL1, pos1)) \<Rightarrow> PatchResourceHandle_loop ExtResMap DXIL1 pos1))"

declare PatchResourceHandle_loop.simps [code]

text \<open>The pass reads \<^verbatim>\<open>ExtResMap\<close> only; \<^verbatim>\<open>ResourceMap\<close> is not used.\<close>

definition PatchResourceHandle ::
  "TResourceBindingMap \<Rightarrow> TExtendedResourceMap \<Rightarrow> string \<Rightarrow> (error + string) option" where
  "PatchResourceHandle ResourceMap ExtResMap DXIL = PatchResourceHandle_loop ExtResMap DXIL 0"

subsection \<open>\<^verbatim>\<open>PatchDXIL\<close>\<close>

text \<open>
  The shader types that the \<^verbatim>\<open>switch\<close> of \<^verbatim>\<open>RemapResourceBindings\<close> assigns. The
  enumeration \<^verbatim>\<open>SHADER_TYPE\<close> and the mask \<^verbatim>\<open>SHADER_TYPE_ALL_RAY_TRACING\<close> are declared
  in a header outside the sources; the mask is the union of the six ray tracing stages.
\<close>

datatype SHADER_TYPE =
    SHADER_TYPE_UNKNOWN | SHADER_TYPE_PIXEL | SHADER_TYPE_VERTEX | SHADER_TYPE_GEOMETRY
  | SHADER_TYPE_HULL | SHADER_TYPE_DOMAIN | SHADER_TYPE_COMPUTE | SHADER_TYPE_RAY_GEN
  | SHADER_TYPE_RAY_INTERSECTION | SHADER_TYPE_RAY_ANY_HIT | SHADER_TYPE_RAY_CLOSEST_HIT
  | SHADER_TYPE_RAY_MISS | SHADER_TYPE_CALLABLE | SHADER_TYPE_MESH | SHADER_TYPE_AMPLIFICATION

definition SHADER_TYPE_ALL_RAY_TRACING :: "SHADER_TYPE list" where
  "SHADER_TYPE_ALL_RAY_TRACING =
     [SHADER_TYPE_RAY_GEN, SHADER_TYPE_RAY_MISS, SHADER_TYPE_RAY_CLOSEST_HIT,
      SHADER_TYPE_RAY_ANY_HIT, SHADER_TYPE_RAY_INTERSECTION, SHADER_TYPE_CALLABLE]"

text \<open>
  How a call ends: it returns a value, it runs into undefined behaviour, or it does not
  return.
\<close>

datatype 'a run = Returns 'a | UndefinedRun | NoReturn

text \<open>
  \<^verbatim>\<open>catch (...) { return false; }\<close> catches every exception; undefined behaviour is not
  an exception. The result \<open>None\<close> is the return value \<^verbatim>\<open>false\<close>.
\<close>

definition caught :: "error \<Rightarrow> string option run" where
  "caught e = (if e = UndefinedBehavior then UndefinedRun else Returns None)"

text \<open>
  \<^verbatim>\<open>PatchDXIL\<close> returns \<^verbatim>\<open>true\<close> with the patched text in \<^verbatim>\<open>DXIL\<close> (\<open>Some\<close> of the
  text) or \<^verbatim>\<open>false\<close> (\<open>None\<close>; the caller then does not read \<^verbatim>\<open>DXIL\<close>).
\<close>

definition PatchDXIL ::
  "TResourceBindingMap \<Rightarrow> TExtendedResourceMap \<Rightarrow> SHADER_TYPE \<Rightarrow> string \<Rightarrow> string option run" where
  "PatchDXIL ResourceMap ExtResMap ShaderType DXIL =
     (if ShaderType \<in> set SHADER_TYPE_ALL_RAY_TRACING
      then
        (case PatchResourceDeclarationRT ResourceMap ExtResMap DXIL of
           Inl e \<Rightarrow> caught e
         | Inr (ExtResMap1, DXIL1) \<Rightarrow> Returns (Some DXIL1))
      else
        (case PatchResourceDeclaration ResourceMap ExtResMap DXIL of
           None \<Rightarrow> NoReturn
         | Some (Inl e) \<Rightarrow> caught e
         | Some (Inr (ExtResMap1, DXIL1)) \<Rightarrow>
            (case PatchResourceHandle ResourceMap ExtResMap1 DXIL1 of
               None \<Rightarrow> NoReturn
             | Some (Inl e) \<Rightarrow> caught e
             | Some (Inr DXIL2) \<Rightarrow> Returns (Some DXIL2))))"

subsection \<open>\<^verbatim>\<open>RemapResourceBindings\<close> and \<^verbatim>\<open>ValidateAndSign\<close>\<close>

text \<open>
  The compiler library behind the COM interfaces is outside the sources. The model takes
  it as a parameter: a record with one field for each call, giving what the call
  returns. Blobs are values of a type \<open>'blob\<close>.
\<close>

datatype D3D_SHADER_INPUT_TYPE =
    D3D_SIT_CBUFFER | D3D_SIT_TBUFFER | D3D_SIT_TEXTURE | D3D_SIT_SAMPLER | D3D_SIT_UAV_RWTYPED
  | D3D_SIT_STRUCTURED | D3D_SIT_UAV_RWSTRUCTURED | D3D_SIT_BYTEADDRESS
  | D3D_SIT_UAV_RWBYTEADDRESS | D3D_SIT_UAV_APPEND_STRUCTURED | D3D_SIT_UAV_CONSUME_STRUCTURED
  | D3D_SIT_UAV_RWSTRUCTURED_WITH_COUNTER | D3D_SIT_RTACCELERATIONSTRUCTURE
  | D3D_SIT_UAV_FEEDBACKTEXTURE | D3D_SIT_other nat

text \<open>The fields of \<^verbatim>\<open>D3D12_SHADER_INPUT_BIND_DESC\<close> that the release build reads.\<close>

record D3D12_SHADER_INPUT_BIND_DESC =
  Desc_Type :: D3D_SHADER_INPUT_TYPE
  Desc_BindPoint :: Uint32
  Desc_Space :: Uint32

text \<open>
  A shader reflection object: the shader type of its description
  (\<^verbatim>\<open>D3D12_SHVER_GET_TYPE(ShDesc.Version)\<close>) and \<^verbatim>\<open>GetResourceBindingDescByName\<close>,
  \<open>None\<close> when it does not return \<^verbatim>\<open>S_OK\<close>.
\<close>

record ShaderReflection =
  ShType :: nat
  GetResourceBindingDescByName :: "string \<Rightarrow> D3D12_SHADER_INPUT_BIND_DESC option"

text \<open>
  The result object of \<^verbatim>\<open>AssembleToContainer\<close>: whether \<^verbatim>\<open>GetStatus\<close> reports success
  and what \<^verbatim>\<open>GetResult\<close> gives (\<open>None\<close> when it fails).
\<close>

record 'blob AssembleResult =
  assemble_status_ok :: bool
  assemble_result :: "'blob option"

text \<open>
  The result object of \<^verbatim>\<open>Validate\<close>, called with \<^verbatim>\<open>DxcValidatorFlags_InPlaceEdit\<close>:
  the status, what \<^verbatim>\<open>GetResult\<close> gives (\<open>None\<close> when it fails, \<open>Some None\<close> for a null
  blob) and the blob \<^verbatim>\<open>compiled\<close> after the validator has edited it in place.
\<close>

record 'blob ValidationResult =
  validation_status_ok :: bool
  validation_result :: "'blob option option"
  compiled_in_place :: "'blob"

record 'blob DxcLibrary =
  GetCreateInstaceProc :: bool
  CreateInstance_DxcLibrary :: bool
  CreateInstance_DxcAssembler :: bool
  CreateInstance_DxcCompiler :: bool
  CreateInstance_DxcValidator :: bool
  Disassemble :: "'blob \<Rightarrow> string option"
  GetD3D12ShaderReflection :: "'blob \<Rightarrow> ShaderReflection option"
  CreateBlobWithEncodingFromPinned :: "string \<Rightarrow> bool"
  AssembleToContainer :: "string \<Rightarrow> 'blob AssembleResult option"
  Validate :: "'blob \<Rightarrow> 'blob ValidationResult option"

text \<open>
  \<^verbatim>\<open>ValidateAndSign\<close> returns its flag and the value of \<^verbatim>\<open>*ppBlobOut\<close> afterwards;
  \<open>BlobOut\<close> is the value before the call.
\<close>

definition ValidateAndSign ::
  "'blob DxcLibrary \<Rightarrow> 'blob \<Rightarrow> 'blob option \<Rightarrow> bool \<times> 'blob option" where
  "ValidateAndSign dxc compiled BlobOut =
     (if \<not> CreateInstance_DxcValidator dxc then (False, BlobOut)
      else
        (case Validate dxc compiled of
           None \<Rightarrow> (False, BlobOut)
         | Some validationResult \<Rightarrow>
             if validation_status_ok validationResult
             then
               (case validation_result validationResult of
                  None \<Rightarrow> (False, BlobOut)
                | Some None \<Rightarrow> (True, Some (compiled_in_place validationResult))
                | Some (Some validated) \<Rightarrow> (True, Some validated))
             else (False, BlobOut)))"

text \<open>The \<^verbatim>\<open>switch\<close> on the shader type; an unknown value leaves \<^verbatim>\<open>SHADER_TYPE_UNKNOWN\<close>.\<close>

definition shader_type_of :: "nat \<Rightarrow> SHADER_TYPE" where
  "shader_type_of t =
     (if t = 0 then SHADER_TYPE_PIXEL
      else if t = 1 then SHADER_TYPE_VERTEX
      else if t = 2 then SHADER_TYPE_GEOMETRY
      else if t = 3 then SHADER_TYPE_HULL
      else if t = 4 then SHADER_TYPE_DOMAIN
      else if t = 5 then SHADER_TYPE_COMPUTE
      else if t = 7 then SHADER_TYPE_RAY_GEN
      else if t = 8 then SHADER_TYPE_RAY_INTERSECTION
      else if t = 9 then SHADER_TYPE_RAY_ANY_HIT
      else if t = 10 then SHADER_TYPE_RAY_CLOSEST_HIT
      else if t = 11 then SHADER_TYPE_RAY_MISS
      else if t = 12 then SHADER_TYPE_CALLABLE
      else if t = 13 then SHADER_TYPE_MESH
      else if t = 14 then SHADER_TYPE_AMPLIFICATION
      else SHADER_TYPE_UNKNOWN)"

text \<open>The \<^verbatim>\<open>switch\<close> on \<^verbatim>\<open>ResDesc.Type\<close>; \<open>None\<close> is its \<^verbatim>\<open>default\<close>, which returns false.\<close>

fun res_type_of :: "D3D_SHADER_INPUT_TYPE \<Rightarrow> RES_TYPE option" where
  "res_type_of D3D_SIT_CBUFFER = Some RES_TYPE_CBV"
| "res_type_of D3D_SIT_SAMPLER = Some RES_TYPE_SAMPLER"
| "res_type_of D3D_SIT_TBUFFER = Some RES_TYPE_SRV"
| "res_type_of D3D_SIT_TEXTURE = Some RES_TYPE_SRV"
| "res_type_of D3D_SIT_STRUCTURED = Some RES_TYPE_SRV"
| "res_type_of D3D_SIT_BYTEADDRESS = Some RES_TYPE_SRV"
| "res_type_of D3D_SIT_RTACCELERATIONSTRUCTURE = Some RES_TYPE_SRV"
| "res_type_of D3D_SIT_UAV_RWTYPED = Some RES_TYPE_UAV"
| "res_type_of D3D_SIT_UAV_RWSTRUCTURED = Some RES_TYPE_UAV"
| "res_type_of D3D_SIT_UAV_RWBYTEADDRESS = Some RES_TYPE_UAV"
| "res_type_of D3D_SIT_UAV_APPEND_STRUCTURED = Some RES_TYPE_UAV"
| "res_type_of D3D_SIT_UAV_CONSUME_STRUCTURED = Some RES_TYPE_UAV"
| "res_type_of D3D_SIT_UAV_RWSTRUCTURED_WITH_COUNTER = Some RES_TYPE_UAV"
| "res_type_of D3D_SIT_UAV_FEEDBACKTEXTURE = Some RES_TYPE_UAV"
| "res_type_of (D3D_SIT_other n) = None"

text \<open>
  The loop that builds \<^verbatim>\<open>ExtResourceMap\<close>: a binding whose name the reflection does not
  know gets no entry (the \<^verbatim>\<open>if\<close> has no \<^verbatim>\<open>else\<close>); \<open>None\<close> is the early
  \<^verbatim>\<open>return false\<close> on an unknown resource type. A new entry is appended (see
  \<open>ExtResMap_touch\<close>).
\<close>

fun build_ExtResourceMap ::
  "ShaderReflection \<Rightarrow> TResourceBinding list \<Rightarrow> TExtendedResourceMap \<Rightarrow> TExtendedResourceMap option" where
  "build_ExtResourceMap pShaderReflection [] ExtResourceMap = Some ExtResourceMap"
| "build_ExtResourceMap pShaderReflection (NameAndBinding # rest) ExtResourceMap =
     (case GetResourceBindingDescByName pShaderReflection (fst NameAndBinding) of
        None \<Rightarrow> build_ExtResourceMap pShaderReflection rest ExtResourceMap
      | Some ResDesc \<Rightarrow>
         (case res_type_of (Desc_Type ResDesc) of
            None \<Rightarrow> None
          | Some t \<Rightarrow>
              build_ExtResourceMap pShaderReflection rest
                (ExtResourceMap @
                 [(NameAndBinding,
                   \<lparr>SrcBindPoint = Desc_BindPoint ResDesc, SrcSpace = Desc_Space ResDesc,
                    RecordId = - 1, Type = t\<rparr>)])))"

text \<open>
  \<^verbatim>\<open>RemapResourceBindings(ResourceMap, pSrcBytecode, ppDstByteCode)\<close> returns its flag
  and the value of \<^verbatim>\<open>*ppDstByteCode\<close> afterwards; \<open>DstByteCode\<close> is the value before the
  call. The part after \<^verbatim>\<open>PatchDXIL\<close> is \<open>assemble_and_validate\<close>.

  \<^verbatim>\<open>GetD3D12ShaderReflection\<close> encloses its whole body in \<^verbatim>\<open>try { ... } catch (...) { }\<close>:
  when it fails it throws nothing and leaves \<^verbatim>\<open>pShaderReflection\<close> null (the field
  \<open>GetD3D12ShaderReflection\<close> of the library then gives \<open>None\<close>). The handler
  \<^verbatim>\<open>catch (...) { LOG_ERROR("Failed to get shader reflection"); return false; }\<close> around
  the call is therefore never entered, and the next statement,
  \<^verbatim>\<open>pShaderReflection->GetDesc(&ShDesc)\<close>, calls through the null pointer: the run is
  undefined.
\<close>

definition assemble_and_validate ::
  "'blob DxcLibrary \<Rightarrow> string \<Rightarrow> 'blob option \<Rightarrow> bool \<times> 'blob option" where
  "assemble_and_validate dxc dxilAsm DstByteCode =
     (if \<not> CreateBlobWithEncodingFromPinned dxc dxilAsm then (False, DstByteCode)
      else
        (case AssembleToContainer dxc dxilAsm of
           None \<Rightarrow> (False, DstByteCode)
         | Some dxilResult \<Rightarrow>
             if \<not> assemble_status_ok dxilResult then (False, DstByteCode)
             else
               (case assemble_result dxilResult of
                  None \<Rightarrow> (False, DstByteCode)
                | Some compiled \<Rightarrow> ValidateAndSign dxc compiled DstByteCode)))"

definition RemapResourceBindings ::
  "'blob DxcLibrary \<Rightarrow> TResourceBindingMap \<Rightarrow> 'blob \<Rightarrow> 'blob option \<Rightarrow> (bool \<times> 'blob option) run" where
  "RemapResourceBindings dxc ResourceMap SrcBytecode DstByteCode =
     (if \<not> GetCreateInstaceProc dxc then Returns (False, DstByteCode)
      else if \<not> CreateInstance_DxcLibrary dxc then Returns (False, DstByteCode)
      else if \<not> CreateInstance_DxcAssembler dxc then Returns (False, DstByteCode)
      else if \<not> CreateInstance_DxcCompiler dxc then Returns (False, DstByteCode)
      else
        (case Disassemble dxc SrcBytecode of
           None \<Rightarrow> Returns (False, DstByteCode)
         | Some disasm \<Rightarrow>
            (case GetD3D12ShaderReflection dxc SrcBytecode of
               None \<Rightarrow> UndefinedRun
             | Some pShaderReflection \<Rightarrow>
                (case build_ExtResourceMap pShaderReflection ResourceMap [] of
                   None \<Rightarrow> Returns (False, DstByteCode)
                 | Some ExtResourceMap \<Rightarrow>
                    (case PatchDXIL ResourceMap ExtResourceMap (shader_type_of (ShType pShaderReflection)) disasm of
                       NoReturn \<Rightarrow> NoReturn
                     | UndefinedRun \<Rightarrow> UndefinedRun
                     | Returns None \<Rightarrow> Returns (False, DstByteCode)
                     | Returns (Some dxilAsm) \<Rightarrow>
                         Returns (assemble_and_validate dxc dxilAsm DstByteCode))))))"

subsection \<open>\<^verbatim>\<open>IsDXILBytecode\<close>\<close>

text \<open>
  The container structures are declared in \<^verbatim>\<open>DxilContainer.h\<close> of the DirectX shader
  compiler, outside the sources:
  \<^verbatim>\<open>DxilContainerHeader { uint32_t HeaderFourCC; uint8_t Digest[16]; uint16_t Major, Minor;
  uint32_t ContainerSizeInBytes; uint32_t PartCount; }\<close> (32 bytes) and
  \<^verbatim>\<open>DxilPartHeader { uint32_t PartFourCC; uint32_t PartSize; }\<close> (8 bytes), with the four
  character codes \<^verbatim>\<open>DXBC\<close> of a container and \<^verbatim>\<open>DXIL\<close> of the IR part and the major
  version 1. Integers are little endian. Addresses are offsets from \<^verbatim>\<open>data_begin\<close>, as
  natural numbers: \<^verbatim>\<open>size_t\<close> has 64 bits, so \<^verbatim>\<open>sizeof(uint32_t) * PartCount\<close> and the
  sums of a 32-bit offset and a size do not wrap.
\<close>

type_synonym byte = "8 word"

definition sizeof_DxilContainerHeader :: nat where "sizeof_DxilContainerHeader = 32"
definition sizeof_DxilPartHeader :: nat where "sizeof_DxilPartHeader = 8"
definition DFCC_Container :: Uint32 where "DFCC_Container = 0x43425844"
definition DFCC_DXIL :: Uint32 where "DFCC_DXIL = 0x4C495844"
definition DxilContainerVersionMajor :: "16 word" where "DxilContainerVersionMajor = 1"

text \<open>
  A read of \<open>n\<close> bytes at an offset: \<open>None\<close> when it is not inside the buffer (the read
  the C++ would make outside \<open>[data_begin, data_end)\<close>).
\<close>

definition read_bytes :: "byte list \<Rightarrow> nat \<Rightarrow> nat \<Rightarrow> byte list option" where
  "read_bytes data off n = (if off + n \<le> length data then Some (take n (drop off data)) else None)"

definition read_uint32 :: "byte list \<Rightarrow> nat \<Rightarrow> Uint32 option" where
  "read_uint32 data off = map_option (\<lambda>bs. word_rcat (rev bs)) (read_bytes data off 4)"

definition read_uint16 :: "byte list \<Rightarrow> nat \<Rightarrow> 16 word option" where
  "read_uint16 data off = map_option (\<lambda>bs. word_rcat (rev bs)) (read_bytes data off 2)"

text \<open>
  The loop over the parts, from \<open>part\<close> with \<open>n\<close> parts left. \<open>Inl UndefinedBehavior\<close> is
  a read outside the buffer.
\<close>

fun parts_loop :: "byte list \<Rightarrow> nat \<Rightarrow> nat \<Rightarrow> error + bool" where
  "parts_loop data part 0 = Inr False"
| "parts_loop data part (Suc n) =
     (case read_uint32 data (sizeof_DxilContainerHeader + 4 * part) of
        None \<Rightarrow> Inl UndefinedBehavior
      | Some Offset \<Rightarrow>
          if unat Offset + sizeof_DxilPartHeader > length data then Inr False
          else
            (case read_uint32 data (unat Offset) of
               None \<Rightarrow> Inl UndefinedBehavior
             | Some PartFourCC \<Rightarrow>
                 if PartFourCC = DFCC_DXIL then Inr True
                 else parts_loop data (Suc part) n))"

text \<open>
  \<^verbatim>\<open>IsDXILBytecode(pBytecode, Size)\<close>: the returned flag and the number of warnings
  logged with \<^verbatim>\<open>LOG_WARNING_MESSAGE\<close>.
\<close>

definition IsDXILBytecode :: "byte list \<Rightarrow> error + (bool \<times> nat)" where
  "IsDXILBytecode data =
     (if sizeof_DxilContainerHeader > length data then Inr (False, 0)
      else
        (case read_uint32 data 0 of
           None \<Rightarrow> Inl UndefinedBehavior
         | Some HeaderFourCC \<Rightarrow>
             if HeaderFourCC \<noteq> DFCC_Container then Inr (False, 0)
             else
               (case read_uint16 data 20 of
                  None \<Rightarrow> Inl UndefinedBehavior
                | Some Major \<Rightarrow>
                    if Major \<noteq> DxilContainerVersionMajor then Inr (False, 1)
                    else
                      (case read_uint32 data 28 of
                         None \<Rightarrow> Inl UndefinedBehavior
                       | Some PartCount \<Rightarrow>
                           if sizeof_DxilContainerHeader + 4 * unat PartCount > length data
                           then Inr (False, 0)
                           else
                             (case parts_loop data 0 (unat PartCount) of
                                Inl e \<Rightarrow> Inl e
                              | Inr found \<Rightarrow> Inr (found, 0))))))"

subsection \<open>Example inputs\<close>

text \<open>
  A handle-creation call on range 0 of the shader resource views and the declaration of
  the texture \<^verbatim>\<open>g_Tex\<close> at space 2, bind point 0; the binding map moves it to space 0,
  bind point 3. The example compiler library disassembles a blob to itself and assembles
  a text to itself, so the blob that a remap returns shows the patched text.
\<close>

definition example_IR :: string where
  "example_IR =
     ''%1 = call %dx.types.Handle @dx.op.createHandle(i32 57, i8 0, i32 0, i32 0, i1 false)'' @ [CHR 0x0A] @
     ''!5 = !{i32 0, %\"class.Texture2D<float>\"* undef, !\"g_Tex\", i32 2, i32 0, i32 1}''"

definition example_reflection :: "nat \<Rightarrow> ShaderReflection" where
  "example_reflection t =
     \<lparr>ShType = t,
      GetResourceBindingDescByName =
        (\<lambda>name. if name = ''g_Tex''
                then Some \<lparr>Desc_Type = D3D_SIT_TEXTURE, Desc_BindPoint = 0, Desc_Space = 2\<rparr>
                else None)\<rparr>"

definition example_dxc :: "nat \<Rightarrow> string DxcLibrary" where
  "example_dxc t =
     \<lparr>GetCreateInstaceProc = True, CreateInstance_DxcLibrary = True,
      CreateInstance_DxcAssembler = True, CreateInstance_DxcCompiler = True,
      CreateInstance_DxcValidator = True,
      Disassemble = (\<lambda>blob. Some blob),
      GetD3D12ShaderReflection = (\<lambda>blob. Some (example_reflection t)),
      CreateBlobWithEncodingFromPinned = (\<lambda>text. True),
      AssembleToContainer = (\<lambda>text. Some \<lparr>assemble_status_ok = True, assemble_result = Some text\<rparr>),
      Validate = (\<lambda>blob. Some \<lparr>validation_status_ok = True, validation_result = Some None,
                                 compiled_in_place = blob\<rparr>)\<rparr>"

text \<open>
  The same library for a blob whose reflection cannot be obtained
  (\<^verbatim>\<open>GetD3D12ShaderReflection\<close> leaves the pointer null), and for a text that the
  assembler rejects.
\<close>

definition example_dxc_no_reflection :: "string DxcLibrary" where
  "example_dxc_no_reflection = (example_dxc 0)\<lparr>GetD3D12ShaderReflection := (\<lambda>blob. None)\<rparr>"

definition example_dxc_no_assembler :: "string DxcLibrary" where
  "example_dxc_no_assembler = (example_dxc 0)\<lparr>AssembleToContainer := (\<lambda>text. None)\<rparr>"

definition g_Tex_binding :: TResourceBinding where
  "g_Tex_binding = (''g_Tex'', \<lparr>BindPoint = 3, Space = 0, ArraySize = 1\<rparr>)"

definition g_Tex_ext :: TExtendedResourceMap where
  "g_Tex_ext = [(g_Tex_binding, \<lparr>SrcBindPoint = 0, SrcSpace = 2, RecordId = - 1, Type = RES_TYPE_SRV\<rparr>)]"


definition g_Missing_binding :: TResourceBinding where
  "g_Missing_binding = (''g_Missing'', \<lparr>BindPoint = 7, Space = 0, ArraySize = 1\<rparr>)"

definition example_IR_generic :: string where
  "example_IR_generic =
     ''%1 = call %dx.types.Handle @dx.op.createHandle(i32 57, i8 0, i32 0, i32 3, i1 false)'' @ [CHR 0x0A] @
     ''!5 = !{i32 0, %\"class.Texture2D<float>\"* undef, !\"g_Tex\", i32 0, i32 3, i32 1}''"

definition example_IR_RT :: string where
  "example_IR_RT =
     ''%1 = call %dx.types.Handle @dx.op.createHandle(i32 57, i8 0, i32 0, i32 0, i1 false)'' @ [CHR 0x0A] @
     ''!5 = !{i32 0, %\"class.Texture2D<float>\"* undef, !\"g_Tex\", i32 0, i32 3, i32 1}''"

definition g_Tex_ext_found :: TExtendedResourceMap where
  "g_Tex_ext_found = [(g_Tex_binding, \<lparr>SrcBindPoint = 0, SrcSpace = 2, RecordId = 0, Type = RES_TYPE_SRV\<rparr>)]"

definition known_to_reflection :: "ShaderReflection \<Rightarrow> TResourceBindingMap \<Rightarrow> TResourceBindingMap" where
  "known_to_reflection pShaderReflection ResourceMap =
     filter (\<lambda>NameAndBinding. GetResourceBindingDescByName pShaderReflection (fst NameAndBinding) \<noteq> None)
       ResourceMap"

subsection \<open>The parts of a container, in the words of the specification\<close>

text \<open>
  The number of parts that the header announces, the offset that the table gives for
  part \<open>k\<close>, whether the header of part \<open>k\<close> lies inside the buffer, and whether part
  \<open>k\<close> is an in-bounds part with the kind tag of the IR part. The header checks are
  those on the fixed header and on the size of the offset table.
\<close>

definition part_count :: "byte list \<Rightarrow> nat" where
  "part_count data = (case read_uint32 data 28 of None \<Rightarrow> 0 | Some PartCount \<Rightarrow> unat PartCount)"

definition part_offset :: "byte list \<Rightarrow> nat \<Rightarrow> nat" where
  "part_offset data k =
     (case read_uint32 data (sizeof_DxilContainerHeader + 4 * k) of None \<Rightarrow> 0 | Some Offset \<Rightarrow> unat Offset)"

definition part_in_bounds :: "byte list \<Rightarrow> nat \<Rightarrow> bool" where
  "part_in_bounds data k \<longleftrightarrow> part_offset data k + sizeof_DxilPartHeader \<le> length data"

definition is_DXIL_part :: "byte list \<Rightarrow> nat \<Rightarrow> bool" where
  "is_DXIL_part data k \<longleftrightarrow>
     part_in_bounds data k \<and> read_uint32 data (part_offset data k) = Some DFCC_DXIL"

definition header_checks_pass :: "byte list \<Rightarrow> bool" where
  "header_checks_pass data \<longleftrightarrow>
     sizeof_DxilContainerHeader \<le> length data \<and>
     read_uint32 data 0 = Some DFCC_Container \<and>
     read_uint16 data 20 = Some DxilContainerVersionMajor \<and>
     sizeof_DxilContainerHeader + 4 * part_count data \<le> length data"

text \<open>
  Example containers with two parts: a 32-byte header with the tag \<^verbatim>\<open>DXBC\<close> and major
  version 1, two offsets, and one part header with the tag \<^verbatim>\<open>DXIL\<close> at offset 40. One
  offset is 1000, outside the 48 bytes. A third container has major version 2.
\<close>

definition container_header :: "nat \<Rightarrow> byte list" where
  "container_header n =
     [0x44, 0x58, 0x42, 0x43] @ replicate 16 0 @ [1, 0, 0, 0] @ [0, 0, 0, 0] @ [of_nat n, 0, 0, 0]"

definition DXIL_part_header :: "byte list" where
  "DXIL_part_header = [0x44, 0x58, 0x49, 0x4C, 0, 0, 0, 0]"

definition container_bad_then_DXIL :: "byte list" where
  "container_bad_then_DXIL = container_header 2 @ [0xE8, 3, 0, 0] @ [40, 0, 0, 0] @ DXIL_part_header"

definition container_DXIL_then_bad :: "byte list" where
  "container_DXIL_then_bad = container_header 2 @ [40, 0, 0, 0] @ [0xE8, 3, 0, 0] @ DXIL_part_header"

definition container_wrong_major :: "byte list" where
  "container_wrong_major =
     [0x44, 0x58, 0x42, 0x43] @ replicate 16 0 @ [2, 0, 0, 0] @ [0, 0, 0, 0] @ [0, 0, 0, 0]"

text \<open>
  The scenario of a dynamic index: the value \<^verbatim>\<open>%22\<close> is the sum of a base and the
  literal 7, in either order, and indexes range 0, an array of 4 textures declared at
  bind point 5 and moved to bind point 10.
\<close>

definition example_dynamic_IR :: string where
  "example_dynamic_IR =
     ''%22 = add i32 %base, 7'' @ [CHR 0x0A] @
     ''%23 = call %dx.types.Handle @dx.op.createHandle(i32 57, i8 0, i32 0, i32 %22, i1 false)''"

definition example_dynamic_IR_patched :: string where
  "example_dynamic_IR_patched =
     ''%22 = add i32 %base, 12'' @ [CHR 0x0A] @
     ''%23 = call %dx.types.Handle @dx.op.createHandle(i32 57, i8 0, i32 0, i32 %22, i1 false)''"

definition example_dynamic_IR_swapped :: string where
  "example_dynamic_IR_swapped =
     ''%22 = add i32 7, %base'' @ [CHR 0x0A] @
     ''%23 = call %dx.types.Handle @dx.op.createHandle(i32 57, i8 0, i32 0, i32 %22, i1 false)''"

definition example_dynamic_IR_swapped_patched :: string where
  "example_dynamic_IR_swapped_patched =
     ''%22 = add i32 12, %base'' @ [CHR 0x0A] @
     ''%23 = call %dx.types.Handle @dx.op.createHandle(i32 57, i8 0, i32 0, i32 %22, i1 false)''"

definition array_ext :: TExtendedResourceMap where
  "array_ext = [((''g_Tex'', \<lparr>BindPoint = 10, Space = 0, ArraySize = 4\<rparr>),
                 \<lparr>SrcBindPoint = 5, SrcSpace = 0, RecordId = 0, Type = RES_TYPE_SRV\<rparr>)]"

subsection \<open>Example inputs for the handle-creation pass\<close>

text \<open>
  A call of class 0 on range 0 with the literal index 7; the text after the pass when the
  array declared at bind point 5 with 4 elements moves to bind point 10; and an extended
  map whose only entry has the array size \<^verbatim>\<open>0xFFFFFFFF\<close>.
\<close>

definition example_literal_IR :: string where
  "example_literal_IR =
     ''%1 = call %dx.types.Handle @dx.op.createHandle(i32 57, i8 0, i32 0, i32 7, i1 false)''"

definition example_literal_IR_patched :: string where
  "example_literal_IR_patched =
     ''%1 = call %dx.types.Handle @dx.op.createHandle(i32 57, i8 0, i32 0, i32 12, i1 false)''"

definition wrapping_ext :: TExtendedResourceMap where
  "wrapping_ext = [((''g_Tex'', \<lparr>BindPoint = 10, Space = 0, ArraySize = 0xFFFFFFFF\<rparr>),
                    \<lparr>SrcBindPoint = 5, SrcSpace = 0, RecordId = 0, Type = RES_TYPE_SRV\<rparr>)]"

text \<open>
  Two functions that both have a value \<^verbatim>\<open>%22\<close>. In \<^verbatim>\<open>@f\<close> it is defined by an
  \<^verbatim>\<open>add\<close>; in \<^verbatim>\<open>@g\<close>, where it is the index operand of the call, by a \<^verbatim>\<open>shl\<close>.
\<close>

definition example_two_functions_IR :: string where
  "example_two_functions_IR =
     ''define void @f() {'' @ [CHR 0x0A] @
     ''%22 = add i32 %base, 7'' @ [CHR 0x0A] @
     ''}'' @ [CHR 0x0A] @
     ''define void @g() {'' @ [CHR 0x0A] @
     ''%22 = shl i32 %x, 1'' @ [CHR 0x0A] @
     ''%23 = call %dx.types.Handle @dx.op.createHandle(i32 57, i8 0, i32 0, i32 %22, i1 false)'' @ [CHR 0x0A] @
     ''}''"

definition example_two_functions_IR_patched :: string where
  "example_two_functions_IR_patched =
     ''define void @f() {'' @ [CHR 0x0A] @
     ''%22 = add i32 %base, 12'' @ [CHR 0x0A] @
     ''}'' @ [CHR 0x0A] @
     ''define void @g() {'' @ [CHR 0x0A] @
     ''%22 = shl i32 %x, 1'' @ [CHR 0x0A] @
     ''%23 = call %dx.types.Handle @dx.op.createHandle(i32 57, i8 0, i32 0, i32 %22, i1 false)'' @ [CHR 0x0A] @
     ''}''"

text \<open>
  Two declarations, of \<^verbatim>\<open>g_Tex\<close> and of \<^verbatim>\<open>g_Missing\<close>, which the example reflection
  does not know; and the text after the ray tracing pass has remapped \<^verbatim>\<open>g_Tex\<close>.
\<close>

definition example_IR_two :: string where
  "example_IR_two =
     ''!5 = !{i32 0, %\"class.Texture2D<float>\"* undef, !\"g_Tex\", i32 2, i32 0, i32 1}'' @ [CHR 0x0A] @
     ''!6 = !{i32 1, %\"class.Texture2D<float>\"* undef, !\"g_Missing\", i32 0, i32 1, i32 1}''"

definition example_IR_two_RT :: string where
  "example_IR_two_RT =
     ''!5 = !{i32 0, %\"class.Texture2D<float>\"* undef, !\"g_Tex\", i32 0, i32 3, i32 1}'' @ [CHR 0x0A] @
     ''!6 = !{i32 1, %\"class.Texture2D<float>\"* undef, !\"g_Missing\", i32 0, i32 1, i32 1}''"

subsection \<open>Measures of the scanning loops\<close>

text \<open>
  The number of occurrences of a byte in a text, and the binding maps none of whose
  resource names contains the byte \<^verbatim>\<open>!\<close>, with which the search pattern \<^verbatim>\<open>, !"\<close> of the
  declaration scan is written. Every HLSL identifier is such a name.
\<close>

definition count_char :: "char \<Rightarrow> string \<Rightarrow> nat" where
  "count_char c xs = length (filter (\<lambda>x. x = c) xs)"

definition bang_free_names :: "TExtendedResourceMap \<Rightarrow> bool" where
  "bang_free_names ExtResMap \<longleftrightarrow> list_all (\<lambda>R. CHR ''!'' \<notin> set (fst (fst R))) ExtResMap"

subsection \<open>An input on which the declaration is rewritten again and again\<close>

text \<open>
  A declaration without a name, and a binding map whose only resource has a name that
  ends with the search pattern \<^verbatim>\<open>, !"\<close> of the declaration scan and is as long as the
  distance from the place of the name to the cursor that the scan keeps. \<open>growing_head\<close>
  and \<open>growing_tail\<close> are the parts of the declaration before and from the pattern.
\<close>

definition growing_head :: string where
  "growing_head = ''!5 = !{i32 0, %\"class.Texture2D<float>\"* undef''"

definition growing_tail :: string where
  "growing_tail = '', !\"\", i32 0, i32 0}''"

definition growing_name :: string where
  "growing_name = ''AAAAAAAAAAAAAAA, !\"''"

definition growing_ExtResMap :: "Uint32 \<Rightarrow> TExtendedResourceMap" where
  "growing_ExtResMap r =
     [((growing_name, \<lparr>BindPoint = 0, Space = 0, ArraySize = 1\<rparr>),
       \<lparr>SrcBindPoint = 0, SrcSpace = 0, RecordId = r, Type = RES_TYPE_SRV\<rparr>)]"

definition growing_IR :: string where
  "growing_IR = ''!5 = !{i32 0, %\"class.Texture2D<float>\"* undef, !\"\", i32 0, i32 0}''"

definition growing_binding :: TResourceBinding where
  "growing_binding = (growing_name, \<lparr>BindPoint = 0, Space = 0, ArraySize = 1\<rparr>)"

definition growing_dxc :: "string DxcLibrary" where
  "growing_dxc =
     (example_dxc 0)\<lparr>GetD3D12ShaderReflection :=
        (\<lambda>blob. Some \<lparr>ShType = 0,
                        GetResourceBindingDescByName =
                          (\<lambda>name. if name = growing_name
                                  then Some \<lparr>Desc_Type = D3D_SIT_TEXTURE, Desc_BindPoint = 0, Desc_Space = 0\<rparr>
                                  else None)\<rparr>)\<rparr>"

subsection \<open>A declaration without a name\<close>

text \<open>
  The declaration of the texture at space 2, bind point 0 without its name; the text
  after the two fields have been replaced; and the text after the name has been inserted.
\<close>

definition example_unnamed_IR :: string where
  "example_unnamed_IR = ''!5 = !{i32 0, %\"class.Texture2D<float>\"* undef, !\"\", i32 2, i32 0, i32 1}''"

definition example_unnamed_IR_replaced :: string where
  "example_unnamed_IR_replaced = ''!5 = !{i32 0, %\"class.Texture2D<float>\"* undef, !\"\", i32 0, i32 3, i32 1}''"

definition example_unnamed_IR_patched :: string where
  "example_unnamed_IR_patched =
     ''!5 = !{i32 0, %\"class.Texture2D<float>\"* undef, !\"g_Tex\", i32 0, i32 3, i32 1}''"

section \<open>Properties\<close>

subsection \<open>Resolution of a literal index\<close>

lemma find_Some_D: "find P xs = Some x \<Longrightarrow> x \<in> set xs \<and> P x"
  by (induction xs) (auto split: if_splits)

lemma find_None_D: "find P xs = None \<Longrightarrow> \<forall>x\<in>set xs. \<not> P x"
  by (induction xs) (auto split: if_splits)

text \<open>
  The lambda \<^verbatim>\<open>ReplaceBindPoint\<close> on an operand that \<^verbatim>\<open>std::stoi\<close> reads as
  \<open>sourceIndex\<close>, for a class from 0 to 3: either it finds an entry of the extended map
  whose record id is the range id, whose type is the class mapped through
  (0 = SRV, 1 = UAV, 2 = CBV, 3 = Sampler) and whose interval contains the index, and
  replaces the operand; or no entry meets the three conditions and it throws. All values
  are \<^verbatim>\<open>Uint32\<close> and the sums and comparisons are those of 32-bit unsigned arithmetic.
\<close>

lemma ReplaceBindPoint_resolves:
  assumes lit: "stoi (string_substr DXIL IndexStartPos (Some IndexEndPos)) = Inr sourceIndex"
      and cls: "ResClass < 4"
  shows "(\<exists>R \<in> set ExtResMap.
            RecordId (snd R) = RangeId \<and>
            Type (snd R) = [RES_TYPE_SRV, RES_TYPE_UAV, RES_TYPE_CBV, RES_TYPE_SAMPLER] ! unat ResClass \<and>
            SrcBindPoint (snd R) \<le> to_Uint32 sourceIndex \<and>
            to_Uint32 sourceIndex < SrcBindPoint (snd R) + ArraySize (snd (fst R)) \<and>
            ReplaceBindPoint ExtResMap DXIL ResClass RangeId IndexStartPos IndexEndPos =
              Inr (take IndexStartPos DXIL @
                   to_string (BindPoint (snd (fst R)) + (to_Uint32 sourceIndex - SrcBindPoint (snd R))) @
                   drop (IndexStartPos + (IndexEndPos - IndexStartPos)) DXIL))
         \<or>
         ((\<forall>R \<in> set ExtResMap.
            \<not> (RecordId (snd R) = RangeId \<and>
               Type (snd R) = [RES_TYPE_SRV, RES_TYPE_UAV, RES_TYPE_CBV, RES_TYPE_SAMPLER] ! unat ResClass \<and>
               SrcBindPoint (snd R) \<le> to_Uint32 sourceIndex \<and>
               to_Uint32 sourceIndex < SrcBindPoint (snd R) + ArraySize (snd (fst R)))) \<and>
          ReplaceBindPoint ExtResMap DXIL ResClass RangeId IndexStartPos IndexEndPos =
            Inl (PatchingError ''Failed to find resource in ResourceMap''))"
proof -
  let ?P = "bind_range_matches RangeId (ResClassToType ! unat ResClass) (to_Uint32 sourceIndex)"
  have c: "unat ResClass < length ResClassToType"
    using cls by (simp add: ResClassToType_def word_less_nat_alt)
  show ?thesis
  proof (cases "find ?P ExtResMap")
    case None
    from find_None_D [OF None] have "\<forall>R\<in>set ExtResMap. \<not> ?P R" .
    moreover have "ReplaceBindPoint ExtResMap DXIL ResClass RangeId IndexStartPos IndexEndPos =
            Inl (PatchingError ''Failed to find resource in ResourceMap'')"
      using lit c None by (simp add: ReplaceBindPoint_def)
    ultimately show ?thesis
      by (simp add: bind_range_matches_def ResClassToType_def)
  next
    case (Some R)
    from find_Some_D [OF Some] have "R \<in> set ExtResMap" "?P R" by simp_all
    moreover have "ReplaceBindPoint ExtResMap DXIL ResClass RangeId IndexStartPos IndexEndPos =
              Inr (take IndexStartPos DXIL @
                   to_string (BindPoint (snd (fst R)) + (to_Uint32 sourceIndex - SrcBindPoint (snd R))) @
                   drop (IndexStartPos + (IndexEndPos - IndexStartPos)) DXIL)"
      using lit c Some by (simp add: ReplaceBindPoint_def string_replace_def)
    ultimately show ?thesis
      unfolding bind_range_matches_def ResClassToType_def by blast
  qed
qed

subsection \<open>The equality gate of the declaration patchers\<close>

lemma to_Uint32_eq_iff: "to_Uint32 v = w \<longleftrightarrow> v mod 2 ^ 32 = uint w"
proof
  assume "to_Uint32 v = w"
  then have "uint w = uint (word_of_int v :: Uint32)"
    by (simp add: to_Uint32_def)
  then show "v mod 2 ^ 32 = uint w"
    by (simp add: uint_word_of_int)
next
  assume a: "v mod 2 ^ 32 = uint w"
  have "(word_of_int v :: Uint32) = word_of_int (v mod 2 ^ 32)"
    by (simp add: word_of_int_eq_iff take_bit_eq_mod)
  then show "to_Uint32 v = w"
    using a by (simp add: to_Uint32_def)
qed

lemma field_start: "pos + 2 + length i32 = pos + 6"
  by (simp add: i32_def)

text \<open>
  The gate of \<^verbatim>\<open>ReplaceRecord\<close> once the field is found and parsed: the replacement is
  made exactly when the parsed value, cast to \<^verbatim>\<open>Uint32\<close>, is the expected one.
\<close>

lemma ReplaceRecord_parsed:
  assumes "comma_space_at DXIL pos" and "strncmp_eq DXIL (pos + 2) i32"
    and "stoi (string_substr DXIL (pos + 6) (string_find_first_not_of DXIL NumberSymbols (pos + 6))) = Inr v"
  shows "ReplaceRecord DXIL pos NewValue Name RecordName ExpectedPrevValue =
           (if to_Uint32 v = ExpectedPrevValue
            then Inr (string_replace DXIL (pos + 6)
                        (string_find_first_not_of DXIL NumberSymbols (pos + 6)) NewValue,
                      pos + 6 + length NewValue)
            else Inl (resource_patching_error Name [''previous value does not match the expected'']))"
  using assms unfolding ReplaceRecord_def Let_def field_start by simp

lemma ReadRecord_parsed:
  assumes "comma_space_at DXIL pos" and "strncmp_eq DXIL (pos + 2) i32"
    and "stoi (string_substr DXIL (pos + 6) (string_find_first_not_of DXIL NumberSymbols (pos + 6))) = Inr v"
  shows "ReadRecord DXIL (Some pos) CurValue =
           Inr (True, string_find_first_not_of DXIL NumberSymbols (pos + 6), to_Uint32 v)"
  using assms unfolding ReadRecord_def Let_def field_start by simp

text \<open>
  Claim C10. Where a field \<^verbatim>\<open>, i32 <digits>\<close> stands at the cursor and \<^verbatim>\<open>std::stoi\<close>
  reads the signed value \<open>v\<close> from it, the record reader \<^verbatim>\<open>ReadRecord\<close> yields \<open>v\<close> cast
  to 32 bits, and the gate of \<^verbatim>\<open>ReplaceRecord\<close> lets the replacement through exactly
  when \<open>v\<close> is congruent to the expected value modulo \<open>2 ^ 32\<close>. In particular a field
  that reads \<^verbatim>\<open>-1\<close> passes the gate against the expected value \<^verbatim>\<open>0xFFFFFFFF\<close> and is
  rewritten.
\<close>

theorem field_values_compare_modulo_2_32:
  assumes "comma_space_at DXIL pos" and "strncmp_eq DXIL (pos + 2) i32"
    and "stoi (string_substr DXIL (pos + 6) (string_find_first_not_of DXIL NumberSymbols (pos + 6))) = Inr v"
  shows "ReadRecord DXIL (Some pos) CurValue =
           Inr (True, string_find_first_not_of DXIL NumberSymbols (pos + 6), word_of_int v) \<and>
         ((\<exists>r. ReplaceRecord DXIL pos NewValue Name RecordName ExpectedPrevValue = Inr r) \<longleftrightarrow>
            v mod 2 ^ 32 = uint ExpectedPrevValue) \<and>
         (v = - 1 \<longrightarrow>
            ReplaceRecord DXIL pos NewValue Name RecordName 0xFFFFFFFF =
              Inr (string_replace DXIL (pos + 6)
                     (string_find_first_not_of DXIL NumberSymbols (pos + 6)) NewValue,
                   pos + 6 + length NewValue))"
proof -
  have m1: "to_Uint32 (- 1) = 0xFFFFFFFF"
    by (simp add: to_Uint32_def)
  have rd: "ReadRecord DXIL (Some pos) CurValue =
              Inr (True, string_find_first_not_of DXIL NumberSymbols (pos + 6), word_of_int v)"
    using ReadRecord_parsed [OF assms, of CurValue] by (simp add: to_Uint32_def)
  have gate: "(\<exists>r. ReplaceRecord DXIL pos NewValue Name RecordName ExpectedPrevValue = Inr r) \<longleftrightarrow>
                to_Uint32 v = ExpectedPrevValue"
    using ReplaceRecord_parsed [OF assms, of NewValue Name RecordName ExpectedPrevValue] by simp
  have sentinel: "v = - 1 \<longrightarrow>
            ReplaceRecord DXIL pos NewValue Name RecordName 0xFFFFFFFF =
              Inr (string_replace DXIL (pos + 6)
                     (string_find_first_not_of DXIL NumberSymbols (pos + 6)) NewValue,
                   pos + 6 + length NewValue)"
    using ReplaceRecord_parsed [OF assms, of NewValue Name RecordName "0xFFFFFFFF"] m1 by simp
  show ?thesis
    using rd gate sentinel unfolding to_Uint32_eq_iff by blast
qed

text \<open>
  The example of the source: \<^verbatim>\<open>!"g_ColorBuffer", i32 -1, i32 -1\<close>, with a shorter name.
  The space field \<^verbatim>\<open>-1\<close> is read as \<^verbatim>\<open>0xFFFFFFFF\<close> and replaced by \<^verbatim>\<open>0\<close>.
\<close>

theorem field_values_compare_modulo_2_32_witness:
  "comma_space_at ''!\"g_Tex\", i32 -1, i32 -1, i32 1'' 8 \<and>
   strncmp_eq ''!\"g_Tex\", i32 -1, i32 -1, i32 1'' 10 i32 \<and>
   stoi (string_substr ''!\"g_Tex\", i32 -1, i32 -1, i32 1'' 14
           (string_find_first_not_of ''!\"g_Tex\", i32 -1, i32 -1, i32 1'' NumberSymbols 14)) =
     Inr (- 1) \<and>
   ReadRecord ''!\"g_Tex\", i32 -1, i32 -1, i32 1'' (Some 8) 0 = Inr (True, Some 16, 0xFFFFFFFF) \<and>
   ReplaceRecord ''!\"g_Tex\", i32 -1, i32 -1, i32 1'' 8 ''0'' ''g_Tex'' ''space'' 0xFFFFFFFF =
     Inr (''!\"g_Tex\", i32 0, i32 -1, i32 1'', 15)"
proof -
  have a: "comma_space_at ''!\"g_Tex\", i32 -1, i32 -1, i32 1'' 8"
    by code_simp
  have b: "strncmp_eq ''!\"g_Tex\", i32 -1, i32 -1, i32 1'' 10 i32"
    by code_simp
  have c: "stoi (string_substr ''!\"g_Tex\", i32 -1, i32 -1, i32 1'' 14
             (string_find_first_not_of ''!\"g_Tex\", i32 -1, i32 -1, i32 1'' NumberSymbols 14)) =
           Inr (- 1)"
    by code_simp
  have e: "string_find_first_not_of ''!\"g_Tex\", i32 -1, i32 -1, i32 1'' NumberSymbols 14 = Some 16"
    by code_simp
  have r: "string_replace ''!\"g_Tex\", i32 -1, i32 -1, i32 1'' 14 (Some 16) ''0'' =
           ''!\"g_Tex\", i32 0, i32 -1, i32 1''"
    by code_simp
  have b': "strncmp_eq ''!\"g_Tex\", i32 -1, i32 -1, i32 1'' (8 + 2) i32"
    using b by simp
  have c': "stoi (string_substr ''!\"g_Tex\", i32 -1, i32 -1, i32 1'' (8 + 6)
             (string_find_first_not_of ''!\"g_Tex\", i32 -1, i32 -1, i32 1'' NumberSymbols (8 + 6))) =
           Inr (- 1)"
    using c by simp
  have T: "ReadRecord ''!\"g_Tex\", i32 -1, i32 -1, i32 1'' (Some 8) 0 =
             Inr (True, string_find_first_not_of ''!\"g_Tex\", i32 -1, i32 -1, i32 1'' NumberSymbols 14,
                  word_of_int (- 1)) \<and>
           ReplaceRecord ''!\"g_Tex\", i32 -1, i32 -1, i32 1'' 8 ''0'' ''g_Tex'' ''space'' 0xFFFFFFFF =
             Inr (string_replace ''!\"g_Tex\", i32 -1, i32 -1, i32 1'' 14
                    (string_find_first_not_of ''!\"g_Tex\", i32 -1, i32 -1, i32 1'' NumberSymbols 14) ''0'',
                  14 + length ''0'')"
    using field_values_compare_modulo_2_32 [OF a b' c', of 0 "''0''" "''g_Tex''" "''space''"]
    by simp
  show ?thesis
    using a b c T unfolding e r by simp
qed

text \<open>
  Claim C4, at a mismatch. The declaration of \<^verbatim>\<open>g_Tex\<close> has space 2 where 3 is
  expected. \<^verbatim>\<open>ReplaceRecord\<close> makes no replacement and throws; the message names the
  resource, but it is the same whether the field is passed as \<^verbatim>\<open>space\<close> or as
  \<^verbatim>\<open>binding\<close>, and the word \<^verbatim>\<open>space\<close> does not occur in it: the field is not named.
  The other three checks of \<^verbatim>\<open>ReplaceRecord\<close> put \<^verbatim>\<open>RecordName\<close> into their messages.
\<close>

theorem mismatch_error_omits_field:
  "ReplaceRecord ''!\"g_Tex\", i32 2, i32 0, i32 1'' 8 ''0'' ''g_Tex'' ''space'' 3 =
     Inl (PatchingError
            (''Unable to patch DXIL for resource '' @ [CHR 0x27] @ ''g_Tex'' @ [CHR 0x27] @
             '': previous value does not match the expected'')) \<and>
   ReplaceRecord ''!\"g_Tex\", i32 2, i32 0, i32 1'' 8 ''0'' ''g_Tex'' ''binding'' 3 =
     ReplaceRecord ''!\"g_Tex\", i32 2, i32 0, i32 1'' 8 ''0'' ''g_Tex'' ''space'' 3 \<and>
   string_find
     (''Unable to patch DXIL for resource '' @ [CHR 0x27] @ ''g_Tex'' @ [CHR 0x27] @
      '': previous value does not match the expected'') ''space'' 0 = None \<and>
   ReplaceRecord ''!\"g_Tex\" i32 2, i32 0, i32 1'' 8 ''0'' ''g_Tex'' ''space'' 3 =
     Inl (PatchingError
            (''Unable to patch DXIL for resource '' @ [CHR 0x27] @ ''g_Tex'' @ [CHR 0x27] @
             '': space record is not found''))"
  by code_simp

subsection \<open>The pipeline\<close>

lemma caught_None: "e \<noteq> UndefinedBehavior \<Longrightarrow> caught e = Returns None"
  by (simp add: caught_def)

lemma ValidateAndSign_result:
  "ValidateAndSign dxc compiled BlobOut = (ok, out) \<Longrightarrow>
     (\<not> ok \<longrightarrow> out = BlobOut) \<and>
     (ok \<longrightarrow> (\<exists>v. CreateInstance_DxcValidator dxc \<and> Validate dxc compiled = Some v \<and> validation_status_ok v \<and>
            (validation_result v = Some None \<and> out = Some (compiled_in_place v) \<or>
             (\<exists>b. validation_result v = Some (Some b) \<and> out = Some b))))"
  by (auto simp: ValidateAndSign_def split: if_splits option.splits)

lemma assemble_and_validate_result:
  "assemble_and_validate dxc dxilAsm DstByteCode = (ok, out) \<Longrightarrow>
     (\<not> ok \<longrightarrow> out = DstByteCode) \<and>
     (ok \<longrightarrow> (\<exists>r compiled v. CreateBlobWithEncodingFromPinned dxc dxilAsm \<and>
            AssembleToContainer dxc dxilAsm = Some r \<and> assemble_status_ok r \<and>
            assemble_result r = Some compiled \<and>
            CreateInstance_DxcValidator dxc \<and> Validate dxc compiled = Some v \<and> validation_status_ok v \<and>
            (validation_result v = Some None \<and> out = Some (compiled_in_place v) \<or>
             (\<exists>b. validation_result v = Some (Some b) \<and> out = Some b))))"
  unfolding assemble_and_validate_def
  by (auto split: if_splits option.splits dest!: ValidateAndSign_result)

lemma Remap_cases:
  assumes "RemapResourceBindings dxc RM src dst = Returns (ok, out)"
  shows "(ok, out) = (False, dst) \<or>
     (\<exists>disasm pShaderReflection E dxilAsm.
        Disassemble dxc src = Some disasm \<and>
        GetD3D12ShaderReflection dxc src = Some pShaderReflection \<and>
        build_ExtResourceMap pShaderReflection RM [] = Some E \<and>
        PatchDXIL RM E (shader_type_of (ShType pShaderReflection)) disasm = Returns (Some dxilAsm) \<and>
        assemble_and_validate dxc dxilAsm dst = (ok, out))"
  using assms unfolding RemapResourceBindings_def
  by (auto split: if_splits option.splits run.splits)


lemma example_remap_with_missing:
  "RemapResourceBindings (example_dxc 0) [g_Tex_binding, g_Missing_binding] example_IR None =
   Returns (True, Some example_IR_generic)"
  by code_simp

text \<open>
  What a remap that returns leaves in the destination. Whatever the compiler library
  does: (1) when \<^verbatim>\<open>RemapResourceBindings\<close> returns
  false, \<^verbatim>\<open>*ppDstByteCode\<close> holds what it held before the call; (2) when it returns true,
  the map was built, \<^verbatim>\<open>PatchDXIL\<close> returned true with a text, the assembler accepted that
  text and its status was a success, the validator's status was a success, and the
  destination is the validated blob (or the assembled blob, edited in place, when the
  validator returns none); (3) when \<^verbatim>\<open>PatchDXIL\<close> returns false, the remap returns false
  and leaves the destination; (4) an exception of any of the three passes makes
  \<^verbatim>\<open>PatchDXIL\<close> return false. The patched text is a local variable of the remap and
  reaches the caller only through the assembler and the validator.
\<close>

theorem remap_returns_no_partial_result:
  "(\<forall>out. RemapResourceBindings dxc RM src dst = Returns (False, out) \<longrightarrow> out = dst) \<and>
   (\<forall>out. RemapResourceBindings dxc RM src dst = Returns (True, out) \<longrightarrow>
      (\<exists>disasm pShaderReflection E dxilAsm r compiled v.
         Disassemble dxc src = Some disasm \<and>
         GetD3D12ShaderReflection dxc src = Some pShaderReflection \<and>
         build_ExtResourceMap pShaderReflection RM [] = Some E \<and>
         PatchDXIL RM E (shader_type_of (ShType pShaderReflection)) disasm = Returns (Some dxilAsm) \<and>
         AssembleToContainer dxc dxilAsm = Some r \<and> assemble_status_ok r \<and>
         assemble_result r = Some compiled \<and>
         Validate dxc compiled = Some v \<and> validation_status_ok v \<and>
         (validation_result v = Some None \<and> out = Some (compiled_in_place v) \<or>
          (\<exists>b. validation_result v = Some (Some b) \<and> out = Some b)))) \<and>
   (\<forall>disasm pShaderReflection E.
      GetCreateInstaceProc dxc \<and> CreateInstance_DxcLibrary dxc \<and> CreateInstance_DxcAssembler dxc \<and>
      CreateInstance_DxcCompiler dxc \<and> Disassemble dxc src = Some disasm \<and>
      GetD3D12ShaderReflection dxc src = Some pShaderReflection \<and>
      build_ExtResourceMap pShaderReflection RM [] = Some E \<and>
      PatchDXIL RM E (shader_type_of (ShType pShaderReflection)) disasm = Returns None \<longrightarrow>
      RemapResourceBindings dxc RM src dst = Returns (False, dst)) \<and>
   (\<forall>E ShaderType DXIL e.
      e \<noteq> UndefinedBehavior \<and>
      (ShaderType \<in> set SHADER_TYPE_ALL_RAY_TRACING \<and> PatchResourceDeclarationRT RM E DXIL = Inl e \<or>
       ShaderType \<notin> set SHADER_TYPE_ALL_RAY_TRACING \<and>
         (PatchResourceDeclaration RM E DXIL = Some (Inl e) \<or>
          (\<exists>E1 DXIL1. PatchResourceDeclaration RM E DXIL = Some (Inr (E1, DXIL1)) \<and>
                       PatchResourceHandle RM E1 DXIL1 = Some (Inl e)))) \<longrightarrow>
      PatchDXIL RM E ShaderType DXIL = Returns None)"
proof (intro conjI allI impI)
  fix out
  assume "RemapResourceBindings dxc RM src dst = Returns (False, out)"
  from Remap_cases [OF this] show "out = dst"
    by (auto dest: assemble_and_validate_result)
next
  fix out
  assume "RemapResourceBindings dxc RM src dst = Returns (True, out)"
  from Remap_cases [OF this]
  obtain disasm pShaderReflection E dxilAsm where
    1: "Disassemble dxc src = Some disasm"
       "GetD3D12ShaderReflection dxc src = Some pShaderReflection"
       "build_ExtResourceMap pShaderReflection RM [] = Some E"
       "PatchDXIL RM E (shader_type_of (ShType pShaderReflection)) disasm = Returns (Some dxilAsm)"
    and 2: "assemble_and_validate dxc dxilAsm dst = (True, out)"
    by auto
  from assemble_and_validate_result [OF 2] 1
  show "\<exists>disasm pShaderReflection E dxilAsm r compiled v.
         Disassemble dxc src = Some disasm \<and>
         GetD3D12ShaderReflection dxc src = Some pShaderReflection \<and>
         build_ExtResourceMap pShaderReflection RM [] = Some E \<and>
         PatchDXIL RM E (shader_type_of (ShType pShaderReflection)) disasm = Returns (Some dxilAsm) \<and>
         AssembleToContainer dxc dxilAsm = Some r \<and> assemble_status_ok r \<and>
         assemble_result r = Some compiled \<and>
         Validate dxc compiled = Some v \<and> validation_status_ok v \<and>
         (validation_result v = Some None \<and> out = Some (compiled_in_place v) \<or>
          (\<exists>b. validation_result v = Some (Some b) \<and> out = Some b))"
    by simp blast
next
  fix disasm pShaderReflection E
  assume "GetCreateInstaceProc dxc \<and> CreateInstance_DxcLibrary dxc \<and> CreateInstance_DxcAssembler dxc \<and>
      CreateInstance_DxcCompiler dxc \<and> Disassemble dxc src = Some disasm \<and>
      GetD3D12ShaderReflection dxc src = Some pShaderReflection \<and>
      build_ExtResourceMap pShaderReflection RM [] = Some E \<and>
      PatchDXIL RM E (shader_type_of (ShType pShaderReflection)) disasm = Returns None"
  then show "RemapResourceBindings dxc RM src dst = Returns (False, dst)"
    by (simp add: RemapResourceBindings_def)
next
  fix E ShaderType DXIL e
  assume "e \<noteq> UndefinedBehavior \<and>
      (ShaderType \<in> set SHADER_TYPE_ALL_RAY_TRACING \<and> PatchResourceDeclarationRT RM E DXIL = Inl e \<or>
       ShaderType \<notin> set SHADER_TYPE_ALL_RAY_TRACING \<and>
         (PatchResourceDeclaration RM E DXIL = Some (Inl e) \<or>
          (\<exists>E1 DXIL1. PatchResourceDeclaration RM E DXIL = Some (Inr (E1, DXIL1)) \<and>
                       PatchResourceHandle RM E1 DXIL1 = Some (Inl e))))"
  then show "PatchDXIL RM E ShaderType DXIL = Returns None"
    by (auto simp: PatchDXIL_def caught_None)
qed


text \<open>
  A declaration that matches no requested binding is a hard error of the declaration
  patcher; \<^verbatim>\<open>PatchDXIL\<close> then returns false and the remap returns false with the
  destination as it was.
\<close>

theorem remap_returns_no_partial_result_witness:
  "PatchResourceDeclaration [g_Missing_binding] [] example_IR =
     Some (Inl (PatchingError ''Unable to patch DXIL: failed to find resource in ResourceMap'')) \<and>
   PatchDXIL [g_Missing_binding] [] SHADER_TYPE_PIXEL example_IR = Returns None \<and>
   RemapResourceBindings (example_dxc 0) [g_Missing_binding] example_IR (Some ''old'') =
     Returns (False, Some ''old'')"
proof -
  have p: "PatchResourceDeclaration [g_Missing_binding] [] example_IR =
     Some (Inl (PatchingError ''Unable to patch DXIL: failed to find resource in ResourceMap''))"
    by code_simp
  have nrt: "SHADER_TYPE_PIXEL \<notin> set SHADER_TYPE_ALL_RAY_TRACING"
    by (simp add: SHADER_TYPE_ALL_RAY_TRACING_def)
  have b: "build_ExtResourceMap (example_reflection 0) [g_Missing_binding] [] = Some []"
    by (simp add: example_reflection_def g_Missing_binding_def)
  have st: "shader_type_of (ShType (example_reflection 0)) = SHADER_TYPE_PIXEL"
    by (simp add: example_reflection_def shader_type_of_def)
  note T = remap_returns_no_partial_result
             [of "example_dxc 0" "[g_Missing_binding]" example_IR "Some ''old''"]
  have d: "PatchDXIL [g_Missing_binding] [] SHADER_TYPE_PIXEL example_IR = Returns None"
    using T p nrt by blast
  have "RemapResourceBindings (example_dxc 0) [g_Missing_binding] example_IR (Some ''old'') =
     Returns (False, Some ''old'')"
    using T b d st by (simp add: example_dxc_def)
  with p d show ?thesis by simp
qed

text \<open>
  Every failure of the compiler library other than a missing reflection makes the remap
  return false and leave the destination: a missing entry point, a failed
  \<^verbatim>\<open>CreateInstance\<close>, a failed disassembly, and, once \<^verbatim>\<open>PatchDXIL\<close> has returned true,
  a failed blob creation, assembly, assembly status, validator creation, validation or
  validation status.
\<close>

lemma backend_failure_returns_false:
  "(\<not> GetCreateInstaceProc dxc \<or> \<not> CreateInstance_DxcLibrary dxc \<or>
    \<not> CreateInstance_DxcAssembler dxc \<or> \<not> CreateInstance_DxcCompiler dxc \<or>
    Disassemble dxc src = None \<longrightarrow>
    RemapResourceBindings dxc RM src dst = Returns (False, dst)) \<and>
   (\<forall>dxilAsm.
      \<not> CreateBlobWithEncodingFromPinned dxc dxilAsm \<or> AssembleToContainer dxc dxilAsm = None \<or>
      (\<exists>r. AssembleToContainer dxc dxilAsm = Some r \<and>
         (\<not> assemble_status_ok r \<or> assemble_result r = None \<or>
          (\<exists>compiled. assemble_result r = Some compiled \<and>
             (\<not> CreateInstance_DxcValidator dxc \<or> Validate dxc compiled = None \<or>
              (\<exists>v. Validate dxc compiled = Some v \<and>
                 (\<not> validation_status_ok v \<or> validation_result v = None)))))) \<longrightarrow>
      assemble_and_validate dxc dxilAsm dst = (False, dst))"
  by (auto simp: RemapResourceBindings_def assemble_and_validate_def ValidateAndSign_def)

text \<open>
  Claim C7 fails where the reflection of the source blob cannot be obtained. The source
  means to return false there: the call of \<^verbatim>\<open>GetD3D12ShaderReflection\<close> stands in a
  \<^verbatim>\<open>try\<close> block whose handler logs \<^verbatim>\<open>Failed to get shader reflection\<close> and returns
  false. But \<^verbatim>\<open>GetD3D12ShaderReflection\<close> catches its own exceptions and returns with
  the pointer null, so the handler is dead code and the remap calls
  \<^verbatim>\<open>pShaderReflection->GetDesc\<close> through the null pointer: it does not return failure, its
  behaviour is undefined. This happens before the binding map is built, whatever the
  binding map is. The sibling failure of the assembler, on the same input, returns false
  and leaves the destination.
\<close>

theorem reflection_failure_is_not_caught:
  "RemapResourceBindings example_dxc_no_reflection [g_Tex_binding] example_IR (Some ''old'') =
     UndefinedRun \<and>
   RemapResourceBindings example_dxc_no_reflection [] example_IR None = UndefinedRun \<and>
   RemapResourceBindings example_dxc_no_assembler [g_Tex_binding] example_IR (Some ''old'') =
     Returns (False, Some ''old'')"
  by code_simp

subsection \<open>The order of the passes\<close>

lemma example_patch_generic:
  "PatchResourceDeclaration [g_Tex_binding] g_Tex_ext example_IR = Some (Inr (g_Tex_ext_found, example_IR_RT))"
  by code_simp

lemma example_patch_handle:
  "PatchResourceHandle [g_Tex_binding] g_Tex_ext_found example_IR_RT = Some (Inr example_IR_generic)"
  by code_simp

lemma example_patch_RT:
  "PatchResourceDeclarationRT [g_Tex_binding] g_Tex_ext example_IR = Inr (g_Tex_ext_found, example_IR_RT)"
  by code_simp

text \<open>
  Claim C2 fails as stated. For a ray tracing shader \<^verbatim>\<open>PatchDXIL\<close> runs
  \<^verbatim>\<open>PatchResourceDeclarationRT\<close> and nothing else: on the example the declaration is
  rewritten and the handle-creation call keeps its index 0, although
  \<^verbatim>\<open>PatchResourceHandle\<close>, run on that result, would rewrite the index to 3, as
  \<^verbatim>\<open>PatchDXIL\<close> does for a pixel shader.
\<close>

theorem ray_tracing_skips_handle_patcher:
  "PatchDXIL [g_Tex_binding] g_Tex_ext SHADER_TYPE_RAY_GEN example_IR = Returns (Some example_IR_RT) \<and>
   PatchResourceHandle [g_Tex_binding] g_Tex_ext_found example_IR_RT = Some (Inr example_IR_generic) \<and>
   example_IR_RT \<noteq> example_IR_generic \<and>
   PatchDXIL [g_Tex_binding] g_Tex_ext SHADER_TYPE_PIXEL example_IR = Returns (Some example_IR_generic)"
  using example_patch_RT example_patch_handle example_patch_generic
  by (simp add: PatchDXIL_def SHADER_TYPE_ALL_RAY_TRACING_def example_IR_RT_def example_IR_generic_def)

text \<open>
  Claim C2, amended. For a shader that is not a ray tracing shader, \<^verbatim>\<open>PatchDXIL\<close>
  succeeds with a text exactly when the generic declaration patcher succeeds and the
  handle-creation patcher, run on the map and the text that the declaration patcher
  left, succeeds with that text. For a ray tracing shader it succeeds exactly when the
  ray tracing declaration patcher does, with that patcher's text: the handle-creation
  patcher does not run. In a successful remap the binding map is built before
  \<^verbatim>\<open>PatchDXIL\<close> runs on it.
\<close>

theorem PatchDXIL_pass_order:
  "(ShaderType \<notin> set SHADER_TYPE_ALL_RAY_TRACING \<longrightarrow>
      (PatchDXIL RM E ShaderType DXIL = Returns (Some out) \<longleftrightarrow>
         (\<exists>E1 DXIL1. PatchResourceDeclaration RM E DXIL = Some (Inr (E1, DXIL1)) \<and>
                      PatchResourceHandle RM E1 DXIL1 = Some (Inr out)))) \<and>
   (ShaderType \<in> set SHADER_TYPE_ALL_RAY_TRACING \<longrightarrow>
      (PatchDXIL RM E ShaderType DXIL = Returns (Some out) \<longleftrightarrow>
         (\<exists>E1. PatchResourceDeclarationRT RM E DXIL = Inr (E1, out)))) \<and>
   (RemapResourceBindings dxc RM src dst = Returns (True, blob) \<longrightarrow>
      (\<exists>disasm pShaderReflection E0 dxilAsm.
         Disassemble dxc src = Some disasm \<and>
         GetD3D12ShaderReflection dxc src = Some pShaderReflection \<and>
         build_ExtResourceMap pShaderReflection RM [] = Some E0 \<and>
         PatchDXIL RM E0 (shader_type_of (ShType pShaderReflection)) disasm = Returns (Some dxilAsm)))"
proof (intro conjI impI)
  assume "ShaderType \<notin> set SHADER_TYPE_ALL_RAY_TRACING"
  then show "PatchDXIL RM E ShaderType DXIL = Returns (Some out) \<longleftrightarrow>
         (\<exists>E1 DXIL1. PatchResourceDeclaration RM E DXIL = Some (Inr (E1, DXIL1)) \<and>
                      PatchResourceHandle RM E1 DXIL1 = Some (Inr out))"
    by (auto simp: PatchDXIL_def caught_def split: option.splits sum.splits if_splits)
next
  assume "ShaderType \<in> set SHADER_TYPE_ALL_RAY_TRACING"
  then show "PatchDXIL RM E ShaderType DXIL = Returns (Some out) \<longleftrightarrow>
         (\<exists>E1. PatchResourceDeclarationRT RM E DXIL = Inr (E1, out))"
    by (auto simp: PatchDXIL_def caught_def split: option.splits sum.splits if_splits)
next
  assume "RemapResourceBindings dxc RM src dst = Returns (True, blob)"
  from Remap_cases [OF this]
  show "\<exists>disasm pShaderReflection E0 dxilAsm.
         Disassemble dxc src = Some disasm \<and>
         GetD3D12ShaderReflection dxc src = Some pShaderReflection \<and>
         build_ExtResourceMap pShaderReflection RM [] = Some E0 \<and>
         PatchDXIL RM E0 (shader_type_of (ShType pShaderReflection)) disasm = Returns (Some dxilAsm)"
    by auto
qed

theorem PatchDXIL_pass_order_witness:
  "SHADER_TYPE_PIXEL \<notin> set SHADER_TYPE_ALL_RAY_TRACING \<and>
   SHADER_TYPE_RAY_GEN \<in> set SHADER_TYPE_ALL_RAY_TRACING \<and>
   PatchResourceDeclaration [g_Tex_binding] g_Tex_ext example_IR = Some (Inr (g_Tex_ext_found, example_IR_RT)) \<and>
   PatchResourceHandle [g_Tex_binding] g_Tex_ext_found example_IR_RT = Some (Inr example_IR_generic) \<and>
   PatchDXIL [g_Tex_binding] g_Tex_ext SHADER_TYPE_PIXEL example_IR = Returns (Some example_IR_generic) \<and>
   PatchResourceDeclarationRT [g_Tex_binding] g_Tex_ext example_IR = Inr (g_Tex_ext_found, example_IR_RT) \<and>
   PatchDXIL [g_Tex_binding] g_Tex_ext SHADER_TYPE_RAY_GEN example_IR = Returns (Some example_IR_RT)"
proof -
  have a: "SHADER_TYPE_PIXEL \<notin> set SHADER_TYPE_ALL_RAY_TRACING"
    by (simp add: SHADER_TYPE_ALL_RAY_TRACING_def)
  have b: "SHADER_TYPE_RAY_GEN \<in> set SHADER_TYPE_ALL_RAY_TRACING"
    by (simp add: SHADER_TYPE_ALL_RAY_TRACING_def)
  have c: "PatchDXIL [g_Tex_binding] g_Tex_ext SHADER_TYPE_PIXEL example_IR = Returns (Some example_IR_generic)"
    using PatchDXIL_pass_order [of SHADER_TYPE_PIXEL "[g_Tex_binding]" g_Tex_ext example_IR example_IR_generic,
            THEN conjunct1]
      a example_patch_generic example_patch_handle by simp
  have d: "PatchDXIL [g_Tex_binding] g_Tex_ext SHADER_TYPE_RAY_GEN example_IR = Returns (Some example_IR_RT)"
    using PatchDXIL_pass_order [of SHADER_TYPE_RAY_GEN "[g_Tex_binding]" g_Tex_ext example_IR example_IR_RT,
            THEN conjunct2, THEN conjunct1]
      b example_patch_RT by simp
  show ?thesis
    using a b c d example_patch_generic example_patch_handle example_patch_RT by simp
qed

subsection \<open>Requests that the reflection does not know\<close>

lemma build_skips_unknown:
  "build_ExtResourceMap r RM E = build_ExtResourceMap r (known_to_reflection r RM) E"
  by (induction RM arbitrary: E) (auto simp: known_to_reflection_def split: option.splits)

lemma PatchDXIL_generic_ignores_ResourceMap:
  "ShaderType \<notin> set SHADER_TYPE_ALL_RAY_TRACING \<Longrightarrow>
     PatchDXIL RM E ShaderType DXIL = PatchDXIL RM' E ShaderType DXIL"
proof -
  have h: "PatchResourceHandle RM = PatchResourceHandle RM'"
    by (intro ext) (simp add: PatchResourceHandle_def)
  have d: "PatchResourceDeclaration RM = PatchResourceDeclaration RM'"
    by (intro ext) (simp add: PatchResourceDeclaration_def)
  show "ShaderType \<notin> set SHADER_TYPE_ALL_RAY_TRACING \<Longrightarrow>
     PatchDXIL RM E ShaderType DXIL = PatchDXIL RM' E ShaderType DXIL"
    unfolding PatchDXIL_def h d by simp
qed

text \<open>
  Claim C3 fails as stated. The reflection of the example knows \<^verbatim>\<open>g_Tex\<close> and does not
  know \<^verbatim>\<open>g_Missing\<close>; the remap of both requests returns true, with \<^verbatim>\<open>g_Tex\<close>
  remapped.
\<close>

theorem missing_reflection_entry_is_skipped:
  "GetResourceBindingDescByName (example_reflection 0) (fst g_Missing_binding) = None \<and>
   RemapResourceBindings (example_dxc 0) [g_Tex_binding, g_Missing_binding] example_IR None =
     Returns (True, Some example_IR_generic)"
  using example_remap_with_missing
  by (simp add: example_reflection_def g_Missing_binding_def)

text \<open>
  Claim C3, amended. A request whose name has no reflection entry gets no entry of the
  extended map, and the map builder goes on: the map is the one built from the requests
  that the reflection knows. For a shader that is not a ray tracing shader the whole
  remap behaves as it does without the unknown requests.
\<close>

theorem unknown_requests_are_skipped:
  "build_ExtResourceMap pShaderReflection RM E =
     build_ExtResourceMap pShaderReflection (known_to_reflection pShaderReflection RM) E \<and>
   (GetD3D12ShaderReflection dxc src = Some pShaderReflection \<and>
    shader_type_of (ShType pShaderReflection) \<notin> set SHADER_TYPE_ALL_RAY_TRACING \<longrightarrow>
      RemapResourceBindings dxc RM src dst =
      RemapResourceBindings dxc (known_to_reflection pShaderReflection RM) src dst)"
proof (intro conjI impI)
  show "build_ExtResourceMap pShaderReflection RM E =
     build_ExtResourceMap pShaderReflection (known_to_reflection pShaderReflection RM) E"
    by (rule build_skips_unknown)
next
  assume a: "GetD3D12ShaderReflection dxc src = Some pShaderReflection \<and>
    shader_type_of (ShType pShaderReflection) \<notin> set SHADER_TYPE_ALL_RAY_TRACING"
  then have nrt: "shader_type_of (ShType pShaderReflection) \<notin> set SHADER_TYPE_ALL_RAY_TRACING"
    by simp
  have p: "\<And>E0 D. PatchDXIL (known_to_reflection pShaderReflection RM) E0
                        (shader_type_of (ShType pShaderReflection)) D =
                      PatchDXIL RM E0 (shader_type_of (ShType pShaderReflection)) D"
    by (rule PatchDXIL_generic_ignores_ResourceMap [OF nrt])
  have b: "build_ExtResourceMap pShaderReflection (known_to_reflection pShaderReflection RM) [] =
           build_ExtResourceMap pShaderReflection RM []"
    by (simp add: build_skips_unknown [symmetric])
  show "RemapResourceBindings dxc RM src dst =
      RemapResourceBindings dxc (known_to_reflection pShaderReflection RM) src dst"
    using a
    by (cases "Disassemble dxc src")
       (simp_all add: RemapResourceBindings_def b p split: option.splits)
qed

theorem unknown_requests_are_skipped_witness:
  "GetD3D12ShaderReflection (example_dxc 0) example_IR = Some (example_reflection 0) \<and>
   shader_type_of (ShType (example_reflection 0)) \<notin> set SHADER_TYPE_ALL_RAY_TRACING \<and>
   known_to_reflection (example_reflection 0) [g_Tex_binding, g_Missing_binding] = [g_Tex_binding] \<and>
   RemapResourceBindings (example_dxc 0) [g_Tex_binding] example_IR None =
     Returns (True, Some example_IR_generic)"
proof -
  have a: "GetD3D12ShaderReflection (example_dxc 0) example_IR = Some (example_reflection 0)"
    by (simp add: example_dxc_def)
  have b: "shader_type_of (ShType (example_reflection 0)) \<notin> set SHADER_TYPE_ALL_RAY_TRACING"
    by (simp add: example_reflection_def shader_type_of_def SHADER_TYPE_ALL_RAY_TRACING_def)
  have k: "known_to_reflection (example_reflection 0) [g_Tex_binding, g_Missing_binding] = [g_Tex_binding]"
    by (simp add: known_to_reflection_def example_reflection_def g_Tex_binding_def g_Missing_binding_def)
  have "RemapResourceBindings (example_dxc 0) [g_Tex_binding] example_IR None =
     Returns (True, Some example_IR_generic)"
    using unknown_requests_are_skipped
            [of "example_reflection 0" "[g_Tex_binding, g_Missing_binding]" "[]" "example_dxc 0" example_IR None]
      a b k example_remap_with_missing by simp
  with a b k show ?thesis by simp
qed

text \<open>
  The equivalence does not extend to ray tracing shaders. There the declaration pass
  itself loops over the binding map; for a request that the reflection does not know,
  \<^verbatim>\<open>ExtResMap[&ResPair]\<close> inserts a default entry with the source space \<^verbatim>\<open>~0u\<close>, and
  when the text declares that name \<^verbatim>\<open>ReplaceRecord\<close> throws: the remap returns false.
\<close>

lemma unknown_request_in_ray_tracing:
  "GetResourceBindingDescByName (example_reflection 7) (fst g_Missing_binding) = None \<and>
   RemapResourceBindings (example_dxc 7) [g_Tex_binding] example_IR_two (Some ''old'') =
     Returns (True, Some example_IR_two_RT) \<and>
   RemapResourceBindings (example_dxc 7) [g_Tex_binding, g_Missing_binding] example_IR_two (Some ''old'') =
     Returns (False, Some ''old'')"
  by code_simp

subsection \<open>The container probe\<close>

lemma read_uint32_Some: "off + 4 \<le> length data \<Longrightarrow> \<exists>w. read_uint32 data off = Some w"
  by (simp add: read_uint32_def read_bytes_def)

lemma read_uint16_Some: "off + 2 \<le> length data \<Longrightarrow> \<exists>w. read_uint16 data off = Some w"
  by (simp add: read_uint16_def read_bytes_def)

lemma parts_loop_found:
  "sizeof_DxilContainerHeader + 4 * (part + n) \<le> length data \<Longrightarrow>
   parts_loop data part n =
     Inr (\<exists>k. part \<le> k \<and> k < part + n \<and> is_DXIL_part data k \<and>
              (\<forall>j. part \<le> j \<and> j < k \<longrightarrow> part_in_bounds data j))"
proof (induction n arbitrary: part)
  case 0
  then show ?case by simp
next
  case (Suc n)
  let ?Q = "\<lambda>p m. \<exists>k. p \<le> k \<and> k < p + m \<and> is_DXIL_part data k \<and>
              (\<forall>j. p \<le> j \<and> j < k \<longrightarrow> part_in_bounds data j)"
  from Suc.prems have "sizeof_DxilContainerHeader + 4 * part + 4 \<le> length data" by simp
  from read_uint32_Some [OF this] obtain Offset where
    off: "read_uint32 data (sizeof_DxilContainerHeader + 4 * part) = Some Offset" by blast
  then have po: "part_offset data part = unat Offset" by (simp add: part_offset_def)
  show ?case
  proof (cases "unat Offset + sizeof_DxilPartHeader > length data")
    case True
    then have nb: "\<not> part_in_bounds data part" by (simp add: part_in_bounds_def po)
    have "\<not> ?Q part (Suc n)"
    proof
      assume "?Q part (Suc n)"
      then obtain k where k: "part \<le> k" "is_DXIL_part data k"
        "\<forall>j. part \<le> j \<and> j < k \<longrightarrow> part_in_bounds data j" by blast
      show False
      proof (cases "k = part")
        case True with k(2) nb show False by (simp add: is_DXIL_part_def)
      next
        case False with k(1) have "part < k" by simp
        with k(3) nb show False by blast
      qed
    qed
    with True off show ?thesis by simp
  next
    case False
    then have ib: "part_in_bounds data part" by (simp add: part_in_bounds_def po)
    from False have "unat Offset + 4 \<le> length data" by (simp add: sizeof_DxilPartHeader_def)
    from read_uint32_Some [OF this] obtain cc where cc: "read_uint32 data (unat Offset) = Some cc" by blast
    show ?thesis
    proof (cases "cc = DFCC_DXIL")
      case True
      then have "is_DXIL_part data part" using ib cc by (simp add: is_DXIL_part_def po)
      then have "?Q part (Suc n)" by (intro exI [of _ part]) auto
      with False off cc True show ?thesis by simp
    next
      case ne: False
      then have nd: "\<not> is_DXIL_part data part" using cc by (simp add: is_DXIL_part_def po)
      from Suc.prems have "sizeof_DxilContainerHeader + 4 * (Suc part + n) \<le> length data" by simp
      from Suc.IH [OF this] have ih: "parts_loop data (Suc part) n = Inr (?Q (Suc part) n)" .
      have "?Q (Suc part) n \<longleftrightarrow> ?Q part (Suc n)"
      proof
        assume "?Q (Suc part) n"
        then obtain k where k: "Suc part \<le> k" "k < Suc part + n" "is_DXIL_part data k"
          "\<forall>j. Suc part \<le> j \<and> j < k \<longrightarrow> part_in_bounds data j" by blast
        have "\<forall>j. part \<le> j \<and> j < k \<longrightarrow> part_in_bounds data j"
        proof (intro allI impI)
          fix j assume j: "part \<le> j \<and> j < k"
          show "part_in_bounds data j"
          proof (cases "j = part")
            case True with ib show ?thesis by simp
          next
            case False with j k(4) show ?thesis by simp
          qed
        qed
        with k show "?Q part (Suc n)" by (intro exI [of _ k]) simp
      next
        assume "?Q part (Suc n)"
        then obtain k where k: "part \<le> k" "k < part + Suc n" "is_DXIL_part data k"
          "\<forall>j. part \<le> j \<and> j < k \<longrightarrow> part_in_bounds data j" by blast
        from k(3) nd have "k \<noteq> part" by blast
        with k show "?Q (Suc part) n" by (intro exI [of _ k]) simp
      qed
      with False off cc ne ih show ?thesis by simp
    qed
  qed
qed

text \<open>
  Claim C5, amended. For every buffer the probe returns a flag and reads nothing outside
  the buffer. It returns false for a buffer smaller than the fixed header (so for the
  empty buffer), for a wrong magic tag, for a wrong major version, and for a buffer too
  small for the offset table; it logs one warning for a wrong major version and none
  otherwise. When the header checks pass, it returns true exactly when some part is in
  bounds and carries the tag of the IR part and every part before it in the table is in
  bounds: the scan stops with false at the first part header that does not fit, and with
  true at the first IR part, whatever follows it.
\<close>

theorem IsDXILBytecode_result:
  "(\<exists>found warnings. IsDXILBytecode data = Inr (found, warnings)) \<and>
   (length data < sizeof_DxilContainerHeader \<longrightarrow> IsDXILBytecode data = Inr (False, 0)) \<and>
   (sizeof_DxilContainerHeader \<le> length data \<and> read_uint32 data 0 \<noteq> Some DFCC_Container \<longrightarrow>
      IsDXILBytecode data = Inr (False, 0)) \<and>
   (sizeof_DxilContainerHeader \<le> length data \<and> read_uint32 data 0 = Some DFCC_Container \<and>
    read_uint16 data 20 \<noteq> Some DxilContainerVersionMajor \<longrightarrow>
      IsDXILBytecode data = Inr (False, 1)) \<and>
   (sizeof_DxilContainerHeader \<le> length data \<and> read_uint32 data 0 = Some DFCC_Container \<and>
    read_uint16 data 20 = Some DxilContainerVersionMajor \<and>
    length data < sizeof_DxilContainerHeader + 4 * part_count data \<longrightarrow>
      IsDXILBytecode data = Inr (False, 0)) \<and>
   (header_checks_pass data \<longrightarrow>
      IsDXILBytecode data =
        Inr (\<exists>k < part_count data. is_DXIL_part data k \<and> (\<forall>j < k. part_in_bounds data j), 0))"
proof (cases "sizeof_DxilContainerHeader \<le> length data")
  case False
  then show ?thesis by (auto simp: IsDXILBytecode_def header_checks_pass_def)
next
  case True
  then have "0 + 4 \<le> length data" "20 + 2 \<le> length data" "28 + 4 \<le> length data"
    by (simp_all add: sizeof_DxilContainerHeader_def)
  then obtain cc mj pc where r: "read_uint32 data 0 = Some cc" "read_uint16 data 20 = Some mj"
      "read_uint32 data 28 = Some pc"
    using read_uint32_Some read_uint16_Some by metis
  then have pcn: "part_count data = unat pc" by (simp add: part_count_def)
  show ?thesis
  proof (cases "cc = DFCC_Container \<and> mj = DxilContainerVersionMajor \<and>
                sizeof_DxilContainerHeader + 4 * unat pc \<le> length data")
    case False
    then show ?thesis using True r pcn
      by (auto simp: IsDXILBytecode_def header_checks_pass_def)
  next
    case ok: True
    then have "sizeof_DxilContainerHeader + 4 * (0 + unat pc) \<le> length data" by simp
    from parts_loop_found [OF this]
    have "parts_loop data 0 (unat pc) =
      Inr (\<exists>k < part_count data. is_DXIL_part data k \<and> (\<forall>j < k. part_in_bounds data j))"
      by (simp add: pcn)
    then show ?thesis using True r pcn ok
      by (auto simp: IsDXILBytecode_def header_checks_pass_def)
  qed
qed

text \<open>
  The empty buffer, a container with major version 2 and a container whose first part is
  the IR part.
\<close>

theorem IsDXILBytecode_result_witness:
  "length ([] :: byte list) < sizeof_DxilContainerHeader \<and>
   IsDXILBytecode [] = Inr (False, 0) \<and>
   sizeof_DxilContainerHeader \<le> length container_wrong_major \<and>
   read_uint32 container_wrong_major 0 = Some DFCC_Container \<and>
   read_uint16 container_wrong_major 20 \<noteq> Some DxilContainerVersionMajor \<and>
   IsDXILBytecode container_wrong_major = Inr (False, 1) \<and>
   header_checks_pass container_DXIL_then_bad \<and>
   is_DXIL_part container_DXIL_then_bad 0 \<and>
   IsDXILBytecode container_DXIL_then_bad = Inr (True, 0)"
proof -
  have a: "length ([] :: byte list) < sizeof_DxilContainerHeader"
    by (simp add: sizeof_DxilContainerHeader_def)
  have b: "sizeof_DxilContainerHeader \<le> length container_wrong_major \<and>
           read_uint32 container_wrong_major 0 = Some DFCC_Container \<and>
           read_uint16 container_wrong_major 20 \<noteq> Some DxilContainerVersionMajor"
    by code_simp
  have c: "header_checks_pass container_DXIL_then_bad"
    by code_simp
  have d: "is_DXIL_part container_DXIL_then_bad 0"
    by code_simp
  have n: "0 < part_count container_DXIL_then_bad"
    by code_simp
  have e: "\<exists>k < part_count container_DXIL_then_bad.
             is_DXIL_part container_DXIL_then_bad k \<and> (\<forall>j < k. part_in_bounds container_DXIL_then_bad j)"
    using d n by (intro exI [of _ 0]) simp
  have 1: "IsDXILBytecode [] = Inr (False, 0)"
    using IsDXILBytecode_result [of "[]"] a by blast
  have 2: "IsDXILBytecode container_wrong_major = Inr (False, 1)"
    using IsDXILBytecode_result [of container_wrong_major] b by blast
  have 3: "IsDXILBytecode container_DXIL_then_bad = Inr (True, 0)"
    using IsDXILBytecode_result [of container_DXIL_then_bad] c e by simp
  show ?thesis
    using a b c d 1 2 3 by simp
qed

text \<open>
  Claim C5 fails as stated. In the first container the header checks pass and part 1 is
  an in-bounds part with the tag of the IR part, yet the probe returns false, because the
  header of part 0 does not fit. In the second container the header of part 1 does not
  fit, yet the probe returns true, because part 0 is the IR part.
\<close>

theorem probe_stops_at_first_bad_part:
  "header_checks_pass container_bad_then_DXIL \<and>
   part_count container_bad_then_DXIL = 2 \<and>
   is_DXIL_part container_bad_then_DXIL 1 \<and>
   IsDXILBytecode container_bad_then_DXIL = Inr (False, 0) \<and>
   header_checks_pass container_DXIL_then_bad \<and>
   part_count container_DXIL_then_bad = 2 \<and>
   \<not> part_in_bounds container_DXIL_then_bad 1 \<and>
   IsDXILBytecode container_DXIL_then_bad = Inr (True, 0)"
  by code_simp

subsection \<open>Dynamic indices\<close>

lemma ReplaceBindPoint_Inr_D:
  assumes "ReplaceBindPoint ExtResMap DXIL ResClass RangeId IndexStartPos IndexEndPos = Inr DXIL'"
  shows "\<exists>v R. stoi (string_substr DXIL IndexStartPos (Some IndexEndPos)) = Inr v \<and>
           unat ResClass < 4 \<and> R \<in> set ExtResMap \<and>
           bind_range_matches RangeId (ResClassToType ! unat ResClass) (to_Uint32 v) R \<and>
           DXIL' = take IndexStartPos DXIL @
                   to_string (BindPoint (snd (fst R)) + (to_Uint32 v - SrcBindPoint (snd R))) @
                   drop (IndexStartPos + (IndexEndPos - IndexStartPos)) DXIL"
proof -
  from assms obtain v where v: "stoi (string_substr DXIL IndexStartPos (Some IndexEndPos)) = Inr v"
    unfolding ReplaceBindPoint_def Let_def by (auto split: sum.splits)
  from assms v have c: "unat ResClass < length ResClassToType"
    unfolding ReplaceBindPoint_def Let_def by (auto split: if_splits)
  from assms v c obtain R where
    f: "find (bind_range_matches RangeId (ResClassToType ! unat ResClass) (to_Uint32 v)) ExtResMap = Some R"
    unfolding ReplaceBindPoint_def Let_def by (auto split: option.splits)
  from assms v c f have
    "DXIL' = take IndexStartPos DXIL @
             to_string (BindPoint (snd (fst R)) + (to_Uint32 v - SrcBindPoint (snd R))) @
             drop (IndexStartPos + (IndexEndPos - IndexStartPos)) DXIL"
    unfolding ReplaceBindPoint_def Let_def by (simp add: string_replace_def)
  with v c find_Some_D [OF f] show ?thesis
    by (intro exI [of _ v] exI [of _ R]) (simp add: ResClassToType_def)
qed

lemma stoi_Nil: "stoi [] = Inl invalid_argument"
  by (simp add: stoi_def strtol_subject_def)

lemma skip_number_le: "pos \<le> length DXIL \<Longrightarrow> skip_number DXIL pos \<le> length DXIL"
proof -
  assume a: "pos \<le> length DXIL"
  have "length (takeWhile IsNumberSymbol (drop pos DXIL)) \<le> length (drop pos DXIL)"
    by (rule length_takeWhile_le)
  with a show ?thesis by (simp add: skip_number_def)
qed

lemma skip_number_digits:
  "list_all IsNumberSymbol (take (skip_number DXIL pos - pos) (drop pos DXIL))"
proof -
  have "take (length (takeWhile IsNumberSymbol (drop pos DXIL))) (drop pos DXIL) =
        takeWhile IsNumberSymbol (drop pos DXIL)"
    by (metis takeWhile_eq_take)
  moreover have "list_all IsNumberSymbol (takeWhile IsNumberSymbol (drop pos DXIL))"
    by (simp add: list_all_iff) (meson set_takeWhileD)
  ultimately show ?thesis by (simp add: skip_number_def)
qed

lemma not_number_NUL: "\<not> IsNumberSymbol (CHR 0x00)"
  by (simp add: IsNumberSymbol_def)

lemma skip_number_stops: "\<not> IsNumberSymbol (char_at DXIL (skip_number DXIL pos))"
proof (cases "skip_number DXIL pos < length DXIL")
  case False
  then show ?thesis by (simp add: char_at_def not_number_NUL)
next
  case True
  let ?xs = "drop pos DXIL"
  let ?n = "length (takeWhile IsNumberSymbol ?xs)"
  from True have n: "?n < length ?xs" by (simp add: skip_number_def)
  then have "\<not> IsNumberSymbol (?xs ! ?n)" by (rule nth_length_takeWhile)
  moreover have "?xs ! ?n = DXIL ! (pos + ?n)" using n by simp
  ultimately show ?thesis using True by (simp add: char_at_def skip_number_def)
qed

lemma skip_number_advances:
  "IsNumberSymbol (char_at DXIL pos) \<Longrightarrow> pos < skip_number DXIL pos"
proof -
  assume a: "IsNumberSymbol (char_at DXIL pos)"
  then have lt: "pos < length DXIL"
    by (cases "pos < length DXIL") (simp_all add: char_at_def not_number_NUL)
  then obtain c cs where d: "drop pos DXIL = c # cs" "c = DXIL ! pos"
    by (metis Cons_nth_drop_Suc)
  with a lt have "IsNumberSymbol c" by (simp add: char_at_def)
  with d show ?thesis by (simp add: skip_number_def)
qed

subsection \<open>Searching the text\<close>

lemma find_from_Some:
  "find_from pat xs i = Some p \<Longrightarrow> i \<le> p \<and> p - i \<le> length xs \<and> prefix pat (drop (p - i) xs)"
proof (induction xs arbitrary: i)
  case Nil
  then show ?case by (auto split: if_splits)
next
  case (Cons x xs)
  show ?case
  proof (cases "prefix pat (x # xs)")
    case True
    with Cons.prems show ?thesis by simp
  next
    case False
    with Cons.prems have "find_from pat xs (Suc i) = Some p" by simp
    from Cons.IH [OF this] have "Suc i \<le> p" "p - Suc i \<le> length xs" "prefix pat (drop (p - Suc i) xs)"
      by simp_all
    moreover then have "drop (p - i) (x # xs) = drop (p - Suc i) xs"
      by (metis Suc_diff_Suc Suc_le_lessD drop_Suc_Cons)
    ultimately show ?thesis by simp
  qed
qed

lemma string_find_Some:
  assumes "string_find s pat pos = Some p"
  shows "pos \<le> p" and "p \<le> length s" and "prefix pat (drop p s)"
proof -
  from assms have le: "pos \<le> length s" and f: "find_from pat (drop pos s) pos = Some p"
    by (auto simp: string_find_def split: if_splits)
  note F = find_from_Some [OF f]
  from F have 1: "pos \<le> p" by blast
  from F have 2: "p - pos \<le> length (drop pos s)" by blast
  from F have 3: "prefix pat (drop (p - pos) (drop pos s))" by blast
  show "pos \<le> p" by fact
  show "p \<le> length s" using 1 2 le by simp
  have "drop (p - pos) (drop pos s) = drop p s" using 1 by simp
  with 3 show "prefix pat (drop p s)" by simp
qed

lemma prefix_drop_length:
  "prefix pat (drop p s) \<Longrightarrow> pat \<noteq> [] \<Longrightarrow> p + length pat \<le> length s"
proof -
  assume a: "prefix pat (drop p s)" "pat \<noteq> []"
  then have "length pat \<le> length (drop p s)" by (rule_tac prefix_length_le)
  moreover from a have "drop p s \<noteq> []" by auto
  ultimately show ?thesis by simp
qed

lemma prefix_drop_nth:
  "prefix pat (drop p s) \<Longrightarrow> i < length pat \<Longrightarrow> s ! (p + i) = pat ! i"
proof -
  assume a: "prefix pat (drop p s)" "i < length pat"
  then obtain r where "drop p s = pat @ r" by (auto simp: prefix_def)
  then have "drop p s ! i = pat ! i" using a by (simp add: nth_append)
  moreover have "i < length (drop p s)" using a prefix_length_le by fastforce
  ultimately show ?thesis by simp
qed

lemma string_find_here:
  "prefix pat (drop pos s) \<Longrightarrow> pos \<le> length s \<Longrightarrow> string_find s pat pos = Some pos"
  by (cases "drop pos s") (auto simp: string_find_def)

lemma all_le_Suc_split: "(\<forall>k \<le> Suc n. P k) \<longleftrightarrow> P 0 \<and> (\<forall>k \<le> n. P (Suc k))"
proof
  assume a: "\<forall>k \<le> Suc n. P k"
  then show "P 0 \<and> (\<forall>k \<le> n. P (Suc k))" by simp
next
  assume a: "P 0 \<and> (\<forall>k \<le> n. P (Suc k))"
  show "\<forall>k \<le> Suc n. P k"
  proof (intro allI impI)
    fix k assume "k \<le> Suc n"
    with a show "P k" by (cases k) simp_all
  qed
qed

lemma rfind_from_Some:
  "rfind_from pat xs i pos acc = Some p \<Longrightarrow>
     (acc = Some p \<and> (\<forall>k \<le> length xs. i + k \<le> pos \<longrightarrow> \<not> prefix pat (drop k xs)))
   \<or> (\<exists>k \<le> length xs. p = i + k \<and> p \<le> pos \<and> prefix pat (drop k xs) \<and>
         (\<forall>j \<le> length xs. k < j \<and> i + j \<le> pos \<longrightarrow> \<not> prefix pat (drop j xs)))"
proof (induction xs arbitrary: i acc)
  case Nil
  then show ?case by (auto split: if_splits)
next
  case (Cons x xs)
  show ?case
  proof (cases "pos < i")
    case True
    with Cons.prems show ?thesis by simp
  next
    case False
    let ?acc = "if prefix pat (x # xs) then Some i else acc"
    from Cons.prems False have r: "rfind_from pat xs (Suc i) pos ?acc = Some p" by simp
    from Cons.IH [OF r] show ?thesis
    proof (elim disjE conjE exE)
      assume a: "?acc = Some p"
        and n: "\<forall>k \<le> length xs. Suc i + k \<le> pos \<longrightarrow> \<not> prefix pat (drop k xs)"
      show ?thesis
      proof (cases "prefix pat (x # xs)")
        case True
        with a have "p = i" by simp
        moreover have "\<forall>j \<le> length (x # xs). 0 < j \<and> i + j \<le> pos \<longrightarrow> \<not> prefix pat (drop j (x # xs))"
          using n by (simp add: all_le_Suc_split)
        ultimately have "0 \<le> length (x # xs) \<and> p = i + 0 \<and> p \<le> pos \<and> prefix pat (drop 0 (x # xs)) \<and>
           (\<forall>j \<le> length (x # xs). 0 < j \<and> i + j \<le> pos \<longrightarrow> \<not> prefix pat (drop j (x # xs)))"
          using True False by simp
        then show ?thesis by blast
      next
        case False
        with a have "acc = Some p" by simp
        moreover have "\<forall>k \<le> length (x # xs). i + k \<le> pos \<longrightarrow> \<not> prefix pat (drop k (x # xs))"
          using n False by (simp add: all_le_Suc_split)
        ultimately show ?thesis by blast
      qed
    next
      fix k
      assume k: "k \<le> length xs" "p = Suc i + k" "p \<le> pos" "prefix pat (drop k xs)"
        and n: "\<forall>j \<le> length xs. k < j \<and> Suc i + j \<le> pos \<longrightarrow> \<not> prefix pat (drop j xs)"
      have "\<forall>j \<le> length (x # xs). Suc k < j \<and> i + j \<le> pos \<longrightarrow> \<not> prefix pat (drop j (x # xs))"
        using n by (simp add: all_le_Suc_split)
      with k have "Suc k \<le> length (x # xs) \<and> p = i + Suc k \<and> p \<le> pos \<and>
          prefix pat (drop (Suc k) (x # xs)) \<and>
          (\<forall>j \<le> length (x # xs). Suc k < j \<and> i + j \<le> pos \<longrightarrow> \<not> prefix pat (drop j (x # xs)))"
        by simp
      then show ?thesis by blast
    qed
  qed
qed

lemma string_rfind_Some:
  assumes "string_rfind s pat pos = Some p"
  shows "p \<le> pos \<and> p \<le> length s \<and> prefix pat (drop p s) \<and>
         (\<forall>q \<le> length s. p < q \<and> q \<le> pos \<longrightarrow> \<not> prefix pat (drop q s))"
  using rfind_from_Some [of pat s 0 pos None p] assms
  by (auto simp: string_rfind_def)

subsection \<open>Literal indices of handle-creation calls\<close>

lemma NextArg_ge: "NextArg DXIL p = (ok, q) \<Longrightarrow> p \<le> q"
  by (auto simp: NextArg_def Let_def)

lemma read_operand_Inr:
  "read_operand DXIL pos type m1 m2 m3 = Inr (s, e) \<Longrightarrow> s = pos + 2 + length type \<and> s \<le> e"
  unfolding read_operand_def
  by (auto split: if_splits prod.splits dest: NextArg_ge)

lemma read_createHandle_Some:
  assumes "read_createHandle DXIL pos = Inr (Some (ResClass, RangeId, IndexStartPos, IndexEndPos))"
  shows "\<exists>callHandlePos.
           string_find DXIL CallHandlePattern pos = Some callHandlePos \<and>
           callHandlePos + 66 \<le> IndexEndPos \<and> IndexStartPos \<le> IndexEndPos"
proof -
  from assms obtain H where H: "string_find DXIL CallHandlePattern pos = Some H"
    unfolding read_createHandle_def by (auto split: option.splits)
  let ?pos1 = "H + length CallHandlePattern"
  obtain ok2 pos2 where n2: "NextArg DXIL (?pos1 + length i32) = (ok2, pos2)"
    by (cases "NextArg DXIL (?pos1 + length i32)")
  from assms H n2 obtain s3 pos3 where
    r3: "read_operand DXIL pos2 i8
           ''Resource Class record is not found''
           ''Resource Class record data is not found''
           ''failed to find end of the Resource class record data'' = Inr (s3, pos3)"
    unfolding read_createHandle_def Let_def
    by (auto split: if_splits sum.splits)
  from assms H n2 r3 obtain rc where rc: "atoi (drop s3 DXIL) = Inr rc"
    unfolding read_createHandle_def Let_def
    by (auto split: if_splits sum.splits)
  from assms H n2 r3 rc obtain s4 pos4 where
    r4: "read_operand DXIL pos3 i32
           ''Range ID record is not found''
           ''Range ID record data is not found''
           ''failed to find end of the Range ID record data'' = Inr (s4, pos4)"
    unfolding read_createHandle_def Let_def
    by (auto split: if_splits sum.splits)
  from assms H n2 r3 rc r4 obtain rid where rid: "atoi (drop s4 DXIL) = Inr rid"
    unfolding read_createHandle_def Let_def
    by (auto split: if_splits sum.splits)
  from assms H n2 r3 rc r4 rid have
    r5: "read_operand DXIL pos4 i32
           ''Index record is not found''
           ''Index record data is not found''
           ''failed to find the end of the Index record data'' = Inr (IndexStartPos, IndexEndPos)"
    unfolding read_createHandle_def Let_def
    by (auto split: if_splits sum.splits)
  have "?pos1 + length i32 \<le> pos2" using n2 by (rule NextArg_ge)
  moreover have "pos2 + 2 + length i8 \<le> pos3" using read_operand_Inr [OF r3] by simp
  moreover have "pos3 + 2 + length i32 \<le> pos4" using read_operand_Inr [OF r4] by simp
  moreover have "pos4 + 2 + length i32 \<le> IndexEndPos" "IndexStartPos \<le> IndexEndPos"
    using read_operand_Inr [OF r5] by simp_all
  moreover have "length CallHandlePattern = 45" "length i32 = 4" "length i8 = 3"
    by (simp_all add: CallHandlePattern_def i32_def i8_def)
  ultimately have "H + 66 \<le> IndexEndPos" "IndexStartPos \<le> IndexEndPos"
    by linarith+
  with H show ?thesis by blast
qed

lemma char_classes: "\<not> isspace (CHR ''%'')" "\<not> IsNumberSymbol (CHR ''%'')"
  by code_simp+

lemma stoi_value_name: "stoi (CHR ''%'' # N) = Inl invalid_argument"
  by (simp add: stoi_def strtol_subject_def char_classes)

lemma replace_index_literal:
  assumes "stoi (string_substr DXIL IndexStartPos (Some IndexEndPos)) = Inr sourceIndex"
  shows "replace_index ExtResMap DXIL ResClass RangeId IndexStartPos IndexEndPos =
         ReplaceBindPoint ExtResMap DXIL ResClass RangeId IndexStartPos IndexEndPos"
proof (cases "string_substr DXIL IndexStartPos (Some IndexEndPos)")
  case Nil
  with assms show ?thesis by (simp add: stoi_Nil)
next
  case (Cons c N)
  with assms have "c \<noteq> CHR ''%''" by (auto simp: stoi_value_name)
  with Cons show ?thesis by (simp add: replace_index_def)
qed

lemma interval_without_wrap:
  fixes s a x :: Uint32
  assumes "uint s + uint a < 2 ^ 32"
  shows "(s \<le> x \<and> x < s + a) \<longleftrightarrow> (uint s \<le> uint x \<and> uint x < uint s + uint a)"
proof -
  from assms have "uint (s + a) = uint s + uint a"
    by (simp add: uint_add_lem [symmetric])
  then show ?thesis by (simp add: word_le_def word_less_def)
qed

lemma PatchResourceHandle_loop_step:
  assumes "string_find DXIL CallHandlePattern pos = Some callHandlePos"
  shows "PatchResourceHandle_loop ExtResMap DXIL pos =
         (case PatchResourceHandle_body ExtResMap DXIL pos of
            Inl e \<Rightarrow> Some (Inl e)
          | Inr Break \<Rightarrow> Some (Inr DXIL)
          | Inr (Continue (DXIL1, pos1)) \<Rightarrow> PatchResourceHandle_loop ExtResMap DXIL1 pos1)"
proof -
  from string_find_Some [OF assms] have "pos \<le> callHandlePos"
    and "prefix CallHandlePattern (drop callHandlePos DXIL)" by simp_all
  with prefix_drop_length [of CallHandlePattern callHandlePos DXIL] have "pos < length DXIL"
    by (simp add: CallHandlePattern_def)
  then show ?thesis by (subst PatchResourceHandle_loop.simps) simp
qed




subsection \<open>Dynamic indices of handle-creation calls\<close>

text \<open>
  What a successful \<^verbatim>\<open>// dynamic bind point\<close> branch has done: the rewritten span
  \<open>[ArgStart, ArgEnd)\<close> is a non-empty run of digits that ends at a comma or a line feed,
  and the new text is the old one with that span replaced.
\<close>

lemma patch_dynamic_index_Inr_D:
  assumes ok: "patch_dynamic_index ExtResMap DXIL ResClass RangeId SrcIndexStr IndexEndPos = Inr DXIL'"
  shows "\<exists>IndexDeclPos ArgStart ArgEnd sourceIndex R.
     string_rfind DXIL (SrcIndexStr @ '' = add i32 '') IndexEndPos = Some IndexDeclPos \<and>
     (char_at DXIL (IndexDeclPos + length (SrcIndexStr @ '' = add i32 '')) = CHR ''%'' \<and>
        NextArg DXIL (IndexDeclPos + length (SrcIndexStr @ '' = add i32 '')) = (True, ArgStart - 2) \<and>
        2 \<le> ArgStart
      \<or>
      char_at DXIL (IndexDeclPos + length (SrcIndexStr @ '' = add i32 '')) \<noteq> CHR ''%'' \<and>
        ArgStart = IndexDeclPos + length (SrcIndexStr @ '' = add i32 '')) \<and>
     ArgStart < ArgEnd \<and> ArgEnd \<le> length DXIL \<and>
     list_all IsNumberSymbol (take (ArgEnd - ArgStart) (drop ArgStart DXIL)) \<and>
     (char_at DXIL ArgEnd = CHR '','' \<or> char_at DXIL ArgEnd = CHR 0x0A) \<and>
     stoi (take (ArgEnd - ArgStart) (drop ArgStart DXIL)) = Inr sourceIndex \<and>
     R \<in> set ExtResMap \<and>
     RecordId (snd R) = RangeId \<and>
     Type (snd R) = ResClassToType ! unat ResClass \<and>
     SrcBindPoint (snd R) \<le> to_Uint32 sourceIndex \<and>
     to_Uint32 sourceIndex < SrcBindPoint (snd R) + ArraySize (snd (fst R)) \<and>
     DXIL' = take ArgStart DXIL @
             to_string (BindPoint (snd (fst R)) + (to_Uint32 sourceIndex - SrcBindPoint (snd R))) @
             drop ArgEnd DXIL"
proof -
  let ?decl = "SrcIndexStr @ '' = add i32 ''"
  from ok obtain IndexDeclPos where rf: "string_rfind DXIL ?decl IndexEndPos = Some IndexDeclPos"
    unfolding patch_dynamic_index_def Let_def by (auto split: option.splits)
  let ?pos = "IndexDeclPos + length ?decl"
  have "\<exists>ArgStart.
      (char_at DXIL ?pos = CHR ''%'' \<and> NextArg DXIL ?pos = (True, ArgStart - 2) \<and> 2 \<le> ArgStart
       \<or> char_at DXIL ?pos \<noteq> CHR ''%'' \<and> ArgStart = ?pos) \<and>
      ArgStart \<le> length DXIL \<and>
      (char_at DXIL (skip_number DXIL ArgStart) = CHR '','' \<or>
       char_at DXIL (skip_number DXIL ArgStart) = CHR 0x0A) \<and>
      ReplaceBindPoint ExtResMap DXIL ResClass RangeId ArgStart (skip_number DXIL ArgStart) = Inr DXIL'"
  proof (cases "char_at DXIL ?pos = CHR ''%''")
    case True
    obtain okk pos1 where na: "NextArg DXIL ?pos = (okk, pos1)" by (cases "NextArg DXIL ?pos")
    from ok rf True na have
      "okk" "\<not> length DXIL < pos1 + 2"
      "char_at DXIL (skip_number DXIL (pos1 + 2)) = CHR '','' \<or>
       char_at DXIL (skip_number DXIL (pos1 + 2)) = CHR 0x0A"
      "ReplaceBindPoint ExtResMap DXIL ResClass RangeId (pos1 + 2) (skip_number DXIL (pos1 + 2)) = Inr DXIL'"
      unfolding patch_dynamic_index_def Let_def by (auto split: if_splits)
    with True na show ?thesis by (intro exI [of _ "pos1 + 2"]) simp
  next
    case False
    from ok rf False have
      c: "char_at DXIL (skip_number DXIL ?pos) = CHR '','' \<or>
          char_at DXIL (skip_number DXIL ?pos) = CHR 0x0A"
      and r: "ReplaceBindPoint ExtResMap DXIL ResClass RangeId ?pos (skip_number DXIL ?pos) = Inr DXIL'"
      unfolding patch_dynamic_index_def Let_def by (auto split: if_splits)
    have "?pos \<le> length DXIL"
    proof (rule ccontr)
      assume "\<not> ?pos \<le> length DXIL"
      then have "drop ?pos DXIL = []" by simp
      then have "string_substr DXIL ?pos (Some (skip_number DXIL ?pos)) = []"
        by (simp add: string_substr_def)
      with ReplaceBindPoint_Inr_D [OF r] show False by (simp add: stoi_Nil)
    qed
    with False r c show ?thesis by (intro exI [of _ ?pos]) simp
  qed
  then obtain ArgStart where
    pos: "char_at DXIL ?pos = CHR ''%'' \<and> NextArg DXIL ?pos = (True, ArgStart - 2) \<and> 2 \<le> ArgStart
       \<or> char_at DXIL ?pos \<noteq> CHR ''%'' \<and> ArgStart = ?pos"
    and le: "ArgStart \<le> length DXIL"
    and c: "char_at DXIL (skip_number DXIL ArgStart) = CHR '','' \<or>
            char_at DXIL (skip_number DXIL ArgStart) = CHR 0x0A"
    and r: "ReplaceBindPoint ExtResMap DXIL ResClass RangeId ArgStart (skip_number DXIL ArgStart) = Inr DXIL'"
    by blast
  let ?ArgEnd = "skip_number DXIL ArgStart"
  from ReplaceBindPoint_Inr_D [OF r] obtain v R where
    v: "stoi (string_substr DXIL ArgStart (Some ?ArgEnd)) = Inr v"
    and R: "R \<in> set ExtResMap"
      "bind_range_matches RangeId (ResClassToType ! unat ResClass) (to_Uint32 v) R"
    and D: "DXIL' = take ArgStart DXIL @
                   to_string (BindPoint (snd (fst R)) + (to_Uint32 v - SrcBindPoint (snd R))) @
                   drop (ArgStart + (?ArgEnd - ArgStart)) DXIL"
    by blast
  have ge: "ArgStart \<le> ?ArgEnd" by (simp add: skip_number_def)
  have lt: "ArgStart < ?ArgEnd"
  proof (rule ccontr)
    assume "\<not> ArgStart < ?ArgEnd"
    with ge have "?ArgEnd = ArgStart" by simp
    then have "string_substr DXIL ArgStart (Some ?ArgEnd) = []" by (simp add: string_substr_def)
    with v show False by (simp add: stoi_Nil)
  qed
  have s: "string_substr DXIL ArgStart (Some ?ArgEnd) = take (?ArgEnd - ArgStart) (drop ArgStart DXIL)"
    by (simp add: string_substr_def)
  have e: "ArgStart + (?ArgEnd - ArgStart) = ?ArgEnd" using ge by simp
  show ?thesis
    apply (rule exI [of _ IndexDeclPos])
    apply (rule exI [of _ ArgStart])
    apply (rule exI [of _ ?ArgEnd])
    apply (rule exI [of _ v])
    apply (rule exI [of _ R])
    using rf pos lt skip_number_le [OF le] skip_number_digits [of DXIL ArgStart] c v R D
    unfolding s e bind_range_matches_def
    by simp
qed




subsection \<open>Counting a byte\<close>

lemma count_char_append [simp]: "count_char c (xs @ ys) = count_char c xs + count_char c ys"
  by (simp add: count_char_def)

lemma count_char_Nil [simp]: "count_char c [] = 0"
  by (simp add: count_char_def)

lemma count_char_Cons: "count_char c (x # xs) = (if x = c then 1 else 0) + count_char c xs"
  by (simp add: count_char_def)

lemma count_char_notin: "c \<notin> set xs \<Longrightarrow> count_char c xs = 0"
  by (induction xs) (auto simp: count_char_Cons)

lemma count_char_drop_le: "count_char c (drop n xs) \<le> count_char c xs"
proof -
  have "count_char c xs = count_char c (take n xs) + count_char c (drop n xs)"
    by (metis append_take_drop_id count_char_append)
  then show ?thesis by simp
qed

lemma count_char_drop_mono: "i \<le> j \<Longrightarrow> count_char c (drop j xs) \<le> count_char c (drop i xs)"
proof -
  assume "i \<le> j"
  then have "drop j xs = drop (j - i) (drop i xs)" by simp
  then show ?thesis by (metis count_char_drop_le)
qed

lemma count_char_drop_less:
  assumes "i < length xs" and "xs ! i = c"
  shows "count_char c (drop (Suc i) xs) < count_char c (drop i xs)"
proof -
  from assms have "drop i xs = c # drop (Suc i) xs" by (metis Cons_nth_drop_Suc)
  then show ?thesis by (simp add: count_char_Cons)
qed


lemma count_char_replace_le:
  assumes ab: "a \<le> b" and V: "count_char c V = 0"
  shows "count_char c (drop k (take a D @ V @ drop b D)) \<le> count_char c (drop (k - length V) D)"
proof (cases "a \<le> length D")
  case False
  then have "take a D = D" "drop b D = []" using ab by simp_all
  then have "drop k (take a D @ V @ drop b D) = drop k D @ drop (k - length D) V"
    by simp
  moreover have "count_char c (drop (k - length D) V) = 0"
    using V count_char_drop_le [of c "k - length D" V] by simp
  ultimately show ?thesis
    using count_char_drop_mono [of "k - length V" k c D] by simp
next
  case aD: True
  then have la: "length (take a D) = a" by simp
  show ?thesis
  proof (cases "k \<le> a")
    case True
    have "drop k (take a D @ V @ drop b D) = drop k (take a D) @ V @ drop b D"
      using True la by simp
    moreover have "drop k D = drop k (take a D) @ drop a D"
      using True by (metis append_take_drop_id drop_append la diff_is_0_eq drop0)
    moreover have "count_char c (drop b D) \<le> count_char c (drop a D)"
      using ab by (rule count_char_drop_mono)
    moreover have "count_char c (drop k D) \<le> count_char c (drop (k - length V) D)"
      by (intro count_char_drop_mono) simp
    ultimately show ?thesis using V by simp
  next
    case False
    then have ka: "a < k" by simp
    then have d1: "drop k (take a D @ V @ drop b D) = drop (k - a) (V @ drop b D)"
      using la by simp
    show ?thesis
    proof (cases "k - a \<le> length V")
      case True
      then have "drop (k - a) (V @ drop b D) = drop (k - a) V @ drop b D" by simp
      moreover have "count_char c (drop (k - a) V) = 0"
        using V count_char_drop_le [of c "k - a" V] by simp
      moreover have "count_char c (drop b D) \<le> count_char c (drop (k - length V) D)"
        using True ab by (intro count_char_drop_mono) simp
      ultimately show ?thesis using d1 by simp
    next
      case False
      then have "drop (k - a) (V @ drop b D) = drop (b + (k - a - length V)) D"
        by (simp add: add.commute)
      moreover have "count_char c (drop (b + (k - a - length V)) D) \<le> count_char c (drop (k - length V) D)"
        using False ab ka by (intro count_char_drop_mono) simp
      ultimately show ?thesis using d1 by simp
    qed
  qed
qed

subsection \<open>The decimal text of a number\<close>

lemma decimal_digits_set: "set (decimal_digits n) \<subseteq> set ''0123456789''"
proof (induction n rule: decimal_digits.induct)
  case (1 n)
  show ?case
  proof (cases "n < 10")
    case True
    then have "nat n < 10" by simp
    then have "''0123456789'' ! nat n \<in> set ''0123456789''"
      by (intro nth_mem) simp
    with True show ?thesis by (subst decimal_digits.simps) simp
  next
    case False
    have "nat (n mod 10) < 10" by simp
    then have "''0123456789'' ! nat (n mod 10) \<in> set ''0123456789''"
      by (intro nth_mem) simp
    with False 1 show ?thesis by (subst decimal_digits.simps) simp
  qed
qed

lemma decimal_digits_length: "n < 10 ^ k \<Longrightarrow> 0 < k \<Longrightarrow> length (decimal_digits n) \<le> k"
proof (induction k arbitrary: n)
  case 0
  then show ?case by simp
next
  case (Suc k)
  show ?case
  proof (cases "n < 10")
    case True
    then show ?thesis by (subst decimal_digits.simps) simp
  next
    case False
    then have k: "0 < k" using Suc.prems by (cases k) simp_all
    from Suc.prems have "n div 10 < 10 ^ k" by (simp add: div_less_iff_less_mult mult.commute)
    from Suc.IH [OF this k] False show ?thesis by (subst decimal_digits.simps) simp
  qed
qed

lemma to_string_length: "length (to_string w) \<le> 10"
proof -
  have "uint w < 2 ^ 32" using uint_bounded [of w] by simp
  then have "uint w < 10 ^ 10" by simp
  then show ?thesis unfolding to_string_def by (rule decimal_digits_length) simp
qed

lemma to_string_no_char:
  "c \<notin> set ''0123456789'' \<Longrightarrow> count_char c (to_string w) = 0"
  using decimal_digits_set [of "uint w"] by (intro count_char_notin) (auto simp: to_string_def)

subsection \<open>The handle-creation scan returns\<close>

lemma patch_dynamic_index_Inr:
  "patch_dynamic_index ExtResMap DXIL ResClass RangeId SrcIndexStr IndexEndPos = Inr DXIL' \<Longrightarrow>
   \<exists>a b. ReplaceBindPoint ExtResMap DXIL ResClass RangeId a b = Inr DXIL'"
  unfolding patch_dynamic_index_def Let_def
  by (auto split: option.splits if_splits prod.splits)

lemma replace_index_Inr:
  assumes "replace_index ExtResMap DXIL ResClass RangeId IndexStartPos IndexEndPos = Inr DXIL'"
  shows "\<exists>a b w. a \<le> b \<and> DXIL' = take a DXIL @ to_string w @ drop b DXIL"
proof -
  from assms obtain a b where "ReplaceBindPoint ExtResMap DXIL ResClass RangeId a b = Inr DXIL'"
    unfolding replace_index_def Let_def
    by (auto split: if_splits dest: patch_dynamic_index_Inr)
  from ReplaceBindPoint_Inr_D [OF this] have
    "\<exists>w. DXIL' = take a DXIL @ to_string w @ drop (a + (b - a)) DXIL"
    by blast
  then show ?thesis
    by (intro exI [of _ a] exI [of _ "a + (b - a)"]) auto
qed

lemma PatchResourceHandle_body_Continue:
  assumes "PatchResourceHandle_body ExtResMap DXIL pos = Inr (Continue (DXIL', pos'))"
  shows "\<exists>callHandlePos ResClass RangeId IndexStartPos.
           string_find DXIL CallHandlePattern pos = Some callHandlePos \<and>
           callHandlePos + 66 \<le> pos' \<and>
           replace_index ExtResMap DXIL ResClass RangeId IndexStartPos pos' = Inr DXIL'"
proof -
  from assms obtain ResClass RangeId IndexStartPos IndexEndPos where
    c: "read_createHandle DXIL pos = Inr (Some (ResClass, RangeId, IndexStartPos, IndexEndPos))"
    unfolding PatchResourceHandle_body_def by (auto split: sum.splits option.splits)
  with assms have r: "replace_index ExtResMap DXIL ResClass RangeId IndexStartPos IndexEndPos = Inr DXIL'"
    and p: "pos' = IndexEndPos"
    unfolding PatchResourceHandle_body_def by (auto split: sum.splits)
  from read_createHandle_Some [OF c] r p show ?thesis by blast
qed

lemma CallHandlePattern_at: "CallHandlePattern ! 25 = CHR ''@''" "length CallHandlePattern = 45"
  by (simp_all add: CallHandlePattern_def)

lemma PatchResourceHandle_body_decreases:
  assumes "PatchResourceHandle_body ExtResMap DXIL pos = Inr (Continue (DXIL', pos'))"
  shows "pos < pos' \<and> count_char (CHR ''@'') (drop pos' DXIL') < count_char (CHR ''@'') (drop pos DXIL)"
proof -
  from PatchResourceHandle_body_Continue [OF assms] obtain H rc rid s where
    H: "string_find DXIL CallHandlePattern pos = Some H" and far: "H + 66 \<le> pos'"
    and r: "replace_index ExtResMap DXIL rc rid s pos' = Inr DXIL'"
    by blast
  from string_find_Some [OF H] have le: "pos \<le> H" and pre: "prefix CallHandlePattern (drop H DXIL)"
    by simp_all
  from prefix_drop_length [OF pre] have len: "H + 45 \<le> length DXIL"
    by (simp add: CallHandlePattern_def)
  from prefix_drop_nth [OF pre, of 25] have at: "DXIL ! (H + 25) = CHR ''@''"
    by (simp add: CallHandlePattern_at)
  from replace_index_Inr [OF r] obtain a b w where
    ab: "a \<le> b" and D: "DXIL' = take a DXIL @ to_string w @ drop b DXIL"
    by blast
  have V: "count_char (CHR ''@'') (to_string w) = 0"
    by (rule to_string_no_char) simp
  have "count_char (CHR ''@'') (drop pos' DXIL') \<le>
        count_char (CHR ''@'') (drop (pos' - length (to_string w)) DXIL)"
    unfolding D using ab V by (rule count_char_replace_le)
  also have "\<dots> \<le> count_char (CHR ''@'') (drop (Suc (H + 25)) DXIL)"
    using far to_string_length [of w] by (intro count_char_drop_mono) simp
  also have "\<dots> < count_char (CHR ''@'') (drop (H + 25) DXIL)"
    using len at by (intro count_char_drop_less) simp_all
  also have "\<dots> \<le> count_char (CHR ''@'') (drop pos DXIL)"
    using le by (intro count_char_drop_mono) simp
  finally have "count_char (CHR ''@'') (drop pos' DXIL') < count_char (CHR ''@'') (drop pos DXIL)" .
  moreover have "pos < pos'" using le far by simp
  ultimately show ?thesis by simp
qed

lemma PatchResourceHandle_loop_returns:
  "\<exists>r. PatchResourceHandle_loop ExtResMap DXIL pos = Some r"
proof (induction "count_char (CHR ''@'') (drop pos DXIL)" arbitrary: DXIL pos rule: less_induct)
  case less
  show ?case
  proof (cases "pos < length DXIL")
    case False
    then show ?thesis by (subst PatchResourceHandle_loop.simps) simp
  next
    case True
    show ?thesis
    proof (cases "PatchResourceHandle_body ExtResMap DXIL pos")
      case (Inl e)
      with True show ?thesis by (subst PatchResourceHandle_loop.simps) simp
    next
      case (Inr step)
      show ?thesis
      proof (cases step)
        case Break
        with Inr True show ?thesis by (subst PatchResourceHandle_loop.simps) simp
      next
        case (Continue st)
        obtain DXIL' pos' where st: "st = (DXIL', pos')" by (cases st)
        with Inr Continue have b: "PatchResourceHandle_body ExtResMap DXIL pos = Inr (Continue (DXIL', pos'))"
          by simp
        from PatchResourceHandle_body_decreases [OF b]
        have "count_char (CHR ''@'') (drop pos' DXIL') < count_char (CHR ''@'') (drop pos DXIL)"
          by simp
        from less [OF this] obtain r where "PatchResourceHandle_loop ExtResMap DXIL' pos' = Some r"
          by blast
        with b True show ?thesis by (subst PatchResourceHandle_loop.simps) simp
      qed
    qed
  qed
qed

subsection \<open>The declaration scan returns when no name contains the pattern byte\<close>

lemma count_char_drop_append:
  "count_char c (drop k (xs @ ys)) = count_char c (drop k xs) + count_char c (drop (k - length xs) ys)"
  by simp

lemma count_char_replace_after:
  assumes ab: "a \<le> b" and V: "count_char c V = 0" and k: "k \<le> a"
  shows "count_char c (drop k (take a D @ V @ drop b D)) \<le> count_char c (drop k D)"
proof -
  have "count_char c (drop k (take a D @ V @ drop b D)) \<le>
        count_char c (drop k (take a D)) + count_char c V + count_char c (drop b D)"
    using count_char_drop_le [of c "k - length (take a D)" V]
      count_char_drop_le [of c "k - length (take a D) - length V" "drop b D"]
    by (simp del: drop_drop length_take)
  also have "\<dots> \<le> count_char c (drop k (take a D)) + count_char c (drop a D)"
    using V count_char_drop_mono [OF ab, of c D] by simp
  also have "\<dots> = count_char c (drop k (take a D @ drop a D))"
    using k by (simp del: append_take_drop_id add: min_def)
  finally show ?thesis by simp
qed

lemma count_char_insert_at:
  assumes "count_char c V = 0"
  shows "count_char c (drop k (string_insert D k V)) \<le> count_char c (drop k D)"
  using count_char_replace_after [OF le_refl assms le_refl, of k D]
  by (simp add: string_insert_def)

lemma find_first_not_of_from_ge:
  "find_first_not_of_from cs xs i = Some p \<Longrightarrow> i \<le> p"
  by (induction xs arbitrary: i) (fastforce split: if_splits)+

lemma string_find_first_not_of_ge:
  "string_find_first_not_of s cs pos = Some p \<Longrightarrow> pos \<le> p"
  unfolding string_find_first_not_of_def by (rule find_first_not_of_from_ge)

lemma ReadResName_ge: "ReadResName DXIL s = (ok, p, n) \<Longrightarrow> s \<le> p"
  by (auto simp: ReadResName_def Let_def split: if_splits)

lemma ReadRecord_cursor:
  assumes "ReadRecord DXIL (Some p) c = Inr (ok, Some q, v)"
  shows "p \<le> q"
proof (cases ok)
  case False
  with assms show ?thesis
    unfolding ReadRecord_def Let_def
    by (auto split: if_splits sum.splits)
next
  case True
  with assms have "string_find_first_not_of DXIL NumberSymbols (p + 2 + length i32) = Some q"
    unfolding ReadRecord_def Let_def
    by (auto split: if_splits sum.splits)
  from string_find_first_not_of_ge [OF this] show ?thesis by simp
qed

lemma ReadRecord_npos:
  "ReadRecord DXIL None c = Inr (ok, q, v) \<Longrightarrow> \<not> ok \<and> q = None"
  unfolding ReadRecord_def by (auto split: if_splits)

lemma continue_at_Continue:
  "continue_at ExtResMap DXIL q = Continue (ExtResMap', DXIL', pos') \<Longrightarrow>
   q = Some pos' \<and> ExtResMap' = ExtResMap \<and> DXIL' = DXIL"
  unfolding continue_at_def by (auto split: option.splits)

lemma ReplaceRecord_Inr:
  assumes "ReplaceRecord DXIL pos NewValue Name RecordName Expected = Inr (DXIL', pos')"
  shows "pos' = pos + 6 + length NewValue \<and>
         (\<exists>b. pos + 6 \<le> b \<and> DXIL' = take (pos + 6) DXIL @ NewValue @ drop b DXIL)"
proof -
  let ?e = "string_find_first_not_of DXIL NumberSymbols (pos + 6)"
  from assms have r: "DXIL' = string_replace DXIL (pos + 6) ?e NewValue" "pos' = pos + 6 + length NewValue"
    unfolding ReplaceRecord_def Let_def field_start
    by (auto split: if_splits sum.splits)
  show ?thesis
  proof (cases ?e)
    case None
    with r have "DXIL' = take (pos + 6) DXIL @ NewValue @ drop (pos + 6 + length DXIL) DXIL"
      by (simp add: string_replace_def)
    with r(2) show ?thesis by (intro conjI exI [of _ "pos + 6 + length DXIL"]) simp_all
  next
    case (Some e)
    with r have "DXIL' = take (pos + 6) DXIL @ NewValue @ drop (pos + 6 + (e - (pos + 6))) DXIL"
      by (simp add: string_replace_def)
    with r(2) show ?thesis by (intro conjI exI [of _ "pos + 6 + (e - (pos + 6))"]) simp_all
  qed
qed

lemma extract_names:
  assumes "List.extract P xs = Some (before, x, after)"
  shows "xs = before @ x # after"
  using assms by (simp add: extract_Some_iff)

lemma remap_declaration_Continue:
  assumes r: "remap_declaration ExtResMap DXIL B BRS ResName RecId ResType Space' BindPoint' =
               Inr (Continue (ExtResMap', DXIL', pos'))"
    and B: "B \<le> BRS"
  shows "BRS \<le> pos' \<and>
         (bang_free_names ExtResMap \<longrightarrow>
            bang_free_names ExtResMap' \<and>
            count_char (CHR ''!'') (drop B DXIL') \<le> count_char (CHR ''!'') (drop B DXIL))"
proof -
  from r obtain before ResInfo after where
    ex: "List.extract (declaration_matches BindPoint' Space' ResType) ExtResMap = Some (before, ResInfo, after)"
    unfolding remap_declaration_def by (auto split: option.splits)
  let ?name = "fst (fst ResInfo)"
  let ?Ext = "(snd ResInfo)\<lparr>RecordId := RecId\<rparr>"
  from r ex obtain D1 p1 where
    r1: "ReplaceRecord DXIL BRS (to_string (Space (snd (fst ResInfo)))) ?name ''space'' (SrcSpace ?Ext) =
           Inr (D1, p1)"
    unfolding remap_declaration_def Let_def by (auto split: sum.splits)
  from r ex r1 obtain D2 p2 where
    r2: "ReplaceRecord D1 p1 (to_string (BindPoint (snd (fst ResInfo)))) ?name ''register'' (SrcBindPoint ?Ext) =
           Inr (D2, p2)"
    unfolding remap_declaration_def Let_def by (auto split: sum.splits)
  from r ex r1 r2 have fin:
    "ExtResMap' = before @ (fst ResInfo, ?Ext) # after"
    "DXIL' = (if ResName = [] then string_insert D2 B ?name else D2)"
    "pos' = p2"
    unfolding remap_declaration_def Let_def by (auto split: sum.splits)
  have xs: "ExtResMap = before @ ResInfo # after"
    using ex by (rule extract_names)
  have names: "bang_free_names ExtResMap'" and nm: "CHR ''!'' \<notin> set ?name"
    if "bang_free_names ExtResMap"
    using that unfolding fin(1) bang_free_names_def by (simp_all add: xs)
  from ReplaceRecord_Inr [OF r1] obtain b1 where
    p1: "p1 = BRS + 6 + length (to_string (Space (snd (fst ResInfo))))" and b1: "BRS + 6 \<le> b1"
    and D1: "D1 = take (BRS + 6) DXIL @ to_string (Space (snd (fst ResInfo))) @ drop b1 DXIL"
    by blast
  from ReplaceRecord_Inr [OF r2] obtain b2 where
    p2: "p2 = p1 + 6 + length (to_string (BindPoint (snd (fst ResInfo))))" and b2: "p1 + 6 \<le> b2"
    and D2: "D2 = take (p1 + 6) D1 @ to_string (BindPoint (snd (fst ResInfo))) @ drop b2 D1"
    by blast
  have c1: "count_char (CHR ''!'') (drop B D1) \<le> count_char (CHR ''!'') (drop B DXIL)"
    unfolding D1 using b1 B by (intro count_char_replace_after to_string_no_char) simp_all
  have c2: "count_char (CHR ''!'') (drop B D2) \<le> count_char (CHR ''!'') (drop B D1)"
    unfolding D2 using b2 B p1 by (intro count_char_replace_after to_string_no_char) simp_all
  have c3: "count_char (CHR ''!'') (drop B DXIL') \<le> count_char (CHR ''!'') (drop B D2)"
    if "bang_free_names ExtResMap"
    unfolding fin(2) using nm [OF that] by (auto intro!: count_char_insert_at count_char_notin)
  from c1 c2 c3 names p1 p2 fin(3) show ?thesis by auto
qed

lemma read_and_remap_declaration_Continue:
  assumes r: "read_and_remap_declaration ExtResMap DXIL B BRS ResName RecId ResType =
               Inr (Continue (ExtResMap', DXIL', pos'))"
    and B: "B \<le> BRS"
  shows "BRS \<le> pos' \<and>
         (bang_free_names ExtResMap \<longrightarrow>
            bang_free_names ExtResMap' \<and>
            count_char (CHR ''!'') (drop B DXIL') \<le> count_char (CHR ''!'') (drop B DXIL))"
proof -
  from r obtain ok1 posA Space' where
    r1: "ReadRecord DXIL (Some BRS) (- 1) = Inr (ok1, posA, Space')"
    unfolding read_and_remap_declaration_def by (auto split: sum.splits)
  show ?thesis
  proof (cases ok1)
    case False
    with r r1 have "continue_at ExtResMap DXIL posA = Continue (ExtResMap', DXIL', pos')"
      unfolding read_and_remap_declaration_def by simp
    from continue_at_Continue [OF this] r1 ReadRecord_cursor [of DXIL BRS "- 1" ok1 pos' Space']
    show ?thesis by simp
  next
    case True
    with r r1 obtain ok2 posB BindPoint' where
      r2: "ReadRecord DXIL posA (- 1) = Inr (ok2, posB, BindPoint')"
      unfolding read_and_remap_declaration_def by (auto split: sum.splits)
    show ?thesis
    proof (cases ok2)
      case ok2: True
      with True r r1 r2 have
        "remap_declaration ExtResMap DXIL B BRS ResName RecId ResType Space' BindPoint' =
           Inr (Continue (ExtResMap', DXIL', pos'))"
        unfolding read_and_remap_declaration_def by simp
      from remap_declaration_Continue [OF this B] show ?thesis .
    next
      case nok2: False
      with True r r1 r2 have c: "continue_at ExtResMap DXIL posB = Continue (ExtResMap', DXIL', pos')"
        unfolding read_and_remap_declaration_def by simp
      from continue_at_Continue [OF c] have e: "posB = Some pos'" "ExtResMap' = ExtResMap" "DXIL' = DXIL"
        by simp_all
      obtain a where a: "posA = Some a"
        using r2 e(1) ReadRecord_npos [of DXIL "- 1" ok2 posB BindPoint'] by (cases posA) auto
      have "BRS \<le> a" using r1 a ReadRecord_cursor by blast
      moreover have "a \<le> pos'" using r2 a e(1) ReadRecord_cursor by blast
      ultimately show ?thesis using e by simp
    qed
  qed
qed

lemma parse_and_remap_declaration_Continue:
  assumes r: "parse_and_remap_declaration ExtResMap DXIL EndOfResTypeRecord B BRS ResName =
               Inr (Continue (ExtResMap', DXIL', pos'))"
    and B: "B \<le> BRS"
  shows "BRS \<le> pos' \<and>
         (bang_free_names ExtResMap \<longrightarrow>
            bang_free_names ExtResMap' \<and>
            count_char (CHR ''!'') (drop B DXIL') \<le> count_char (CHR ''!'') (drop B DXIL))"
proof -
  have same: ?thesis if "ExtResMap' = ExtResMap" "DXIL' = DXIL" "pos' = BRS"
    using that by simp
  from r obtain RecStart where rs: "string_rfind DXIL ResourceRecStart EndOfResTypeRecord = Some RecStart"
    unfolding parse_and_remap_declaration_def by (auto split: option.splits)
  show ?thesis
  proof (cases "strncmp_eq DXIL (RecStart + length ResourceRecStart) i32")
    case False
    with r rs show ?thesis
      unfolding parse_and_remap_declaration_def by (intro same) simp_all
  next
    case t: True
    let ?s = "RecStart + length ResourceRecStart + length i32"
    from r rs t obtain RecordIdEndPos where
      re: "string_find_first_not_of DXIL NumberSymbols ?s = Some RecordIdEndPos"
      unfolding parse_and_remap_declaration_def Let_def by (auto split: option.splits)
    from r rs t re obtain RecId where ri: "atoi (drop ?s DXIL) = Inr RecId"
      unfolding parse_and_remap_declaration_def Let_def by (auto split: sum.splits)
    from r rs t re ri have cs: "comma_space_at DXIL RecordIdEndPos"
      unfolding parse_and_remap_declaration_def Let_def by (auto split: if_splits)
    let ?p1 = "skip_array_declaration DXIL (RecordIdEndPos + 2) EndOfResTypeRecord"
    show ?thesis
    proof (cases "char_at DXIL ?p1 = CHR ''%''")
      case False
      with r rs t re ri cs show ?thesis
        unfolding parse_and_remap_declaration_def Let_def by (intro same) simp_all
    next
      case pc: True
      obtain pos2 NameParts where sk: "skip_name_parts DXIL (?p1 + 1) = (pos2, NameParts)"
        by (cases "skip_name_parts DXIL (?p1 + 1)")
      show ?thesis
      proof (cases "classify_resource_type ExtResMap DXIL pos2 NameParts = RES_TYPE_INVALID")
        case True
        with r rs t re ri cs pc sk show ?thesis
          unfolding parse_and_remap_declaration_def Let_def by (intro same) simp_all
      next
        case False
        with r rs t re ri cs pc sk have
          "read_and_remap_declaration ExtResMap DXIL B BRS ResName (to_Uint32 RecId)
             (classify_resource_type ExtResMap DXIL pos2 NameParts) =
           Inr (Continue (ExtResMap', DXIL', pos'))"
          unfolding parse_and_remap_declaration_def Let_def by simp
        from read_and_remap_declaration_Continue [OF this B] show ?thesis .
      qed
    qed
  qed
qed

lemma ResNameDecl_at: "ResNameDecl ! 2 = CHR ''!''" "length ResNameDecl = 4"
  by (simp_all add: ResNameDecl_def)

lemma PatchResourceDeclaration_body_Continue:
  assumes r: "PatchResourceDeclaration_body ExtResMap DXIL pos = Inr (Continue (ExtResMap', DXIL', pos'))"
  shows "\<exists>E. string_find DXIL ResNameDecl pos = Some E \<and> E + 4 \<le> pos' \<and>
           (bang_free_names ExtResMap \<longrightarrow>
              bang_free_names ExtResMap' \<and>
              count_char (CHR ''!'') (drop (E + 4) DXIL') \<le> count_char (CHR ''!'') (drop (E + 4) DXIL))"
proof -
  from r obtain E where E: "string_find DXIL ResNameDecl pos = Some E"
    unfolding PatchResourceDeclaration_body_def by (auto split: option.splits)
  obtain ok pos1 ResName where rn: "ReadResName DXIL (E + 4) = (ok, pos1, ResName)"
    by (cases "ReadResName DXIL (E + 4)")
  from ReadResName_ge [OF rn] have p1: "E + 4 \<le> pos1" .
  have "E + 4 \<le> pos' \<and>
        (bang_free_names ExtResMap \<longrightarrow>
           bang_free_names ExtResMap' \<and>
           count_char (CHR ''!'') (drop (E + 4) DXIL') \<le> count_char (CHR ''!'') (drop (E + 4) DXIL))"
  proof (cases ok)
    case False
    with r E rn have "ExtResMap' = ExtResMap" "DXIL' = DXIL" "pos' = pos1"
      unfolding PatchResourceDeclaration_body_def Let_def by (simp_all add: ResNameDecl_at)
    with p1 show ?thesis by simp
  next
    case True
    with r E rn have
      "parse_and_remap_declaration ExtResMap DXIL E (E + 4) (pos1 + 1) ResName =
         Inr (Continue (ExtResMap', DXIL', pos'))"
      unfolding PatchResourceDeclaration_body_def Let_def by (simp add: ResNameDecl_at)
    from parse_and_remap_declaration_Continue [OF this] p1 show ?thesis by simp
  qed
  with E show ?thesis by blast
qed

lemma PatchResourceDeclaration_body_advances:
  assumes "PatchResourceDeclaration_body ExtResMap DXIL pos = Inr (Continue (ExtResMap', DXIL', pos'))"
  shows "pos < pos'"
proof -
  from PatchResourceDeclaration_body_Continue [OF assms] obtain E where
    E: "string_find DXIL ResNameDecl pos = Some E" "E + 4 \<le> pos'" by blast
  from string_find_Some [OF E(1)] E(2) show ?thesis by simp
qed

lemma PatchResourceDeclaration_body_decreases:
  assumes r: "PatchResourceDeclaration_body ExtResMap DXIL pos = Inr (Continue (ExtResMap', DXIL', pos'))"
    and n: "bang_free_names ExtResMap"
  shows "bang_free_names ExtResMap' \<and>
         count_char (CHR ''!'') (drop pos' DXIL') < count_char (CHR ''!'') (drop pos DXIL)"
proof -
  from PatchResourceDeclaration_body_Continue [OF r] n obtain E where
    E: "string_find DXIL ResNameDecl pos = Some E" and far: "E + 4 \<le> pos'"
    and names: "bang_free_names ExtResMap'"
    and c: "count_char (CHR ''!'') (drop (E + 4) DXIL') \<le> count_char (CHR ''!'') (drop (E + 4) DXIL)"
    by blast
  from string_find_Some [OF E] have le: "pos \<le> E" and pre: "prefix ResNameDecl (drop E DXIL)"
    by simp_all
  from prefix_drop_length [OF pre] have len: "E + 4 \<le> length DXIL"
    by (simp add: ResNameDecl_def)
  from prefix_drop_nth [OF pre, of 2] have at: "DXIL ! (E + 2) = CHR ''!''"
    by (simp add: ResNameDecl_at)
  have "count_char (CHR ''!'') (drop pos' DXIL') \<le> count_char (CHR ''!'') (drop (E + 4) DXIL')"
    using far by (intro count_char_drop_mono) simp
  also note c
  also have "count_char (CHR ''!'') (drop (E + 4) DXIL) \<le> count_char (CHR ''!'') (drop (Suc (E + 2)) DXIL)"
    by (intro count_char_drop_mono) simp
  also have "\<dots> < count_char (CHR ''!'') (drop (E + 2) DXIL)"
    using len at by (intro count_char_drop_less) simp_all
  also have "\<dots> \<le> count_char (CHR ''!'') (drop pos DXIL)"
    using le by (intro count_char_drop_mono) simp
  finally have "count_char (CHR ''!'') (drop pos' DXIL') < count_char (CHR ''!'') (drop pos DXIL)" .
  with names show ?thesis by simp
qed

lemma PatchResourceDeclaration_loop_returns:
  "bang_free_names ExtResMap \<Longrightarrow> \<exists>r. PatchResourceDeclaration_loop ExtResMap DXIL pos = Some r"
proof (induction "count_char (CHR ''!'') (drop pos DXIL)" arbitrary: ExtResMap DXIL pos rule: less_induct)
  case less
  show ?case
  proof (cases "pos < length DXIL")
    case False
    then show ?thesis by (subst PatchResourceDeclaration_loop.simps) simp
  next
    case True
    show ?thesis
    proof (cases "PatchResourceDeclaration_body ExtResMap DXIL pos")
      case (Inl e)
      with True show ?thesis by (subst PatchResourceDeclaration_loop.simps) simp
    next
      case (Inr step)
      show ?thesis
      proof (cases step)
        case Break
        with Inr True show ?thesis by (subst PatchResourceDeclaration_loop.simps) simp
      next
        case (Continue st)
        obtain ExtResMap' DXIL' pos' where st: "st = (ExtResMap', DXIL', pos')" by (cases st)
        with Inr Continue have
          b: "PatchResourceDeclaration_body ExtResMap DXIL pos = Inr (Continue (ExtResMap', DXIL', pos'))"
          by simp
        from PatchResourceDeclaration_body_decreases [OF b less.prems]
        have d: "count_char (CHR ''!'') (drop pos' DXIL') < count_char (CHR ''!'') (drop pos DXIL)"
          and n': "bang_free_names ExtResMap'"
          by simp_all
        from less.hyps [OF d n'] obtain r where
          "PatchResourceDeclaration_loop ExtResMap' DXIL' pos' = Some r"
          by blast
        with b True show ?thesis by (subst PatchResourceDeclaration_loop.simps) simp
      qed
    qed
  qed
qed

subsection \<open>The declaration scan on the growing declaration\<close>

lemma no_record_start:
  "CHR ''{'' \<notin> set (drop 3 xs) \<Longrightarrow> \<not> prefix ResourceRecStart (drop k xs)"
proof
  assume a: "CHR ''{'' \<notin> set (drop 3 xs)" and p: "prefix ResourceRecStart (drop k xs)"
  from prefix_drop_length [OF p] have l: "k + 4 \<le> length xs" by (simp add: ResourceRecStart_def)
  from prefix_drop_nth [OF p, of 3] have "xs ! (k + 3) = CHR ''{''" by (simp add: ResourceRecStart_def)
  moreover have "xs ! (k + 3) \<in> set (drop 3 xs)"
    using l nth_mem [of k "drop 3 xs"] by (simp add: add.commute)
  ultimately show False using a by simp
qed


lemma rfind_from_no_match:
  "\<forall>k. \<not> prefix pat (drop k xs) \<Longrightarrow> rfind_from pat xs i pos acc = acc"
proof (induction xs arbitrary: i acc)
  case Nil
  from Nil [THEN spec, of 0] show ?case by simp
next
  case (Cons x xs)
  from Cons.prems [THEN spec, of 0] have h: "\<not> prefix pat (x # xs)" by simp
  have "\<forall>k. \<not> prefix pat (drop k xs)"
  proof
    fix k from Cons.prems [THEN spec, of "Suc k"] show "\<not> prefix pat (drop k xs)" by simp
  qed
  from Cons.IH [OF this] h show ?case by simp
qed

lemma rfind_record_start_step:
  assumes "3 \<le> pos" and "prefix '' !{'' W"
    and "\<And>i acc. rfind_from ''= !{'' W i pos acc = acc"
  shows "string_rfind (''!5 ='' @ W) ''= !{'' pos = Some 3"
  using assms by (simp add: string_rfind_def numeral_3_eq_3)

lemma rfind_record_start:
  assumes "3 \<le> pos" and "CHR ''{'' \<notin> set Z"
  shows "string_rfind (''!5 = !{'' @ Z) ResourceRecStart pos = Some 3"
proof -
  have "\<forall>k. \<not> prefix ResourceRecStart (drop k ('' !{'' @ Z))"
    using assms(2) by (intro allI no_record_start) simp
  then have nm: "\<And>i acc. rfind_from ''= !{'' ('' !{'' @ Z) i pos acc = acc"
    unfolding ResourceRecStart_def by (rule rfind_from_no_match)
  have "string_rfind (''!5 ='' @ ('' !{'' @ Z)) ''= !{'' pos = Some 3"
    using assms(1) _ nm by (rule rfind_record_start_step) simp
  then show ?thesis by (simp add: ResourceRecStart_def)
qed

lemma record_lengths: "length ResourceRecStart = 4" "length i32 = 4" "length ResNameDecl = 4"
  by (simp_all add: ResourceRecStart_def i32_def ResNameDecl_def)

lemma number_symbols: "IsNumberSymbol (CHR ''0'')" "\<not> IsNumberSymbol (CHR '','')"
  "\<not> IsNumberSymbol (CHR ''}'')" "\<not> isspace (CHR ''0'')" "\<not> IsWordSymbol (CHR 0x22)"
  by code_simp+

lemma atoi_zero: "atoi (CHR ''0'' # CHR '','' # W) = Inr 0"
  by (simp add: atoi_def strtol_subject_def number_symbols signed_value_def decimal_value_def
      digit_value_def in_int_range_def)

lemma parse_growing_head:
  assumes R: "CHR ''{'' \<notin> set R" and E: "3 \<le> EndOfResTypeRecord"
  shows "parse_and_remap_declaration ExtResMap (growing_head @ R) EndOfResTypeRecord B BRS ResName =
         read_and_remap_declaration ExtResMap (growing_head @ R) B BRS ResName 0 RES_TYPE_SRV"
proof -
  let ?D = "growing_head @ R"
  have rs: "string_rfind ?D ResourceRecStart EndOfResTypeRecord = Some 3"
    using rfind_record_start [OF E, of "''i32 0, %\"class.Texture2D<float>\"* undef'' @ R"] R
    by (simp add: growing_head_def)
  have f1: "strncmp_eq ?D 7 i32"
    by (simp add: strncmp_eq_def growing_head_def i32_def)
  have f2: "string_find_first_not_of ?D NumberSymbols 11 = Some 12"
    by (simp add: string_find_first_not_of_def growing_head_def NumberSymbols_def)
  have f3: "atoi (drop 11 ?D) = Inr 0"
    by (simp add: growing_head_def atoi_zero)
  have f4: "comma_space_at ?D 12"
    by (simp add: comma_space_at_def growing_head_def)
  have f5: "skip_array_declaration ?D 14 EndOfResTypeRecord = 14"
    by (simp add: skip_array_declaration_def char_at_def growing_head_def)
  have f6: "char_at ?D 14 = CHR ''%''"
    by (simp add: char_at_def growing_head_def)
  have f7: "skip_name_parts ?D 15 = (22, STRING_PART OR CLASS_PART)"
    by (simp add: skip_name_parts_def char_at_def strncmp_eq_def growing_head_def
        DxAlignmentLegacyPart_def StructPart_def ClassPart_def)
  have f8: "classify_resource_type ExtResMap ?D 22 (STRING_PART OR CLASS_PART) = RES_TYPE_SRV"
    by (simp add: classify_resource_type_def strncmp_eq_def growing_head_def SamplerPart_def
        TexturePart_def IsTextureSuffix_def)
  show ?thesis
    unfolding parse_and_remap_declaration_def Let_def
    by (simp add: rs record_lengths f1 f2 f3 f4 f5 f6 f7 f8 to_Uint32_def del: drop_append)
qed

text \<open>
  The part of the loop body behind the name reads the text relative to the cursor only:
  with a text \<open>X\<close> put in front it does the same, shifted by the length of \<open>X\<close>.
\<close>

lemma find_first_not_of_from_shift:
  "find_first_not_of_from cs xs (n + i) = map_option (\<lambda>q. n + q) (find_first_not_of_from cs xs i)"
proof (induction xs arbitrary: i)
  case Nil
  show ?case by simp
next
  case (Cons x xs)
  from Cons [of "Suc i"] show ?case by simp
qed

lemma string_find_first_not_of_shift:
  "string_find_first_not_of (X @ S) cs (length X + k) =
   map_option (\<lambda>q. length X + q) (string_find_first_not_of S cs k)"
  by (simp add: string_find_first_not_of_def find_first_not_of_from_shift)

lemma comma_space_at_shift: "comma_space_at (X @ S) (length X + k) = comma_space_at S k"
  by (simp add: comma_space_at_def nth_append)

lemma strncmp_eq_shift: "strncmp_eq (X @ S) (length X + k) pat = strncmp_eq S k pat"
  by (simp add: strncmp_eq_def)

lemma string_substr_shift:
  "string_substr (X @ S) (length X + k) (map_option (\<lambda>q. length X + q) e) = string_substr S k e"
  by (cases e) (simp_all add: string_substr_def)

lemma string_replace_shift:
  "string_replace (X @ S) (length X + k) (map_option (\<lambda>q. length X + q) e) V =
   X @ string_replace S k e V"
  by (cases e) (simp_all add: string_replace_def)

lemma string_insert_shift: "string_insert (X @ S) (length X + k) V = X @ string_insert S k V"
  by (simp add: string_insert_def)

lemma ReadRecord_shift:
  "ReadRecord (X @ S) (Some (length X + k)) c =
   (case ReadRecord S (Some k) c of
      Inl e \<Rightarrow> Inl e
    | Inr (ok, q, v) \<Rightarrow> Inr (ok, map_option (\<lambda>q. length X + q) q, v))"
  unfolding ReadRecord_def Let_def
  using comma_space_at_shift [of X S k] strncmp_eq_shift [of X S "k + 2" i32]
    string_find_first_not_of_shift [of X S NumberSymbols "k + 2 + length i32"]
    string_substr_shift [of X S "k + 2 + length i32"
      "string_find_first_not_of S NumberSymbols (k + 2 + length i32)"]
  by (simp add: add.assoc split: sum.splits)

lemma ReplaceRecord_shift:
  "ReplaceRecord (X @ S) (length X + k) V Name RecordName Expected =
   (case ReplaceRecord S k V Name RecordName Expected of
      Inl e \<Rightarrow> Inl e
    | Inr (S', p) \<Rightarrow> Inr (X @ S', length X + p))"
  unfolding ReplaceRecord_def Let_def
  using comma_space_at_shift [of X S k] strncmp_eq_shift [of X S "k + 2" i32]
    string_find_first_not_of_shift [of X S NumberSymbols "k + 2 + length i32"]
    string_substr_shift [of X S "k + 2 + length i32"
      "string_find_first_not_of S NumberSymbols (k + 2 + length i32)"]
    string_replace_shift [of X S "k + 2 + length i32"
      "string_find_first_not_of S NumberSymbols (k + 2 + length i32)" V]
  by (simp add: add.assoc split: sum.splits)

lemma ReadResName_shift:
  "ReadResName (X @ S) (length X + k) =
   (case ReadResName S k of (ok, p, n) \<Rightarrow> (ok, length X + p, n))"
  by (simp add: ReadResName_def Let_def nth_append add.assoc)

lemma growing_tail_facts:
  "ReadResName growing_tail 4 = (True, 4, [])"
  "ReadRecord growing_tail (Some 5) (- 1) = Inr (True, Some 12, 0)"
  "ReadRecord growing_tail (Some 12) (- 1) = Inr (True, Some 19, 0)"
  "ReplaceRecord growing_tail 5 ''0'' growing_name ''space'' 0 = Inr (growing_tail, 12)"
  "ReplaceRecord growing_tail 12 ''0'' growing_name ''register'' 0 = Inr (growing_tail, 19)"
  "string_insert growing_tail 4 growing_name = '', !\"AAAAAAAAAAAAAAA'' @ growing_tail"
  "to_string 0 = ''0''"
  "prefix ResNameDecl growing_tail"
  by code_simp+

lemma read_and_remap_growing_tail:
  "read_and_remap_declaration (growing_ExtResMap r) (X @ growing_tail) (length X + 4) (length X + 5)
     [] 0 RES_TYPE_SRV =
   Inr (Continue (growing_ExtResMap 0, X @ '', !\"AAAAAAAAAAAAAAA'' @ growing_tail, length X + 19))"
proof -
  have r1: "ReadRecord (X @ growing_tail) (Some (length X + 5)) (- 1) = Inr (True, Some (length X + 12), 0)"
    by (simp add: ReadRecord_shift growing_tail_facts)
  have r2: "ReadRecord (X @ growing_tail) (Some (length X + 12)) (- 1) = Inr (True, Some (length X + 19), 0)"
    by (simp add: ReadRecord_shift growing_tail_facts)
  have p1: "ReplaceRecord (X @ growing_tail) (length X + 5) ''0'' growing_name ''space'' 0 =
              Inr (X @ growing_tail, length X + 12)"
    by (simp add: ReplaceRecord_shift growing_tail_facts)
  have p2: "ReplaceRecord (X @ growing_tail) (length X + 12) ''0'' growing_name ''register'' 0 =
              Inr (X @ growing_tail, length X + 19)"
    by (simp add: ReplaceRecord_shift growing_tail_facts)
  have ins: "string_insert (X @ growing_tail) (length X + 4) growing_name =
               X @ '', !\"AAAAAAAAAAAAAAA'' @ growing_tail"
    by (simp only: string_insert_shift growing_tail_facts)
  show ?thesis
    unfolding read_and_remap_declaration_def remap_declaration_def Let_def
    by (simp add: r1 r2 growing_ExtResMap_def extract_Cons_code extract_Nil_code
        declaration_matches_def growing_tail_facts(7) p1 p2 ins)
qed

lemma growing_body:
  assumes Y: "CHR ''{'' \<notin> set Y"
    and f: "string_find (growing_head @ Y @ growing_tail) ResNameDecl pos = Some (length (growing_head @ Y))"
  shows "PatchResourceDeclaration_body (growing_ExtResMap r) (growing_head @ Y @ growing_tail) pos =
         Inr (Continue (growing_ExtResMap 0,
                        growing_head @ (Y @ '', !\"AAAAAAAAAAAAAAA'') @ growing_tail,
                        length (growing_head @ (Y @ '', !\"AAAAAAAAAAAAAAA''))))"
proof -
  let ?X = "growing_head @ Y"
  let ?D = "?X @ growing_tail"
  have D: "growing_head @ Y @ growing_tail = ?D" by simp
  have rn: "ReadResName ?D (length ?X + 4) = (True, length ?X + 4, [])"
    by (simp only: ReadResName_shift growing_tail_facts) simp
  have R: "CHR ''{'' \<notin> set (Y @ growing_tail)"
    using Y by (simp add: growing_tail_def)
  have E: "3 \<le> length ?X" by (simp add: growing_head_def)
  have pa: "parse_and_remap_declaration (growing_ExtResMap r) ?D
              (length ?X) (length ?X + 4) (length ?X + 4 + 1) [] =
            read_and_remap_declaration (growing_ExtResMap r) ?D
              (length ?X + 4) (length ?X + 4 + 1) [] 0 RES_TYPE_SRV"
    unfolding append_assoc using R E by (rule parse_growing_head)
  have e5: "length ?X + 4 + 1 = length ?X + 5" by simp
  have "PatchResourceDeclaration_body (growing_ExtResMap r) ?D pos =
        parse_and_remap_declaration (growing_ExtResMap r) ?D
          (length ?X) (length ?X + 4) (length ?X + 4 + 1) []"
    unfolding PatchResourceDeclaration_body_def Let_def record_lengths
    by (simp only: f [unfolded D] option.case rn prod.case not_True_eq_False if_False)
  also note pa
  also have "read_and_remap_declaration (growing_ExtResMap r) ?D
               (length ?X + 4) (length ?X + 4 + 1) [] 0 RES_TYPE_SRV =
             Inr (Continue (growing_ExtResMap 0, ?X @ '', !\"AAAAAAAAAAAAAAA'' @ growing_tail,
                            length ?X + 19))"
    unfolding e5 by (rule read_and_remap_growing_tail)
  finally show ?thesis by simp
qed

lemma growing_loop_diverges:
  assumes "PatchResourceDeclaration_loop ExtResMap DXIL pos = Some y"
  shows "\<not> (\<exists>r Y. ExtResMap = growing_ExtResMap r \<and> DXIL = growing_head @ Y @ growing_tail \<and>
              CHR ''{'' \<notin> set Y \<and>
              string_find DXIL ResNameDecl pos = Some (length (growing_head @ Y)))"
proof (induction ExtResMap DXIL pos y rule: PatchResourceDeclaration_loop.raw_induct)
  case (1 loop ExtResMap DXIL pos y)
  show ?case
  proof
    assume "\<exists>r Y. ExtResMap = growing_ExtResMap r \<and> DXIL = growing_head @ Y @ growing_tail \<and>
              CHR ''{'' \<notin> set Y \<and>
              string_find DXIL ResNameDecl pos = Some (length (growing_head @ Y))"
    then obtain r Y where e: "ExtResMap = growing_ExtResMap r" "DXIL = growing_head @ Y @ growing_tail"
      and Y: "CHR ''{'' \<notin> set Y"
      and f: "string_find (growing_head @ Y @ growing_tail) ResNameDecl pos = Some (length (growing_head @ Y))"
      by blast
    let ?Y = "Y @ '', !\"AAAAAAAAAAAAAAA''"
    from string_find_Some [OF f] have lt: "pos < length DXIL"
      by (simp add: e growing_tail_def)
    have b: "PatchResourceDeclaration_body ExtResMap DXIL pos =
               Inr (Continue (growing_ExtResMap 0, growing_head @ ?Y @ growing_tail,
                              length (growing_head @ ?Y)))"
      unfolding e using Y f by (rule growing_body)
    from 1(2) have nxt:
      "loop (growing_ExtResMap 0) (growing_head @ ?Y @ growing_tail) (length (growing_head @ ?Y)) = Some y"
      by (simp only: lt b if_False sum.case loop_step.case prod.case simp_thms)
    have Y': "CHR ''{'' \<notin> set ?Y" using Y by simp
    have "prefix ResNameDecl (drop (length (growing_head @ ?Y)) (growing_head @ ?Y @ growing_tail))"
      using growing_tail_facts(8) by simp
    then have fnd: "string_find (growing_head @ ?Y @ growing_tail) ResNameDecl (length (growing_head @ ?Y)) =
               Some (length (growing_head @ ?Y))"
      by (rule string_find_here) simp
    have "\<exists>r Ya. growing_ExtResMap 0 = growing_ExtResMap r \<and>
            growing_head @ ?Y @ growing_tail = growing_head @ Ya @ growing_tail \<and>
            CHR ''{'' \<notin> set Ya \<and>
            string_find (growing_head @ ?Y @ growing_tail) ResNameDecl (length (growing_head @ ?Y)) =
              Some (length (growing_head @ Ya))"
      using Y' fnd by (intro exI [of _ 0] exI [of _ ?Y] conjI refl)
    with 1(1) [OF nxt] show False by (rule notE)
  qed
qed (rule assms)

lemma growing_declaration_scan:
  "PatchResourceDeclaration ResourceMap (growing_ExtResMap (- 1)) (growing_head @ growing_tail) = None"
proof (cases "PatchResourceDeclaration_loop (growing_ExtResMap (- 1)) (growing_head @ growing_tail) 0")
  case None
  then show ?thesis by (simp add: PatchResourceDeclaration_def)
next
  case (Some y)
  have "string_find (growing_head @ growing_tail) ResNameDecl 0 = Some (length growing_head)"
    by code_simp
  with growing_loop_diverges [OF Some] have False
    by (auto dest!: spec [of _ "- 1"] spec [of _ "[]"])
  then show ?thesis ..
qed

lemma PatchDXIL_returns:
  assumes "bang_free_names ExtResMap"
  shows "PatchDXIL ResourceMap ExtResMap ShaderType DXIL \<noteq> NoReturn"
proof (cases "ShaderType \<in> set SHADER_TYPE_ALL_RAY_TRACING")
  case True
  then show ?thesis
    by (auto simp: PatchDXIL_def caught_def split: sum.splits)
next
  case False
  from PatchResourceDeclaration_loop_returns [OF assms, of DXIL 0] obtain r where
    r: "PatchResourceDeclaration ResourceMap ExtResMap DXIL = Some r"
    by (auto simp: PatchResourceDeclaration_def)
  show ?thesis
  proof (cases r)
    case (Inl e)
    with r False show ?thesis by (simp add: PatchDXIL_def caught_def)
  next
    case (Inr st)
    obtain E1 D1 where st: "st = (E1, D1)" by (cases st)
    from PatchResourceHandle_loop_returns [of E1 D1 0] obtain h where
      h: "PatchResourceHandle ResourceMap E1 D1 = Some h"
      by (auto simp: PatchResourceHandle_def)
    with r Inr st False show ?thesis
      by (cases h) (simp_all add: PatchDXIL_def caught_def)
  qed
qed




subsection \<open>Cursors and edits\<close>

lemma read_and_remap_declaration_cases:
  assumes r: "read_and_remap_declaration ExtResMap DXIL B BRS ResName RecId ResType =
               Inr (Continue (ExtResMap', DXIL', pos'))"
  shows "ExtResMap' = ExtResMap \<and> DXIL' = DXIL \<or>
         (\<exists>Space' BindPoint'.
            remap_declaration ExtResMap DXIL B BRS ResName RecId ResType Space' BindPoint' =
              Inr (Continue (ExtResMap', DXIL', pos')))"
proof -
  from r obtain ok1 posA Space' where
    r1: "ReadRecord DXIL (Some BRS) (- 1) = Inr (ok1, posA, Space')"
    unfolding read_and_remap_declaration_def by (auto split: sum.splits)
  show ?thesis
  proof (cases ok1)
    case False
    with r r1 have "continue_at ExtResMap DXIL posA = Continue (ExtResMap', DXIL', pos')"
      unfolding read_and_remap_declaration_def by simp
    from continue_at_Continue [OF this] show ?thesis by simp
  next
    case True
    with r r1 obtain ok2 posB BindPoint' where
      r2: "ReadRecord DXIL posA (- 1) = Inr (ok2, posB, BindPoint')"
      unfolding read_and_remap_declaration_def by (auto split: sum.splits)
    show ?thesis
    proof (cases ok2)
      case ok2: True
      with True r r1 r2 have
        "remap_declaration ExtResMap DXIL B BRS ResName RecId ResType Space' BindPoint' =
           Inr (Continue (ExtResMap', DXIL', pos'))"
        unfolding read_and_remap_declaration_def by simp
      then show ?thesis by blast
    next
      case nok2: False
      with True r r1 r2 have c: "continue_at ExtResMap DXIL posB = Continue (ExtResMap', DXIL', pos')"
        unfolding read_and_remap_declaration_def by simp
      from continue_at_Continue [OF c] show ?thesis by simp
    qed
  qed
qed

lemma parse_and_remap_declaration_cases:
  assumes r: "parse_and_remap_declaration ExtResMap DXIL EndOfResTypeRecord B BRS ResName =
               Inr (Continue (ExtResMap', DXIL', pos'))"
  shows "ExtResMap' = ExtResMap \<and> DXIL' = DXIL \<or>
         (\<exists>RecId ResType Space' BindPoint'.
            remap_declaration ExtResMap DXIL B BRS ResName RecId ResType Space' BindPoint' =
              Inr (Continue (ExtResMap', DXIL', pos')))"
proof -
  from r obtain RecStart where rs: "string_rfind DXIL ResourceRecStart EndOfResTypeRecord = Some RecStart"
    unfolding parse_and_remap_declaration_def by (auto split: option.splits)
  show ?thesis
  proof (cases "strncmp_eq DXIL (RecStart + length ResourceRecStart) i32")
    case False
    with r rs show ?thesis
      unfolding parse_and_remap_declaration_def by simp
  next
    case t: True
    let ?s = "RecStart + length ResourceRecStart + length i32"
    from r rs t obtain RecordIdEndPos where
      re: "string_find_first_not_of DXIL NumberSymbols ?s = Some RecordIdEndPos"
      unfolding parse_and_remap_declaration_def Let_def by (auto split: option.splits)
    from r rs t re obtain RecId where ri: "atoi (drop ?s DXIL) = Inr RecId"
      unfolding parse_and_remap_declaration_def Let_def by (auto split: sum.splits)
    from r rs t re ri have cs: "comma_space_at DXIL RecordIdEndPos"
      unfolding parse_and_remap_declaration_def Let_def by (auto split: if_splits)
    let ?p1 = "skip_array_declaration DXIL (RecordIdEndPos + 2) EndOfResTypeRecord"
    show ?thesis
    proof (cases "char_at DXIL ?p1 = CHR ''%''")
      case False
      with r rs t re ri cs show ?thesis
        unfolding parse_and_remap_declaration_def Let_def by simp
    next
      case pc: True
      obtain pos2 NameParts where sk: "skip_name_parts DXIL (?p1 + 1) = (pos2, NameParts)"
        by (cases "skip_name_parts DXIL (?p1 + 1)")
      show ?thesis
      proof (cases "classify_resource_type ExtResMap DXIL pos2 NameParts = RES_TYPE_INVALID")
        case True
        with r rs t re ri cs pc sk show ?thesis
          unfolding parse_and_remap_declaration_def Let_def by simp
      next
        case False
        with r rs t re ri cs pc sk have
          "read_and_remap_declaration ExtResMap DXIL B BRS ResName (to_Uint32 RecId)
             (classify_resource_type ExtResMap DXIL pos2 NameParts) =
           Inr (Continue (ExtResMap', DXIL', pos'))"
          unfolding parse_and_remap_declaration_def Let_def by simp
        from read_and_remap_declaration_cases [OF this] show ?thesis by blast
      qed
    qed
  qed
qed

lemma ReplaceRecord_cursor:
  assumes "ReplaceRecord DXIL pos NewValue Name RecordName Expected = Inr (DXIL', pos')"
  shows "pos' = pos + 6 + length NewValue \<and> pos' \<le> length DXIL' \<and>
         take pos' DXIL' = take (pos + 6) DXIL @ NewValue \<and>
         (\<exists>b. pos + 6 \<le> b \<and> drop pos' DXIL' = drop b DXIL)"
proof -
  from assms have cs: "comma_space_at DXIL pos" and sc: "strncmp_eq DXIL (pos + 2) i32"
    unfolding ReplaceRecord_def by (auto split: if_splits)
  from sc prefix_drop_length [of i32 "pos + 2" DXIL] have len: "pos + 6 \<le> length DXIL"
    by (simp add: strncmp_eq_def i32_def)
  from ReplaceRecord_Inr [OF assms] obtain b where
    p: "pos' = pos + 6 + length NewValue" and b: "pos + 6 \<le> b"
    and D: "DXIL' = take (pos + 6) DXIL @ NewValue @ drop b DXIL"
    by blast
  have l: "length (take (pos + 6) DXIL) = pos + 6" using len by simp
  have "take pos' DXIL' = take (pos + 6) DXIL @ NewValue"
    unfolding D p using l by (simp del: length_take)
  moreover have "drop pos' DXIL' = drop b DXIL"
    unfolding D p using l by (simp del: length_take)
  moreover have "pos' \<le> length DXIL'"
    unfolding D p using l by (simp del: length_take)
  ultimately show ?thesis using p b by blast
qed

lemma remap_declaration_edit:
  assumes r: "remap_declaration ExtResMap DXIL B BRS ResName RecId ResType Space' BindPoint' =
               Inr (Continue (ExtResMap', DXIL', pos'))"
  shows "\<exists>ResInfo D1 p1 D2.
           ResInfo \<in> set ExtResMap \<and>
           ReplaceRecord DXIL BRS (to_string (Space (snd (fst ResInfo)))) (fst (fst ResInfo))
             ''space'' (SrcSpace (snd ResInfo)) = Inr (D1, p1) \<and>
           ReplaceRecord D1 p1 (to_string (BindPoint (snd (fst ResInfo)))) (fst (fst ResInfo))
             ''register'' (SrcBindPoint (snd ResInfo)) = Inr (D2, pos') \<and>
           DXIL' = (if ResName = [] then string_insert D2 B (fst (fst ResInfo)) else D2)"
proof -
  from r obtain before ResInfo after where
    ex: "List.extract (declaration_matches BindPoint' Space' ResType) ExtResMap = Some (before, ResInfo, after)"
    unfolding remap_declaration_def by (auto split: option.splits)
  let ?name = "fst (fst ResInfo)"
  let ?Ext = "(snd ResInfo)\<lparr>RecordId := RecId\<rparr>"
  from r ex obtain D1 p1 where
    r1: "ReplaceRecord DXIL BRS (to_string (Space (snd (fst ResInfo)))) ?name ''space'' (SrcSpace ?Ext) =
           Inr (D1, p1)"
    unfolding remap_declaration_def Let_def by (auto split: sum.splits)
  from r ex r1 obtain D2 p2 where
    r2: "ReplaceRecord D1 p1 (to_string (BindPoint (snd (fst ResInfo)))) ?name ''register'' (SrcBindPoint ?Ext) =
           Inr (D2, p2)"
    unfolding remap_declaration_def Let_def by (auto split: sum.splits)
  from r ex r1 r2 have fin:
    "DXIL' = (if ResName = [] then string_insert D2 B ?name else D2)"
    "pos' = p2"
    unfolding remap_declaration_def Let_def by (auto split: sum.splits)
  have "ResInfo \<in> set ExtResMap"
    using extract_names [OF ex] by simp
  with r1 r2 fin show ?thesis
    by (intro exI [of _ ResInfo] exI [of _ D1] exI [of _ p1] exI [of _ D2]) simp
qed

lemma drop_behind_insertion:
  assumes "B \<le> p" and "p \<le> length D"
  shows "drop (p + length name) (string_insert D B name) = drop p D"
proof -
  have l: "length (take B D) = B" using assms by simp
  have "drop (p + length name) (take B D @ name @ drop B D) = drop (p - B) (drop B D)"
    using l assms(1) by (simp del: length_take drop_drop)
  then show ?thesis using assms(1) by (simp add: string_insert_def)
qed

lemma PatchResourceDeclaration_body_edit:
  assumes r: "PatchResourceDeclaration_body ExtResMap DXIL pos = Inr (Continue (ExtResMap', DXIL', pos'))"
  shows "ExtResMap' = ExtResMap \<and> DXIL' = DXIL \<or>
         (\<exists>EndOfResTypeRecord pos1 ResName ResInfo D1 p1 D2.
            string_find DXIL ResNameDecl pos = Some EndOfResTypeRecord \<and>
            ReadResName DXIL (EndOfResTypeRecord + 4) = (True, pos1, ResName) \<and>
            ResInfo \<in> set ExtResMap \<and>
            ReplaceRecord DXIL (pos1 + 1) (to_string (Space (snd (fst ResInfo)))) (fst (fst ResInfo))
              ''space'' (SrcSpace (snd ResInfo)) = Inr (D1, p1) \<and>
            ReplaceRecord D1 p1 (to_string (BindPoint (snd (fst ResInfo)))) (fst (fst ResInfo))
              ''register'' (SrcBindPoint (snd ResInfo)) = Inr (D2, pos') \<and>
            DXIL' = (if ResName = [] then string_insert D2 (EndOfResTypeRecord + 4) (fst (fst ResInfo))
                     else D2) \<and>
            (ResName = [] \<longrightarrow> drop (pos' + length (fst (fst ResInfo))) DXIL' = drop pos' D2))"
proof -
  from r obtain E where E: "string_find DXIL ResNameDecl pos = Some E"
    unfolding PatchResourceDeclaration_body_def by (auto split: option.splits)
  obtain ok pos1 ResName where rn: "ReadResName DXIL (E + 4) = (ok, pos1, ResName)"
    by (cases "ReadResName DXIL (E + 4)")
  from ReadResName_ge [OF rn] have p1: "E + 4 \<le> pos1" .
  show ?thesis
  proof (cases ok)
    case False
    with r E rn have "ExtResMap' = ExtResMap" "DXIL' = DXIL"
      unfolding PatchResourceDeclaration_body_def Let_def by (simp_all add: ResNameDecl_at)
    then show ?thesis by simp
  next
    case True
    with r E rn have
      "parse_and_remap_declaration ExtResMap DXIL E (E + 4) (pos1 + 1) ResName =
         Inr (Continue (ExtResMap', DXIL', pos'))"
      unfolding PatchResourceDeclaration_body_def Let_def by (simp add: ResNameDecl_at)
    from parse_and_remap_declaration_cases [OF this] show ?thesis
    proof (elim disjE exE)
      assume "ExtResMap' = ExtResMap \<and> DXIL' = DXIL"
      then show ?thesis by simp
    next
      fix RecId ResType Space' BindPoint'
      assume "remap_declaration ExtResMap DXIL (E + 4) (pos1 + 1) ResName RecId ResType Space' BindPoint' =
              Inr (Continue (ExtResMap', DXIL', pos'))"
      from remap_declaration_edit [OF this] obtain ResInfo D1 q1 D2 where
        e: "ResInfo \<in> set ExtResMap"
          "ReplaceRecord DXIL (pos1 + 1) (to_string (Space (snd (fst ResInfo)))) (fst (fst ResInfo))
             ''space'' (SrcSpace (snd ResInfo)) = Inr (D1, q1)"
          "ReplaceRecord D1 q1 (to_string (BindPoint (snd (fst ResInfo)))) (fst (fst ResInfo))
             ''register'' (SrcBindPoint (snd ResInfo)) = Inr (D2, pos')"
          "DXIL' = (if ResName = [] then string_insert D2 (E + 4) (fst (fst ResInfo)) else D2)"
        by blast
      from ReplaceRecord_cursor [OF e(2)] ReplaceRecord_cursor [OF e(3)] p1
      have "E + 4 \<le> pos'" "pos' \<le> length D2" by simp_all
      then have "ResName = [] \<longrightarrow> drop (pos' + length (fst (fst ResInfo))) DXIL' = drop pos' D2"
        unfolding e(4) by (simp add: drop_behind_insertion)
      moreover have "ReadResName DXIL (E + 4) = (True, pos1, ResName)"
        using rn True by simp
      ultimately show ?thesis
        apply (intro disjI2)
        apply (rule exI [of _ E])
        apply (rule exI [of _ pos1])
        apply (rule exI [of _ ResName])
        apply (rule exI [of _ ResInfo])
        apply (rule exI [of _ D1])
        apply (rule exI [of _ q1])
        apply (rule exI [of _ D2])
        using E e by simp
    qed
  qed
qed

text \<open>
  Claim C8 fails as stated. The declaration scan replaces the two fields of the
  declaration without a name; the second \<^verbatim>\<open>ReplaceRecord\<close> leaves the cursor 65, just
  behind the new bind point. Then \<^verbatim>\<open>DXIL.insert(BeginOfResName, ...)\<close> puts the five bytes
  of the name at offset 50, before the cursor, and the loop goes on with the cursor 65:
  the text that stood at the cursor now stands at 70, and the cursor points into the
  field it had passed. Likewise the handle-creation scan replaces the index \<^verbatim>\<open>7\<close>, which
  ends at offset 73, by \<^verbatim>\<open>12\<close>, which ends at 74, and goes on with
  \<^verbatim>\<open>pos = IndexEndPos\<close>, the offset 73 that it read before the replacement.
\<close>

theorem scan_positions_are_not_recomputed:
  "PatchResourceDeclaration_body g_Tex_ext example_unnamed_IR 0 =
     Inr (Continue (g_Tex_ext_found, example_unnamed_IR_patched, 65)) \<and>
   ReplaceRecord
     ''!5 = !{i32 0, %\"class.Texture2D<float>\"* undef, !\"\", i32 0, i32 0, i32 1}'' 58
     ''3'' ''g_Tex'' ''register'' 0 = Inr (example_unnamed_IR_replaced, 65) \<and>
   example_unnamed_IR_patched = string_insert example_unnamed_IR_replaced 50 ''g_Tex'' \<and>
   drop 65 example_unnamed_IR_replaced = '', i32 1}'' \<and>
   drop 65 example_unnamed_IR_patched = ''i32 3, i32 1}'' \<and>
   drop 70 example_unnamed_IR_patched = '', i32 1}'' \<and>
   read_createHandle example_literal_IR 0 = Inr (Some (0, 0, 72, 73)) \<and>
   PatchResourceHandle_body array_ext example_literal_IR 0 =
     Inr (Continue (example_literal_IR_patched, 73)) \<and>
   drop 73 example_literal_IR = '', i1 false)'' \<and>
   drop 73 example_literal_IR_patched = ''2, i1 false)'' \<and>
   drop 74 example_literal_IR_patched = '', i1 false)''"
  by code_simp

text \<open>
  Claim C8, amended. (1) The cursor that \<^verbatim>\<open>ReplaceRecord\<close> returns is computed from the
  edit: it is the offset just behind the new value in the new text, and the text behind
  it is text that stood behind the field. (2) A pass through the body of the declaration
  scan that goes on with the loop either leaves the map and the text as they are, or it
  has replaced the space field from the cursor behind the name, replaced the bind point
  field from the cursor that the first replacement returned, and, where the declaration
  has no name, inserted the name of the resource at the place of the name; the cursor it
  leaves is the one that the second replacement returned, and after the insertion of a
  name the text that stood at that cursor stands behind it by the length of the name:
  the cursor of the scan is not computed anew. (3) A pass through the body of the
  handle-creation scan that goes on with the loop has replaced one span of the text by a
  decimal number, and the cursor it leaves is the end of the index operand as it was
  read in the text before the replacement.
\<close>

theorem cursors_after_edits:
  "(\<forall>DXIL' pos'.
      ReplaceRecord DXIL pos NewValue Name RecordName Expected = Inr (DXIL', pos') \<longrightarrow>
      pos' = pos + 6 + length NewValue \<and>
      take pos' DXIL' = take (pos + 6) DXIL @ NewValue \<and>
      (\<exists>b. pos + 6 \<le> b \<and> drop pos' DXIL' = drop b DXIL)) \<and>
   (\<forall>ExtResMap' DXIL' pos'.
      PatchResourceDeclaration_body ExtResMap DXIL pos = Inr (Continue (ExtResMap', DXIL', pos')) \<longrightarrow>
      ExtResMap' = ExtResMap \<and> DXIL' = DXIL \<or>
      (\<exists>EndOfResTypeRecord pos1 ResName ResInfo D1 p1 D2.
         string_find DXIL ResNameDecl pos = Some EndOfResTypeRecord \<and>
         ReadResName DXIL (EndOfResTypeRecord + 4) = (True, pos1, ResName) \<and>
         ResInfo \<in> set ExtResMap \<and>
         ReplaceRecord DXIL (pos1 + 1) (to_string (Space (snd (fst ResInfo)))) (fst (fst ResInfo))
           ''space'' (SrcSpace (snd ResInfo)) = Inr (D1, p1) \<and>
         ReplaceRecord D1 p1 (to_string (BindPoint (snd (fst ResInfo)))) (fst (fst ResInfo))
           ''register'' (SrcBindPoint (snd ResInfo)) = Inr (D2, pos') \<and>
         DXIL' = (if ResName = [] then string_insert D2 (EndOfResTypeRecord + 4) (fst (fst ResInfo))
                  else D2) \<and>
         (ResName = [] \<longrightarrow> drop (pos' + length (fst (fst ResInfo))) DXIL' = drop pos' D2))) \<and>
   (\<forall>DXIL' pos'.
      PatchResourceHandle_body ExtResMap DXIL pos = Inr (Continue (DXIL', pos')) \<longrightarrow>
      (\<exists>ResClass RangeId IndexStartPos a b w.
         read_createHandle DXIL pos = Inr (Some (ResClass, RangeId, IndexStartPos, pos')) \<and>
         a \<le> b \<and> DXIL' = take a DXIL @ to_string w @ drop b DXIL))"
proof (intro conjI allI impI)
  fix DXIL' pos'
  assume r: "ReplaceRecord DXIL pos NewValue Name RecordName Expected = Inr (DXIL', pos')"
  from ReplaceRecord_cursor [OF r] show "pos' = pos + 6 + length NewValue" by blast
  from ReplaceRecord_cursor [OF r] show "take pos' DXIL' = take (pos + 6) DXIL @ NewValue" by blast
  from ReplaceRecord_cursor [OF r] show "\<exists>b. pos + 6 \<le> b \<and> drop pos' DXIL' = drop b DXIL" by blast
next
  fix ExtResMap' DXIL' pos'
  assume "PatchResourceDeclaration_body ExtResMap DXIL pos = Inr (Continue (ExtResMap', DXIL', pos'))"
  then show "ExtResMap' = ExtResMap \<and> DXIL' = DXIL \<or>
      (\<exists>EndOfResTypeRecord pos1 ResName ResInfo D1 p1 D2.
         string_find DXIL ResNameDecl pos = Some EndOfResTypeRecord \<and>
         ReadResName DXIL (EndOfResTypeRecord + 4) = (True, pos1, ResName) \<and>
         ResInfo \<in> set ExtResMap \<and>
         ReplaceRecord DXIL (pos1 + 1) (to_string (Space (snd (fst ResInfo)))) (fst (fst ResInfo))
           ''space'' (SrcSpace (snd ResInfo)) = Inr (D1, p1) \<and>
         ReplaceRecord D1 p1 (to_string (BindPoint (snd (fst ResInfo)))) (fst (fst ResInfo))
           ''register'' (SrcBindPoint (snd ResInfo)) = Inr (D2, pos') \<and>
         DXIL' = (if ResName = [] then string_insert D2 (EndOfResTypeRecord + 4) (fst (fst ResInfo))
                  else D2) \<and>
         (ResName = [] \<longrightarrow> drop (pos' + length (fst (fst ResInfo))) DXIL' = drop pos' D2))"
    by (rule PatchResourceDeclaration_body_edit)
next
  fix DXIL' pos'
  assume a: "PatchResourceHandle_body ExtResMap DXIL pos = Inr (Continue (DXIL', pos'))"
  then obtain ResClass RangeId IndexStartPos IndexEndPos where
    c: "read_createHandle DXIL pos = Inr (Some (ResClass, RangeId, IndexStartPos, IndexEndPos))"
    unfolding PatchResourceHandle_body_def by (auto split: sum.splits option.splits)
  with a have r: "replace_index ExtResMap DXIL ResClass RangeId IndexStartPos IndexEndPos = Inr DXIL'"
    and p: "pos' = IndexEndPos"
    unfolding PatchResourceHandle_body_def by (auto split: sum.splits)
  from replace_index_Inr [OF r] c p
  show "\<exists>ResClass RangeId IndexStartPos a b w.
         read_createHandle DXIL pos = Inr (Some (ResClass, RangeId, IndexStartPos, pos')) \<and>
         a \<le> b \<and> DXIL' = take a DXIL @ to_string w @ drop b DXIL"
    by blast
qed

text \<open>
  The declaration without a name and the call with the literal index: the cursor behind
  the space field is 58, behind the bind point field 65, behind the index operand 73.
\<close>

theorem cursors_after_edits_witness:
  "ReplaceRecord example_unnamed_IR 51 ''0'' ''g_Tex'' ''space'' 2 =
     Inr (''!5 = !{i32 0, %\"class.Texture2D<float>\"* undef, !\"\", i32 0, i32 0, i32 1}'', 58) \<and>
   take 58 ''!5 = !{i32 0, %\"class.Texture2D<float>\"* undef, !\"\", i32 0, i32 0, i32 1}'' =
     take (51 + 6) example_unnamed_IR @ ''0'' \<and>
   PatchResourceDeclaration_body g_Tex_ext example_unnamed_IR 0 =
     Inr (Continue (g_Tex_ext_found, example_unnamed_IR_patched, 65)) \<and>
   PatchResourceHandle_body array_ext example_literal_IR 0 =
     Inr (Continue (example_literal_IR_patched, 73)) \<and>
   (\<exists>ResClass RangeId IndexStartPos a b w.
      read_createHandle example_literal_IR 0 = Inr (Some (ResClass, RangeId, IndexStartPos, 73)) \<and>
      a \<le> b \<and> example_literal_IR_patched = take a example_literal_IR @ to_string w @ drop b example_literal_IR)"
proof -
  have r: "ReplaceRecord example_unnamed_IR 51 ''0'' ''g_Tex'' ''space'' 2 =
     Inr (''!5 = !{i32 0, %\"class.Texture2D<float>\"* undef, !\"\", i32 0, i32 0, i32 1}'', 58)"
    by code_simp
  have d: "PatchResourceDeclaration_body g_Tex_ext example_unnamed_IR 0 =
     Inr (Continue (g_Tex_ext_found, example_unnamed_IR_patched, 65))"
    by code_simp
  have h: "PatchResourceHandle_body array_ext example_literal_IR 0 =
     Inr (Continue (example_literal_IR_patched, 73))"
    by code_simp
  note T = cursors_after_edits [where DXIL = example_unnamed_IR and pos = 51 and NewValue = "''0''"
             and Name = "''g_Tex''" and RecordName = "''space''" and Expected = 2]
  note H = cursors_after_edits [where DXIL = example_literal_IR and pos = 0 and ExtResMap = array_ext]
  have "take 58 ''!5 = !{i32 0, %\"class.Texture2D<float>\"* undef, !\"\", i32 0, i32 0, i32 1}'' =
     take (51 + 6) example_unnamed_IR @ ''0''"
    using T r by blast
  moreover have "\<exists>ResClass RangeId IndexStartPos a b w.
      read_createHandle example_literal_IR 0 = Inr (Some (ResClass, RangeId, IndexStartPos, 73)) \<and>
      a \<le> b \<and> example_literal_IR_patched = take a example_literal_IR @ to_string w @ drop b example_literal_IR"
    using H h by blast
  ultimately show ?thesis using r d h by blast
qed

end
